(* ===== verification/Prelude.thy ===== *)
theory Prelude
  imports Complex_Main "HOL-Library.AList"
begin

text \<open>
  Shared vocabulary of the development: the Python exceptions the program can raise, the
  result type \<open>py_error + 'a\<close> every fallible operation returns (\<open>Inl\<close> is the exception),
  and the Python built-ins the program relies on: list slicing \<open>xs[a:b]\<close> and
  \<open>xs[-n:]\<close>, \<open>str.split()\<close>, \<open>str(n)\<close> and \<open>int(s)\<close> for integers.  Python floats
  are modelled as \<open>real\<close> throughout (no rounding, no NaN or infinities), Python ints as
  \<open>int\<close> or, where they are never negative, \<open>nat\<close>.
\<close>

named_theorems py_simps "equations of the modelled Python primitives"

section \<open>Errors and results\<close>

datatype py_error =
    IndexError          \<comment> \<open>\<open>list.pop(0)\<close> on an empty list, \<open>xs[i]\<close> out of range\<close>
  | ValueError          \<comment> \<open>\<open>float(s)\<close>, \<open>int(s)\<close> on a malformed literal, ragged \<open>np.array\<close>,
                           \<open>np.argmin\<close> of an empty array, \<open>raise ValueError\<close>\<close>
  | ZeroDivisionError   \<comment> \<open>\<open>//\<close> or \<open>%\<close> by zero\<close>
  | StopIteration       \<comment> \<open>\<open>next\<close> on an exhausted iterator\<close>
  | TypeError           \<comment> \<open>a value of the wrong type passed on, e.g. a list to \<open>tokenizer.decode\<close>\<close>
  | InvalidArgument     \<comment> \<open>TensorFlow's shape errors (incompatible shapes, bad reshape)\<close>
  | AssertionError      \<comment> \<open>a failed \<open>assert\<close>\<close>

type_synonym 'a result = "py_error + 'a"

definition rbind :: "'a result \<Rightarrow> ('a \<Rightarrow> 'b result) \<Rightarrow> 'b result" where
  "rbind r f = (case r of Inl e \<Rightarrow> Inl e | Inr x \<Rightarrow> f x)"

lemma rbind_Inl [simp]: "rbind (Inl e) f = Inl e"
  and rbind_Inr [simp]: "rbind (Inr x) f = f x"
  by (simp_all add: rbind_def)

lemma rbind_eq_Inr: "rbind r f = Inr y \<longleftrightarrow> (\<exists>x. r = Inr x \<and> f x = Inr y)"
  by (cases r) simp_all

lemma rbind_eq_Inl: "rbind r f = Inl e \<longleftrightarrow> r = Inl e \<or> (\<exists>x. r = Inr x \<and> f x = Inl e)"
  by (cases r) simp_all

lemma rbind_Inr_right [simp]: "rbind r Inr = r"
  by (cases r) auto

lemma rbind_assoc: "rbind (rbind r f) g = rbind r (\<lambda>x. rbind (f x) g)"
  by (cases r) auto

text \<open>Recursive calls under \<open>rbind\<close> see the value that was bound.\<close>

lemma rbind_cong [fundef_cong]:
  "r = r' \<Longrightarrow> (\<And>x. r' = Inr x \<Longrightarrow> f x = g x) \<Longrightarrow> rbind r f = rbind r' g"
  by (cases r') simp_all

section \<open>List slicing\<close>

text \<open>
  \<open>xs[a:b]\<close> for non-negative bounds: Python clamps both bounds to the length, and an
  empty range (\<open>b \<le> a\<close>) gives the empty list; \<open>nat\<close> subtraction does exactly that.
\<close>

definition py_slice :: "'a list \<Rightarrow> nat \<Rightarrow> nat \<Rightarrow> 'a list" where
  "py_slice xs a b = take (b - a) (drop a xs)"

text \<open>
  \<open>xs[-n:]\<close>: the last \<open>n\<close> elements, or all of them when there are fewer; for
  \<open>n = 0\<close> the start index is \<open>-0 = 0\<close>, so the whole list.
\<close>

definition py_tail_slice :: "nat \<Rightarrow> 'a list \<Rightarrow> 'a list" where
  "py_tail_slice n xs = (if n = 0 then xs else drop (length xs - n) xs)"

lemma length_py_slice [simp]: "length (py_slice xs a b) = min (b - a) (length xs - a)"
  by (simp add: py_slice_def)

lemma py_slice_full:
  "a + w \<le> length xs \<Longrightarrow> py_slice xs a (a + w) = take w (drop a xs)"
  by (simp add: py_slice_def)

lemma length_py_tail_slice [simp]:
  "length (py_tail_slice n xs) = (if n = 0 then length xs else min n (length xs))"
  by (simp add: py_tail_slice_def min_def)

lemma py_tail_slice_take_drop:
  "0 < n \<Longrightarrow> length xs = n + p \<Longrightarrow> py_tail_slice n xs = drop p xs"
  by (simp add: py_tail_slice_def)

section \<open>Whitespace splitting\<close>

text \<open>
  Python's \<open>str.split()\<close> with no argument splits at runs of whitespace and drops empty
  pieces.  On ASCII the whitespace characters are 9--13 and 28--32.
\<close>

definition py_space :: "char \<Rightarrow> bool" where
  "py_space c = (let n = (of_char c :: nat) in (9 \<le> n \<and> n \<le> 13) \<or> (28 \<le> n \<and> n \<le> 32))"

fun split_aux :: "string \<Rightarrow> string \<Rightarrow> string list" where
  "split_aux cur [] = (if cur = [] then [] else [rev cur])"
| "split_aux cur (c # cs) =
     (if py_space c then (if cur = [] then split_aux [] cs else rev cur # split_aux [] cs)
      else split_aux (c # cur) cs)"

definition py_split :: "string \<Rightarrow> string list" where
  "py_split s = split_aux [] s"

lemma split_aux_nonempty: "w \<in> set (split_aux cur s) \<Longrightarrow> w \<noteq> []"
  by (induction cur s rule: split_aux.induct) (auto split: if_splits)

lemma split_aux_no_space:
  "\<forall>c\<in>set cur. \<not> py_space c \<Longrightarrow> w \<in> set (split_aux cur s) \<Longrightarrow> c \<in> set w \<Longrightarrow> \<not> py_space c"
  by (induction cur s rule: split_aux.induct) (auto split: if_splits)

lemma split_aux_all_space: "\<forall>c\<in>set s. py_space c \<Longrightarrow> split_aux [] s = []"
  by (induction s) auto

section \<open>Integers as decimal strings\<close>

definition digit_char :: "nat \<Rightarrow> char" where
  "digit_char d = char_of (48 + d)"

definition char_digit :: "char \<Rightarrow> nat option" where
  "char_digit c = (let n = (of_char c :: nat) in if 48 \<le> n \<and> n \<le> 57 then Some (n - 48) else None)"

lemma char_digit_digit_char [simp]: "d < 10 \<Longrightarrow> char_digit (digit_char d) = Some d"
  by (simp add: char_digit_def digit_char_def of_char_of)

fun nat_digits :: "nat \<Rightarrow> string" where
  "nat_digits n = (if n < 10 then [digit_char n] else nat_digits (n div 10) @ [digit_char (n mod 10)])"

declare nat_digits.simps [simp del]

text \<open>\<open>str(n)\<close> for a Python int.\<close>

definition py_str_int :: "int \<Rightarrow> string" where
  "py_str_int i = (if i < 0 then CHR ''-'' # nat_digits (nat (- i)) else nat_digits (nat i))"

fun digits_value :: "nat \<Rightarrow> string \<Rightarrow> nat option" where
  "digits_value acc [] = Some acc"
| "digits_value acc (c # cs) =
     (case char_digit c of None \<Rightarrow> None | Some d \<Rightarrow> digits_value (10 * acc + d) cs)"

text \<open>
  \<open>int(s)\<close> for a token without surrounding whitespace: an optional sign and at least one
  decimal digit (leading zeros allowed); anything else raises \<open>ValueError\<close>.  Python also
  accepts single underscores between digits, which the vocabulary keys never contain.
\<close>

definition py_int :: "string \<Rightarrow> int result" where
  "py_int s =
     (let (neg, ds) = (case s of c # cs \<Rightarrow>
                         if c = CHR ''-'' then (True, cs) else if c = CHR ''+'' then (False, cs)
                         else (False, s)
                       | [] \<Rightarrow> (False, []))
      in if ds = [] then Inl ValueError
         else case digits_value 0 ds of
                None \<Rightarrow> Inl ValueError
              | Some v \<Rightarrow> Inr (if neg then - int v else int v))"

lemma digits_value_append:
  "digits_value acc (xs @ ys) =
     (case digits_value acc xs of None \<Rightarrow> None | Some a \<Rightarrow> digits_value a ys)"
  by (induction acc xs rule: digits_value.induct) (auto split: option.splits)

lemma digits_value_nat_digits: "digits_value 0 (nat_digits n) = Some n"
proof (induction n rule: nat_digits.induct)
  case (1 n)
  show ?case
  proof (cases "n < 10")
    case True
    then show ?thesis by (simp add: nat_digits.simps [of n])
  next
    case False
    then have "digits_value 0 (nat_digits (n div 10)) = Some (n div 10)"
      using "1.IH" by simp
    with False show ?thesis
      by (simp add: nat_digits.simps [of n] digits_value_append)
  qed
qed

lemma nat_digits_nonempty [simp]: "nat_digits n \<noteq> []"
  by (subst nat_digits.simps) simp

lemma nat_digits_hd: "hd (nat_digits n) \<noteq> CHR ''-'' \<and> hd (nat_digits n) \<noteq> CHR ''+''"
proof (induction n rule: nat_digits.induct)
  case (1 n)
  have dc: "\<And>d. d < 10 \<Longrightarrow> digit_char d \<noteq> CHR ''-'' \<and> digit_char d \<noteq> CHR ''+''"
  proof -
    fix d :: nat assume "d < 10"
    then have "char_digit (digit_char d) \<noteq> None" by simp
    moreover have "char_digit CHR ''-'' = None" "char_digit CHR ''+'' = None"
      by (simp_all add: char_digit_def)
    ultimately show "digit_char d \<noteq> CHR ''-'' \<and> digit_char d \<noteq> CHR ''+''" by auto
  qed
  show ?case
  proof (cases "n < 10")
    case True
    then show ?thesis using dc by (simp add: nat_digits.simps [of n])
  next
    case False
    then show ?thesis using "1.IH" by (simp add: nat_digits.simps [of n])
  qed
qed

lemma py_int_py_str_int: "py_int (py_str_int n) = Inr n"
proof -
  define m where "m = nat \<bar>n\<bar>"
  obtain c cs where nd: "nat_digits m = c # cs"
    by (cases "nat_digits m") auto
  have c: "c \<noteq> CHR ''-'' \<and> c \<noteq> CHR ''+''"
    using nat_digits_hd [of m] nd by simp
  have v: "digits_value 0 (c # cs) = Some m"
    using digits_value_nat_digits [of m] nd by simp
  show ?thesis
  proof (cases "n < 0")
    case True
    then have "py_str_int n = CHR ''-'' # c # cs" and "n = - int m"
      using nd by (simp_all add: py_str_int_def m_def)
    with v show ?thesis by (simp add: py_int_def)
  next
    case False
    then have "py_str_int n = c # cs" and "n = int m"
      using nd by (simp_all add: py_str_int_def m_def)
    with v c show ?thesis by (simp add: py_int_def)
  qed
qed

lemma py_str_int_inj: "py_str_int a = py_str_int b \<longleftrightarrow> a = b"
  by (metis py_int_py_str_int sum.inject(2))

lemma nat_digits_digits: "c \<in> set (nat_digits n) \<Longrightarrow> char_digit c \<noteq> None"
proof (induction n rule: nat_digits.induct)
  case (1 n)
  then show ?case
    by (cases "n < 10") (auto simp: nat_digits.simps [of n])
qed

text \<open>\<open>str(n)\<close> of a natural number has only decimal digits.\<close>

lemma py_str_int_nat_digits: "c \<in> set (py_str_int (int n)) \<Longrightarrow> char_digit c \<noteq> None"
  by (simp add: py_str_int_def nat_digits_digits)

end
