(* ===== verification/Tensor.thy ===== *)
theory Tensor
  imports Prelude
begin

text \<open>
  The TensorFlow operations \<open>TransformerLayer.call\<close> (\<open>src/train.py\<close>, lines 119--177)
  is built from, on dense row-major tensors: a shape and the flat list of its entries.
  Each operation checks its arguments' shapes the way TensorFlow does and raises
  \<open>InvalidArgument\<close> otherwise; the result of a successful operation is a total function
  (\<open>*_raw\<close>) whose shape is given by a \<open>[simp]\<close> lemma, so that the shape of a whole
  pipeline is computed by the simplifier.  Entries are reals: \<open>float32\<close> rounding is not
  modelled.
\<close>

record tensor =
  shape :: "nat list"
  tdata :: "real list"

definition wf_tensor :: "tensor \<Rightarrow> bool" where
  "wf_tensor t \<longleftrightarrow> length (tdata t) = prod_list (shape t)"

section \<open>Indices\<close>

text \<open>Row-major index arithmetic: a flat index and its multi-index in a shape.\<close>

fun unravel :: "nat list \<Rightarrow> nat \<Rightarrow> nat list" where
  "unravel [] i = []"
| "unravel (d # ds) i = i div prod_list ds # unravel ds (i mod prod_list ds)"

fun ravel :: "nat list \<Rightarrow> nat list \<Rightarrow> nat" where
  "ravel (d # ds) (i # is) = i * prod_list ds + ravel ds is"
| "ravel _ _ = 0"

section \<open>Broadcasting element-wise operations\<close>

text \<open>
  NumPy/TensorFlow broadcasting: align the shapes at the right; each pair of dimensions
  must be equal or one of them 1, and the result takes the larger.
\<close>

fun bcast_rev :: "nat list \<Rightarrow> nat list \<Rightarrow> nat list option" where
  "bcast_rev [] ys = Some ys"
| "bcast_rev xs [] = Some xs"
| "bcast_rev (x # xs) (y # ys) =
     (if x = y \<or> y = 1 then map_option (Cons x) (bcast_rev xs ys)
      else if x = 1 then map_option (Cons y) (bcast_rev xs ys) else None)"

definition bcast_shape :: "nat list \<Rightarrow> nat list \<Rightarrow> nat list option" where
  "bcast_shape s1 s2 = map_option rev (bcast_rev (rev s1) (rev s2))"

text \<open>The entry of an operand of shape \<open>s\<close> read at multi-index \<open>m\<close> of the result.\<close>

definition bidx :: "nat list \<Rightarrow> nat list \<Rightarrow> nat" where
  "bidx s m = ravel s (map2 (\<lambda>d x. if d = 1 then 0 else x) s (drop (length m - length s) m))"

definition tbin_raw :: "(real \<Rightarrow> real \<Rightarrow> real) \<Rightarrow> tensor \<Rightarrow> tensor \<Rightarrow> nat list \<Rightarrow> tensor" where
  "tbin_raw f a b s =
     \<lparr>shape = s,
      tdata = map (\<lambda>i. f (tdata a ! bidx (shape a) (unravel s i)) (tdata b ! bidx (shape b) (unravel s i)))
                [0..<prod_list s]\<rparr>"

text \<open>\<open>a + b\<close>, \<open>a * b\<close>, \<open>a - b\<close>, \<open>a / b\<close> on tensors.\<close>

definition tbin :: "(real \<Rightarrow> real \<Rightarrow> real) \<Rightarrow> tensor \<Rightarrow> tensor \<Rightarrow> tensor result" where
  "tbin f a b = (case bcast_shape (shape a) (shape b) of
                   None \<Rightarrow> Inl InvalidArgument
                 | Some s \<Rightarrow> Inr (tbin_raw f a b s))"

text \<open>A Python float used as a tensor operand (a rank-0 tensor).\<close>

definition tconst :: "real \<Rightarrow> tensor" where
  "tconst r = \<lparr>shape = [], tdata = [r]\<rparr>"

text \<open>Element-wise functions: \<open>tf.nn.sigmoid\<close>, \<open>tf.nn.tanh\<close>, \<open>tf.nn.leaky_relu\<close>.\<close>

definition tmap :: "(real \<Rightarrow> real) \<Rightarrow> tensor \<Rightarrow> tensor" where
  "tmap f t = t\<lparr>tdata := map f (tdata t)\<rparr>"

text \<open>\<open>tf.ones(s)\<close>\<close>

definition tones :: "nat list \<Rightarrow> tensor" where
  "tones s = \<lparr>shape = s, tdata = replicate (prod_list s) 1\<rparr>"

text \<open>\<open>tf.squeeze(t)\<close>: drop every dimension of size 1.\<close>

definition tsqueeze :: "tensor \<Rightarrow> tensor" where
  "tsqueeze t = t\<lparr>shape := filter (\<lambda>d. d \<noteq> 1) (shape t)\<rparr>"

section \<open>Reshape\<close>

text \<open>A target dimension of \<open>tf.reshape\<close>: a size, or \<open>-1\<close> (inferred).\<close>

datatype dimspec = D nat | Infer

definition treshape :: "tensor \<Rightarrow> dimspec list \<Rightarrow> tensor result" where
  "treshape t sp =
     (let n = prod_list (shape t);
          known = prod_list (map (\<lambda>x. case x of D k \<Rightarrow> k | Infer \<Rightarrow> 1) sp);
          unknowns = length (filter (\<lambda>x. x = Infer) sp)
      in if unknowns = 0 then
           (if known = n then Inr (t\<lparr>shape := map (\<lambda>x. case x of D k \<Rightarrow> k | Infer \<Rightarrow> 0) sp\<rparr>)
            else Inl InvalidArgument)
         else if unknowns = 1 \<and> 0 < known \<and> n mod known = 0 then
           Inr (t\<lparr>shape := map (\<lambda>x. case x of D k \<Rightarrow> k | Infer \<Rightarrow> n div known) sp\<rparr>)
         else Inl InvalidArgument)"

section \<open>Matrix products\<close>

text \<open>
  \<open>tf.matmul(a, b, transpose_b)\<close> for tensors of one rank \<open>r \<ge> 2\<close> with equal batch
  dimensions: \<open>bs @ [m, k]\<close> times \<open>bs @ [k, n]\<close> (or \<open>bs @ [n, k]\<close> transposed).
\<close>

definition matmul_raw :: "tensor \<Rightarrow> tensor \<Rightarrow> bool \<Rightarrow> nat list \<Rightarrow> nat \<Rightarrow> nat \<Rightarrow> nat \<Rightarrow> tensor" where
  "matmul_raw a b tb bs m k n =
     \<lparr>shape = bs @ [m, n],
      tdata = map (\<lambda>idx. let q = idx div (m * n); i = idx mod (m * n) div n; j = idx mod n in
                   sum_list (map (\<lambda>l. tdata a ! (q * (m * k) + i * k + l)
                     * tdata b ! (if tb then q * (n * k) + j * k + l else q * (k * n) + l * n + j)) [0..<k]))
                [0..<prod_list bs * m * n]\<rparr>"

definition tmatmul :: "tensor \<Rightarrow> tensor \<Rightarrow> bool \<Rightarrow> tensor result" where
  "tmatmul a b tb =
     (let r = length (shape a); sa = shape a; sb = shape b in
      if r < 2 \<or> length sb \<noteq> r \<or> take (r - 2) sa \<noteq> take (r - 2) sb then Inl InvalidArgument
      else
        (let bs = take (r - 2) sa; m = sa ! (r - 2); k = sa ! (r - 1);
             k' = (if tb then sb ! (r - 1) else sb ! (r - 2));
             n = (if tb then sb ! (r - 2) else sb ! (r - 1))
         in if k = k' then Inr (matmul_raw a b tb bs m k n) else Inl InvalidArgument))"

section \<open>Transpose and reductions\<close>

text \<open>
  \<open>tf.transpose(t, perm)\<close>: dimension \<open>j\<close> of the result is dimension \<open>perm ! j\<close> of
  \<open>t\<close>; the entry at result index \<open>m\<close> is the entry of \<open>t\<close> at the index whose
  position \<open>perm ! j\<close> holds \<open>m ! j\<close>.
\<close>

definition perm_index :: "nat list \<Rightarrow> nat list \<Rightarrow> nat list" where
  "perm_index perm m = fold (\<lambda>j acc. acc[perm ! j := m ! j]) [0..<length perm] (replicate (length perm) 0)"

definition transpose_raw :: "tensor \<Rightarrow> nat list \<Rightarrow> tensor" where
  "transpose_raw t perm =
     (let s' = map (\<lambda>j. shape t ! j) perm in
      \<lparr>shape = s',
       tdata = map (\<lambda>i. tdata t ! ravel (shape t) (perm_index perm (unravel s' i))) [0..<prod_list s']\<rparr>)"

definition ttranspose :: "tensor \<Rightarrow> nat list \<Rightarrow> tensor result" where
  "ttranspose t perm =
     (if distinct perm \<and> list_all (\<lambda>j. j < length (shape t)) perm \<and> length perm = length (shape t)
      then Inr (transpose_raw t perm) else Inl InvalidArgument)"

text \<open>\<open>tf.reduce_mean(t, axis=1)\<close> for a rank-3 tensor.\<close>

definition reduce_mean1_raw :: "tensor \<Rightarrow> nat \<Rightarrow> nat \<Rightarrow> nat \<Rightarrow> tensor" where
  "reduce_mean1_raw t b p d =
     \<lparr>shape = [b, d],
      tdata = map (\<lambda>idx. sum_list (map (\<lambda>i. tdata t ! ((idx div d) * (p * d) + i * d + idx mod d))
                                   [0..<p]) / real p) [0..<b * d]\<rparr>"

definition treduce_mean1 :: "tensor \<Rightarrow> tensor result" where
  "treduce_mean1 t = (case shape t of [b, p, d] \<Rightarrow> Inr (reduce_mean1_raw t b p d) | _ \<Rightarrow> Inl InvalidArgument)"

text \<open>\<open>tf.shape(t)[0]\<close>\<close>

definition tdim0 :: "tensor \<Rightarrow> nat result" where
  "tdim0 t = (case shape t of [] \<Rightarrow> Inl InvalidArgument | b # _ \<Rightarrow> Inr b)"

section \<open>Properties\<close>

lemma length_unravel [simp]: "length (unravel s i) = length s"
  by (induction s arbitrary: i) auto

lemma unravel_bound:
  "i < prod_list s \<Longrightarrow> j < length s \<Longrightarrow> unravel s i ! j < s ! j"
proof (induction s arbitrary: i j)
  case Nil
  then show ?case by simp
next
  case (Cons d ds)
  have P: "0 < prod_list ds" using Cons.prems(1) by (cases "prod_list ds = 0") auto
  show ?case
  proof (cases j)
    case 0
    have "i div prod_list ds < d"
      using Cons.prems(1) P by (simp add: div_less_iff_less_mult mult.commute)
    with 0 show ?thesis by simp
  next
    case (Suc j')
    have "i mod prod_list ds < prod_list ds" using P by simp
    with Cons.IH [of "i mod prod_list ds" j'] Suc Cons.prems(2) show ?thesis by simp
  qed
qed

lemma ravel_unravel: "i < prod_list s \<Longrightarrow> ravel s (unravel s i) = i"
proof (induction s arbitrary: i)
  case Nil
  then show ?case by simp
next
  case (Cons d ds)
  have P: "0 < prod_list ds" using Cons.prems by (cases "prod_list ds = 0") auto
  then have "ravel ds (unravel ds (i mod prod_list ds)) = i mod prod_list ds"
    by (intro Cons.IH) simp
  then show ?case by simp
qed

lemma ravel_bound:
  "length m = length s \<Longrightarrow> \<forall>j<length s. m ! j < s ! j \<Longrightarrow> ravel s m < prod_list s"
proof (induction s m rule: ravel.induct)
  case (1 d ds i "is")
  then have i: "i < d" and r: "ravel ds is < prod_list ds"
    by (auto intro!: "1.IH" dest: spec [of _ "Suc _"] spec [of _ 0])
  have "i * prod_list ds + ravel ds is < i * prod_list ds + prod_list ds" using r by simp
  also have "\<dots> = Suc i * prod_list ds" by simp
  also have "\<dots> \<le> d * prod_list ds" using i by (intro mult_le_mono1) simp
  finally show ?case by simp
qed auto

lemma unravel_ravel:
  "length m = length s \<Longrightarrow> \<forall>j<length s. m ! j < s ! j \<Longrightarrow> unravel s (ravel s m) = m"
proof (induction s m rule: ravel.induct)
  case (1 d ds i "is")
  have r: "ravel ds is < prod_list ds"
    using "1.prems" by (intro ravel_bound) (auto dest: spec [of _ "Suc _"])
  have "unravel ds (ravel ds is) = is"
    using "1.prems" by (intro "1.IH") (auto dest: spec [of _ "Suc _"])
  with r show ?case by simp
qed auto

lemma bcast_rev_same [simp]: "bcast_rev xs xs = Some xs"
  by (induction xs) auto

lemma bcast_shape_same [simp]: "bcast_shape s s = Some s"
  by (simp add: bcast_shape_def)

lemma bcast_shape_scalar [simp]: "bcast_shape [] s = Some s"
  by (simp add: bcast_shape_def)

lemma bcast_rev_Nil_right [simp]: "bcast_rev xs [] = Some xs"
  by (cases xs) auto

lemma bcast_shape_scalar_right [simp]: "bcast_shape s [] = Some s"
  by (simp add: bcast_shape_def)

lemma bcast_shape_row [simp]: "bcast_shape [m, n] [n] = Some [m, n]"
  by (simp add: bcast_shape_def)

lemma bidx_unravel:
  assumes "i < prod_list s"
  shows "bidx s (unravel s i) = i"
proof -
  have "map2 (\<lambda>d x. if d = 1 then 0 else x) s (unravel s i) = unravel s i"
  proof (rule nth_equalityI)
    fix j assume "j < length (map2 (\<lambda>d x. if d = 1 then 0 else x) s (unravel s i))"
    then have j: "j < length s" by simp
    with assms have "unravel s i ! j < s ! j" by (rule unravel_bound)
    with j show "map2 (\<lambda>d x. if d = 1 then 0 else x) s (unravel s i) ! j = unravel s i ! j"
      by simp
  qed simp
  with assms show ?thesis by (simp add: bidx_def ravel_unravel)
qed

lemma bidx_scalar [simp]: "bidx [] m = 0"
  by (simp add: bidx_def)

lemma shape_tbin_raw [simp]: "shape (tbin_raw f a b s) = s"
  and wf_tbin_raw [simp]: "wf_tensor (tbin_raw f a b s)"
  by (simp_all add: tbin_raw_def wf_tensor_def)

lemma tbin_ok: "bcast_shape (shape a) (shape b) = Some s \<Longrightarrow> tbin f a b = Inr (tbin_raw f a b s)"
  by (simp add: tbin_def)

lemma tdata_tbin_same:
  assumes "wf_tensor a" "wf_tensor b" "shape a = shape b"
  shows "tdata (tbin_raw f a b (shape a)) = map2 f (tdata a) (tdata b)"
  using assms by (auto simp: tbin_raw_def wf_tensor_def bidx_unravel intro: nth_equalityI)

lemma tdata_tbin_scalar:
  assumes "wf_tensor t"
  shows "tdata (tbin_raw f (tconst r) t (shape t)) = map (f r) (tdata t)"
  using assms by (auto simp: tbin_raw_def wf_tensor_def bidx_unravel tconst_def intro: nth_equalityI)


lemma shape_tconst [simp]: "shape (tconst r) = []"
  and wf_tconst [simp]: "wf_tensor (tconst r)"
  by (simp_all add: tconst_def wf_tensor_def)

lemma shape_tmap [simp]: "shape (tmap f t) = shape t"
  and wf_tmap [simp]: "wf_tensor (tmap f t) \<longleftrightarrow> wf_tensor t"
  by (simp_all add: tmap_def wf_tensor_def)

lemma shape_tones [simp]: "shape (tones s) = s"
  and wf_tones [simp]: "wf_tensor (tones s)"
  by (simp_all add: tones_def wf_tensor_def)

lemma prod_list_filter_ne1: "prod_list (filter (\<lambda>d. d \<noteq> 1) s) = prod_list (s :: nat list)"
  by (induction s) auto

lemma shape_tsqueeze [simp]: "shape (tsqueeze t) = filter (\<lambda>d. d \<noteq> 1) (shape t)"
  and wf_tsqueeze [simp]: "wf_tensor (tsqueeze t) \<longleftrightarrow> wf_tensor t"
  by (simp_all add: tsqueeze_def wf_tensor_def prod_list_filter_ne1 del: One_nat_def)

lemma treshape_exact:
  "prod_list s = prod_list (shape t) \<Longrightarrow> treshape t (map D s) = Inr (t\<lparr>shape := s\<rparr>)"
  by (simp add: treshape_def comp_def)

lemma treshape_infer:
  assumes "0 < prod_list pre * prod_list post"
    and "prod_list (shape t) = prod_list pre * k * prod_list post"
  shows "treshape t (map D pre @ Infer # map D post) = Inr (t\<lparr>shape := pre @ k # post\<rparr>)"
proof -
  have known: "prod_list (map (\<lambda>x. case x of D k \<Rightarrow> k | Infer \<Rightarrow> 1) (map D pre @ Infer # map D post))
      = prod_list pre * prod_list post"
    by (simp add: comp_def)
  have unk: "length (filter (\<lambda>x. x = Infer) (map D pre @ Infer # map D post)) = 1"
    by (simp add: filter_empty_conv)
  have "prod_list (shape t) mod (prod_list pre * prod_list post) = 0"
    "prod_list (shape t) div (prod_list pre * prod_list post) = k"
    using assms by (simp_all add: ac_simps)
  with assms(1) known unk show ?thesis
    by (simp add: treshape_def comp_def Let_def)
qed

lemma reshape_2:
  "0 < x \<Longrightarrow> prod_list (shape t) = x * k \<Longrightarrow> treshape t [D x, Infer] = Inr (t\<lparr>shape := [x, k]\<rparr>)"
  using treshape_infer [of "[x]" "[]" t k] by simp

lemma reshape_3:
  "0 < x * y \<Longrightarrow> prod_list (shape t) = x * y * k \<Longrightarrow>
   treshape t [D x, D y, Infer] = Inr (t\<lparr>shape := [x, y, k]\<rparr>)"
  using treshape_infer [of "[x, y]" "[]" t k] by simp

lemma reshape_heads:
  "0 < x * y * z \<Longrightarrow> prod_list (shape t) = x * k * y * z \<Longrightarrow>
   treshape t [D x, Infer, D y, D z] = Inr (t\<lparr>shape := [x, k, y, z]\<rparr>)"
  using treshape_infer [of "[x]" "[y, z]" t k] by (simp add: ac_simps)

lemma reshape_concat:
  "0 < x * y \<Longrightarrow> prod_list (shape t) = x * k * y \<Longrightarrow>
   treshape t [D x, Infer, D y] = Inr (t\<lparr>shape := [x, k, y]\<rparr>)"
  using treshape_infer [of "[x]" "[y]" t k] by (simp add: ac_simps)

lemma treshape_same: "treshape t (map D (shape t)) = Inr t"
  using treshape_exact [of "shape t" t] by simp

lemma tbin_Inr_wf: "tbin f a b = Inr t \<Longrightarrow> wf_tensor t"
  by (auto simp: tbin_def split: option.splits)

lemma wf_shape_update [simp]: "wf_tensor (t\<lparr>shape := s\<rparr>) \<longleftrightarrow> length (tdata t) = prod_list s"
  by (simp add: wf_tensor_def)

lemma length_tdata_tbin_raw [simp]: "length (tdata (tbin_raw f a b s)) = prod_list s"
  by (simp add: tbin_raw_def)

lemma length_tdata_tmap [simp]: "length (tdata (tmap f t)) = length (tdata t)"
  by (simp add: tmap_def)

lemma shape_matmul_raw [simp]: "shape (matmul_raw a b tb bs m k n) = bs @ [m, n]"
  and wf_matmul_raw [simp]: "wf_tensor (matmul_raw a b tb bs m k n)"
  and length_tdata_matmul_raw [simp]: "length (tdata (matmul_raw a b tb bs m k n)) = prod_list bs * m * n"
  by (simp_all add: matmul_raw_def wf_tensor_def)

lemma tmatmul_2:
  "shape a = [m, k] \<Longrightarrow> shape b = [k, n] \<Longrightarrow> tmatmul a b False = Inr (matmul_raw a b False [] m k n)"
  by (simp add: tmatmul_def)

lemma tmatmul_4:
  "shape a = [p, q, m, k] \<Longrightarrow> shape b = [p, q, k, n] \<Longrightarrow>
   tmatmul a b False = Inr (matmul_raw a b False [p, q] m k n)"
  by (simp add: tmatmul_def)

lemma tmatmul_4T:
  "shape a = [p, q, m, k] \<Longrightarrow> shape b = [p, q, n, k] \<Longrightarrow>
   tmatmul a b True = Inr (matmul_raw a b True [p, q] m k n)"
  by (simp add: tmatmul_def)

lemma shape_transpose_raw [simp]: "shape (transpose_raw t perm) = map (\<lambda>j. shape t ! j) perm"
  and wf_transpose_raw [simp]: "wf_tensor (transpose_raw t perm)"
  and length_tdata_transpose_raw [simp]:
    "length (tdata (transpose_raw t perm)) = prod_list (map (\<lambda>j. shape t ! j) perm)"
  by (simp_all add: transpose_raw_def wf_tensor_def Let_def)

lemma ttranspose_0213:
  "shape t = [a, b, c, d] \<Longrightarrow> ttranspose t [0, 2, Suc 0, 3] = Inr (transpose_raw t [0, 2, Suc 0, 3])"
  by (simp add: ttranspose_def)

lemma shape_reduce_mean1_raw [simp]: "shape (reduce_mean1_raw t b p d) = [b, d]"
  and wf_reduce_mean1_raw [simp]: "wf_tensor (reduce_mean1_raw t b p d)"
  by (simp_all add: reduce_mean1_raw_def wf_tensor_def)

lemma tdata_tbin_scalar_right:
  assumes "wf_tensor t"
  shows "tdata (tbin_raw f t (tconst r) (shape t)) = map (\<lambda>x. f x r) (tdata t)"
  using assms by (auto simp: tbin_raw_def wf_tensor_def bidx_unravel tconst_def intro: nth_equalityI)

lemma map2_plus_zeros [simp]: "map2 (+) xs (replicate (length xs) (0::real)) = xs"
  by (induction xs) auto

text \<open>Adding a tensor of zeros of the same shape gives the tensor back, exactly.\<close>

lemma add_zeros:
  assumes "wf_tensor s" "wf_tensor z" "shape z = shape s" "tdata z = replicate n 0"
  shows "tbin_raw (+) s z (shape s) = s"
proof -
  have n: "n = length (tdata s)"
    using assms arg_cong [OF assms(4), of length] by (simp add: wf_tensor_def)
  have "tdata (tbin_raw (+) s z (shape s)) = map2 (+) (tdata s) (tdata z)"
    using assms by (intro tdata_tbin_same) (simp_all add: wf_tensor_def)
  then show ?thesis using assms(4) n by simp
qed

lemma zero_gate_residual:
  assumes "wf_tensor s" "wf_tensor a" "shape a = shape s"
  shows "tbin_raw (+) s (tbin_raw (*) (tconst 0) a (shape a)) (shape s) = s"
proof -
  have m0: "map ((*) (0::real)) xs = replicate (length xs) 0" for xs
    by (induction xs) auto
  have "tdata (tbin_raw (*) (tconst 0) a (shape a)) = replicate (length (tdata a)) 0"
    using assms(2) by (simp add: tdata_tbin_scalar m0)
  then show ?thesis
    using assms by (intro add_zeros) simp_all
qed

end
