(* ===== verification/Attention.thy ===== *)
theory Attention
  imports Tensor
begin

text \<open>
  \<open>TransformerLayer\<close> of \<open>src/train.py\<close> (lines 83--194): the configuration check of
  \<open>__init__\<close>, the weights \<open>build\<close> creates, and the forward pass \<open>call\<close>, split
  along the blocks of the code: the input projection (lines 122--126), the gated attention
  scores (lines 129--152), the attention output (lines 153--159), the feed-forward branch
  (lines 163--169) and the residual combination with optional pooling (lines 162, 171--177).
  Dropout's random keep-mask is a parameter \<open>keep\<close> (flat index to kept or dropped); the
  random \<open>glorot_normal\<close> draws of \<open>build\<close> are a parameter \<open>glorot\<close>.
\<close>

record layer_cfg =
  num_heads :: nat
  depth :: nat
  pool :: bool
  pad_size :: nat

text \<open>
  \<open>__init__\<close>: \<open>self.depth % self.num_heads\<close> raises \<open>ZeroDivisionError\<close> for zero
  heads, and the check raises \<open>ValueError\<close> when the depth is not a multiple.
\<close>

definition layer_init :: "nat \<Rightarrow> nat \<Rightarrow> nat \<Rightarrow> bool \<Rightarrow> layer_cfg result" where
  "layer_init nh ps dp pl =
     (if nh = 0 then Inl ZeroDivisionError
      else if dp mod nh \<noteq> 0 then Inl ValueError
      else Inr \<lparr>num_heads = nh, depth = dp, pool = pl, pad_size = ps\<rparr>)"

record layer_params =
  random_id_att :: tensor
  random_id_ff :: tensor
  input_dense_weight :: tensor
  input_dense_bias :: tensor
  query_dense_weight :: tensor
  query_dense_bias :: tensor
  key_dense_weight :: tensor
  key_dense_bias :: tensor
  value_dense_weight :: tensor
  value_dense_bias :: tensor
  dense_weight :: tensor
  dense_bias :: tensor
  ff_dense1_weight :: tensor
  ff_dense1_bias :: tensor
  ff_dense2_weight :: tensor
  ff_dense2_bias :: tensor

text \<open>\<open>tf.initializers.Zeros()\<close> and a random initializer's draw for a named weight.\<close>

definition zeros :: "nat list \<Rightarrow> tensor" where
  "zeros s = \<lparr>shape = s, tdata = replicate (prod_list s) 0\<rparr>"

definition init_weight :: "(string \<Rightarrow> nat \<Rightarrow> real) \<Rightarrow> string \<Rightarrow> nat list \<Rightarrow> tensor" where
  "init_weight glorot name s = \<lparr>shape = s, tdata = map (glorot name) [0..<prod_list s]\<rparr>"

text \<open>\<open>build(input_shape)\<close>: \<open>input_shape[-1]\<close> raises \<open>IndexError\<close> on an empty shape.\<close>

definition layer_build :: "layer_cfg \<Rightarrow> nat list \<Rightarrow> (string \<Rightarrow> nat \<Rightarrow> real) \<Rightarrow> layer_params result" where
  "layer_build L input_shape glorot =
     (if input_shape = [] then Inl IndexError
      else (let f = last input_shape; dp = depth L; w = init_weight glorot in
            Inr \<lparr>random_id_att = zeros [1], random_id_ff = zeros [1],
                 input_dense_weight = w ''input_dense_weight'' [f, dp],
                 input_dense_bias = w ''input_dense_bias'' [dp],
                 query_dense_weight = w ''query_dense_weight'' [dp, dp],
                 query_dense_bias = w ''query_dense_bias'' [dp],
                 key_dense_weight = w ''key_dense_weight'' [dp, dp],
                 key_dense_bias = w ''key_dense_bias'' [dp],
                 value_dense_weight = w ''value_dense_weight'' [dp, dp],
                 value_dense_bias = w ''value_dense_bias'' [dp],
                 dense_weight = w ''dense_weight'' [dp, dp],
                 dense_bias = w ''dense_bias'' [dp],
                 ff_dense1_weight = w ''ff_dense1_weight'' [dp, dp],
                 ff_dense1_bias = w ''ff_dense1_bias'' [dp],
                 ff_dense2_weight = w ''ff_dense2_weight'' [dp, dp],
                 ff_dense2_bias = w ''ff_dense2_bias'' [dp]\<rparr>))"

section \<open>Activation functions and dropout\<close>

definition sigmoid :: "real \<Rightarrow> real" where
  "sigmoid x = 1 / (1 + exp (- x))"

text \<open>\<open>tf.nn.leaky_relu\<close> with its default slope 0.2.\<close>

definition leaky_relu :: "real \<Rightarrow> real" where
  "leaky_relu x = (if 0 < x then x else 0.2 * x)"

text \<open>
  \<open>tf.nn.dropout(x, rate)\<close>: every entry is kept (and scaled by \<open>1 / (1 - rate)\<close>) or
  zeroed according to the random mask \<open>keep\<close>.  The function has no \<open>training\<close>
  argument: it is applied on every call.
\<close>

definition dropout :: "(nat \<Rightarrow> bool) \<Rightarrow> real \<Rightarrow> tensor \<Rightarrow> tensor" where
  "dropout keep rate t =
     t\<lparr>tdata := map (\<lambda>i. if keep i then tdata t ! i * (1 / (1 - rate)) else 0) [0..<length (tdata t)]\<rparr>"

section \<open>The forward pass\<close>

text \<open>\<open>tf.matmul(x, w) + b\<close>\<close>

definition dense :: "tensor \<Rightarrow> tensor \<Rightarrow> tensor \<Rightarrow> tensor result" where
  "dense x w b = rbind (tmatmul x w False) (\<lambda>m. tbin (+) m b)"

text \<open>
  \<open>tf.transpose(tf.reshape(t, [batch_size, -1, num_heads, depth // num_heads]),
  [0, 2, 1, 3])\<close> (lines 137--139).
\<close>

definition split_heads :: "layer_cfg \<Rightarrow> nat \<Rightarrow> tensor \<Rightarrow> tensor result" where
  "split_heads L b t =
     rbind (treshape t [D b, Infer, D (num_heads L), D (depth L div num_heads L)])
       (\<lambda>r. ttranspose r [0, 2, 1, 3])"

text \<open>Lines 122--126: \<open>batch_size\<close>, \<open>flat_scaled_input\<close> and \<open>scaled_input\<close>.\<close>

definition input_projection :: "layer_cfg \<Rightarrow> layer_params \<Rightarrow> tensor \<Rightarrow> (nat \<times> tensor \<times> tensor) result" where
  "input_projection L p inputs =
     rbind (tdim0 inputs) (\<lambda>b.
     rbind (treshape inputs [D (pad_size L * b), Infer]) (\<lambda>flat_input.
     rbind (dense flat_input (input_dense_weight p) (input_dense_bias p)) (\<lambda>flat_scaled_input.
     rbind (treshape flat_scaled_input [D b, D (pad_size L), Infer]) (\<lambda>scaled_input.
     Inr (b, flat_scaled_input, scaled_input)))))"

text \<open>
  Lines 129--152: the query, key and value projections, the heads, the scaled scores with
  the all-ones mask, and the weights \<open>sigmoid(logits) * tanh(logits)\<close>; returns the
  weights and \<open>value_t\<close>.
\<close>

text \<open>
  Lines 148--150: \<open>to_broadcast_mask = tf.ones(...)\<close> and
  \<open>logits += (1.0 - to_broadcast_mask) * -1e9\<close>.
\<close>

definition apply_mask :: "layer_cfg \<Rightarrow> nat \<Rightarrow> tensor \<Rightarrow> tensor result" where
  "apply_mask L b logits =
     rbind (tbin (-) (tconst 1) (tones [b, num_heads L, pad_size L, pad_size L])) (\<lambda>inv_mask.
     rbind (tbin (*) inv_mask (tconst (- 1000000000))) (\<lambda>mask_term.
     tbin (+) logits mask_term))"

definition attention_scores :: "layer_cfg \<Rightarrow> layer_params \<Rightarrow> nat \<Rightarrow> tensor \<Rightarrow> (tensor \<times> tensor) result" where
  "attention_scores L p b flat_scaled_input =
     rbind (dense flat_scaled_input (query_dense_weight p) (query_dense_bias p)) (\<lambda>flat_query.
     rbind (dense flat_scaled_input (key_dense_weight p) (key_dense_bias p)) (\<lambda>flat_key.
     rbind (dense flat_scaled_input (value_dense_weight p) (value_dense_bias p)) (\<lambda>flat_value.
     rbind (treshape flat_query [D b, D (pad_size L), Infer]) (\<lambda>query.
     rbind (treshape flat_key [D b, D (pad_size L), Infer]) (\<lambda>key.
     rbind (treshape flat_value [D b, D (pad_size L), Infer]) (\<lambda>value.
     rbind (split_heads L b query) (\<lambda>query_t.
     rbind (split_heads L b key) (\<lambda>key_t.
     rbind (split_heads L b value) (\<lambda>value_t.
     rbind (tmatmul query_t key_t True) (\<lambda>matmul_qk.
     rbind (tbin (/) matmul_qk (tconst (sqrt (real (depth L))))) (\<lambda>logits.
     rbind (apply_mask L b logits) (\<lambda>logits'.
     rbind (tbin (*) (tmap sigmoid logits') (tmap tanh logits')) (\<lambda>attention_weights.
     Inr (attention_weights, value_t))))))))))))))"

text \<open>Lines 153--159: the weighted sum of the values, the heads concatenated, the output projection.\<close>

definition attention_output :: "layer_cfg \<Rightarrow> layer_params \<Rightarrow> nat \<Rightarrow> tensor \<Rightarrow> tensor \<Rightarrow> tensor result" where
  "attention_output L p b attention_weights value_t =
     rbind (tmatmul attention_weights value_t False) (\<lambda>scaled_attention.
     rbind (ttranspose scaled_attention [0, 2, 1, 3]) (\<lambda>scaled_attention_t.
     rbind (treshape scaled_attention_t [D b, Infer, D (depth L)]) (\<lambda>concat_attention.
     rbind (treshape concat_attention [D (b * pad_size L), Infer]) (\<lambda>flatten_concat_attention.
     rbind (dense flatten_concat_attention (dense_weight p) (dense_bias p)) (\<lambda>flatten_attention.
     treshape flatten_attention [D b, D (pad_size L), Infer])))))"

text \<open>Lines 163--169: the feed-forward branch with leaky ReLU and dropout (rate 0.1).\<close>

definition feedforward :: "layer_cfg \<Rightarrow> layer_params \<Rightarrow> (nat \<Rightarrow> bool) \<Rightarrow> nat \<Rightarrow> tensor \<Rightarrow> tensor result" where
  "feedforward L p keep b normalized_latent =
     rbind (treshape normalized_latent [D (b * pad_size L), Infer]) (\<lambda>flatten_normalized_latent.
     rbind (dense flatten_normalized_latent (ff_dense1_weight p) (ff_dense1_bias p)) (\<lambda>flat_ff1.
     rbind (dense (tmap leaky_relu flat_ff1) (ff_dense2_weight p) (ff_dense2_bias p)) (\<lambda>flat_ff2.
     treshape (dropout keep 0.1 flat_ff2) [D b, D (pad_size L), Infer])))"

text \<open>\<open>call(inputs)\<close>: the two gated residual connections and the optional mean pooling.\<close>

definition layer_call :: "layer_cfg \<Rightarrow> layer_params \<Rightarrow> (nat \<Rightarrow> bool) \<Rightarrow> tensor \<Rightarrow> tensor result" where
  "layer_call L p keep inputs =
     rbind (input_projection L p inputs) (\<lambda>(b, flat_scaled_input, scaled_input).
     rbind (attention_scores L p b flat_scaled_input) (\<lambda>(attention_weights, value_t).
     rbind (attention_output L p b attention_weights value_t) (\<lambda>attention.
     rbind (tbin (*) (tsqueeze (random_id_att p)) attention) (\<lambda>gated_attention.
     rbind (tbin (+) scaled_input gated_attention) (\<lambda>normalized_latent.
     rbind (feedforward L p keep b normalized_latent) (\<lambda>dff2.
     rbind (tbin (*) (tsqueeze (random_id_ff p)) dff2) (\<lambda>gated_ff.
     rbind (tbin (+) normalized_latent gated_ff) (\<lambda>output.
     rbind (treshape output [D b, D (pad_size L), D (depth L)]) (\<lambda>output.
     if pool L then treduce_mean1 output else Inr output)))))))))"

text \<open>\<open>compute_output_shape(input_shape)\<close> (lines 180--184).\<close>

definition compute_output_shape :: "layer_cfg \<Rightarrow> nat list \<Rightarrow> nat list result" where
  "compute_output_shape L input_shape =
     (if pool L then (case input_shape of b # _ \<Rightarrow> Inr [b, depth L] | [] \<Rightarrow> Inl IndexError)
      else (case input_shape of b # p # _ \<Rightarrow> Inr [b, p, depth L] | _ \<Rightarrow> Inl IndexError))"

text \<open>
  \<open>get_config\<close> (lines 186--194): the base layer's config dictionary, an association list,
  updated in order with the four constructor arguments; \<open>dict.update\<close> overwrites a key
  already present and appends a new one.  Config values are booleans or integers.
  \<open>from_config\<close> is Keras' inverse, \<open>cls(**config)\<close>: it calls \<open>__init__\<close> with the
  entries, \<open>num_heads\<close> defaulting to 8 and \<open>pool\<close> to \<open>False\<close> as in the signature.  A
  missing \<open>depth\<close> gives \<open>None % num_heads\<close>, a \<open>TypeError\<close>; a missing \<open>pad_size\<close>
  (\<open>None\<close>, which \<open>__init__\<close> stores and the first \<open>call\<close> rejects) is reported as
  \<open>TypeError\<close> here, since \<open>pad_size\<close> is a number in the model.
\<close>

datatype cfg_value = CfgBool bool | CfgInt nat

definition get_config :: "(string \<times> cfg_value) list \<Rightarrow> layer_cfg \<Rightarrow> (string \<times> cfg_value) list" where
  "get_config base L =
     fold (\<lambda>(k, v). AList.update k v)
       [(''pool'', CfgBool (pool L)), (''pad_size'', CfgInt (pad_size L)),
        (''num_heads'', CfgInt (num_heads L)), (''depth'', CfgInt (depth L))] base"

definition cfg_int :: "nat option \<Rightarrow> cfg_value option \<Rightarrow> nat option" where
  "cfg_int dflt v = (case v of None \<Rightarrow> dflt | Some (CfgInt n) \<Rightarrow> Some n | Some (CfgBool _) \<Rightarrow> None)"

definition cfg_truthy :: "cfg_value option \<Rightarrow> bool" where
  "cfg_truthy v = (case v of None \<Rightarrow> False | Some (CfgBool b) \<Rightarrow> b | Some (CfgInt n) \<Rightarrow> n \<noteq> 0)"

definition from_config :: "(string \<times> cfg_value) list \<Rightarrow> layer_cfg result" where
  "from_config cf =
     (case (cfg_int (Some 8) (map_of cf ''num_heads''), cfg_int None (map_of cf ''pad_size''),
            cfg_int None (map_of cf ''depth'')) of
        (Some nh, Some ps, Some dp) \<Rightarrow> layer_init nh ps dp (cfg_truthy (map_of cf ''pool''))
      | _ \<Rightarrow> Inl TypeError)"

text \<open>The weights have the shapes \<open>build\<close> gives them for an input with \<open>f\<close> features.\<close>

definition params_ok :: "layer_cfg \<Rightarrow> nat \<Rightarrow> layer_params \<Rightarrow> bool" where
  "params_ok L f p \<longleftrightarrow>
     (let dp = depth L in
      shape (random_id_att p) = [1] \<and> shape (random_id_ff p) = [1]
      \<and> shape (input_dense_weight p) = [f, dp] \<and> shape (input_dense_bias p) = [dp]
      \<and> shape (query_dense_weight p) = [dp, dp] \<and> shape (query_dense_bias p) = [dp]
      \<and> shape (key_dense_weight p) = [dp, dp] \<and> shape (key_dense_bias p) = [dp]
      \<and> shape (value_dense_weight p) = [dp, dp] \<and> shape (value_dense_bias p) = [dp]
      \<and> shape (dense_weight p) = [dp, dp] \<and> shape (dense_bias p) = [dp]
      \<and> shape (ff_dense1_weight p) = [dp, dp] \<and> shape (ff_dense1_bias p) = [dp]
      \<and> shape (ff_dense2_weight p) = [dp, dp] \<and> shape (ff_dense2_bias p) = [dp]
      \<and> list_all wf_tensor
          [random_id_att p, random_id_ff p, input_dense_weight p, input_dense_bias p,
           query_dense_weight p, query_dense_bias p, key_dense_weight p, key_dense_bias p,
           value_dense_weight p, value_dense_bias p, dense_weight p, dense_bias p,
           ff_dense1_weight p, ff_dense1_bias p, ff_dense2_weight p, ff_dense2_bias p])"

text \<open>
  Example layer of the specification's identity-at-init scenario: depth 8, two heads, four
  positions, one batch; an input with three features, a deterministic stand-in for the
  random initializer, and a dropout mask.
\<close>

abbreviation ex_layer :: layer_cfg where
  "ex_layer \<equiv> \<lparr>num_heads = 2, depth = 8, pool = False, pad_size = 4\<rparr>"

abbreviation ex_input :: tensor where
  "ex_input \<equiv> \<lparr>shape = [1, 4, 3], tdata = map real [0..<12]\<rparr>"

abbreviation ex_glorot :: "string \<Rightarrow> nat \<Rightarrow> real" where
  "ex_glorot \<equiv> \<lambda>name i. real i / 64"

abbreviation ex_keep :: "nat \<Rightarrow> bool" where
  "ex_keep \<equiv> \<lambda>i. even i"

section \<open>Properties\<close>

subsection \<open>The weights and the configuration\<close>

lemma layer_init_ok:
  "layer_init nh ps dp pl = Inr L \<Longrightarrow>
   num_heads L = nh \<and> depth L = dp \<and> pool L = pl \<and> pad_size L = ps \<and> 0 < nh \<and> nh dvd dp"
  by (auto simp: layer_init_def dvd_eq_mod_eq_0 split: if_splits)

lemma layer_build_ok:
  "layer_build L s g = Inr p \<Longrightarrow> params_ok L (last s) p"
  by (cases "s = []") (auto simp: layer_build_def params_ok_def init_weight_def zeros_def wf_tensor_def Let_def)

lemma layer_build_zero_gates:
  "layer_build L s g = Inr p \<Longrightarrow> tdata (random_id_att p) = [0] \<and> tdata (random_id_ff p) = [0]"
  by (cases "s = []") (auto simp: layer_build_def zeros_def Let_def)

lemma params_ok_gates:
  "params_ok L f p \<Longrightarrow> shape (random_id_att p) = [1] \<and> shape (random_id_ff p) = [1]"
  by (simp add: params_ok_def Let_def)

lemma tsqueeze_gate:
  "shape g = [1] \<Longrightarrow> tdata g = [0] \<Longrightarrow> tsqueeze g = tconst 0"
  by (cases g) (simp add: tsqueeze_def tconst_def)

subsection \<open>The stages of the forward pass on well-shaped inputs\<close>

text \<open>
  For an input of shape \<open>[b, pad_size, f]\<close> with \<open>b, pad_size > 0\<close> and weights of the
  shapes \<open>build\<close> gives, each stage succeeds with the shape the code's comments expect.
\<close>

lemma dense_ok:
  "shape x = [m, k] \<Longrightarrow> shape w = [k, n] \<Longrightarrow> shape bias = [n] \<Longrightarrow>
   dense x w bias = Inr (tbin_raw (+) (matmul_raw x w False [] m k n) bias [m, n])"
  by (simp add: dense_def tmatmul_2 tbin_ok)

lemma tbin_gated:
  "tbin (*) (tmap sigmoid t) (tmap tanh t) = Inr (tbin_raw (*) (tmap sigmoid t) (tmap tanh t) (shape t))"
  by (simp add: tbin_ok)

lemma shape_dropout [simp]: "shape (dropout keep r t) = shape t"
  and wf_dropout [simp]: "wf_tensor (dropout keep r t) \<longleftrightarrow> wf_tensor t"
  and length_tdata_dropout [simp]: "length (tdata (dropout keep r t)) = length (tdata t)"
  by (simp_all add: dropout_def wf_tensor_def)

lemma input_projection_ok:
  assumes x: "shape x = [b, pad_size L, f]" and b: "0 < b" and pd: "0 < pad_size L"
    and p: "params_ok L f p"
  defines "fsi \<equiv> tbin_raw (+) (matmul_raw (x\<lparr>shape := [pad_size L * b, f]\<rparr>) (input_dense_weight p)
                   False [] (pad_size L * b) f (depth L)) (input_dense_bias p) [pad_size L * b, depth L]"
  shows "input_projection L p x = Inr (b, fsi, fsi\<lparr>shape := [b, pad_size L, depth L]\<rparr>)"
proof -
  have r1: "treshape x [D (pad_size L * b), Infer] = Inr (x\<lparr>shape := [pad_size L * b, f]\<rparr>)"
    using b pd x by (intro reshape_2) (simp_all add: ac_simps)
  have d: "dense (x\<lparr>shape := [pad_size L * b, f]\<rparr>) (input_dense_weight p) (input_dense_bias p) = Inr fsi"
    using p by (simp add: fsi_def dense_ok params_ok_def Let_def)
  have r2: "treshape fsi [D b, D (pad_size L), Infer] = Inr (fsi\<lparr>shape := [b, pad_size L, depth L]\<rparr>)"
    using b pd by (intro reshape_3) (simp_all add: fsi_def ac_simps)
  show ?thesis using x r1 d r2 by (simp add: input_projection_def tdim0_def)
qed

lemma apply_mask_eq:
  "apply_mask L b l =
     tbin (+) l \<lparr>shape = [b, num_heads L, pad_size L, pad_size L],
                 tdata = replicate (prod_list [b, num_heads L, pad_size L, pad_size L]) 0\<rparr>"
proof -
  let ?s = "[b, num_heads L, pad_size L, pad_size L]"
  let ?inv = "tbin_raw (-) (tconst 1) (tones ?s) ?s"
  let ?mt = "tbin_raw (*) ?inv (tconst (- 1000000000)) ?s"
  have inv: "tdata ?inv = replicate (prod_list ?s) 0"
    using tdata_tbin_scalar [OF wf_tones [of ?s], of "(-)" 1] by (simp add: tones_def)
  have "tdata ?mt = replicate (prod_list ?s) 0"
    using tdata_tbin_scalar_right [of ?inv "(*)" "- 1000000000"] inv by simp
  then have "?mt = \<lparr>shape = ?s, tdata = replicate (prod_list ?s) 0\<rparr>"
    by (intro tensor.equality) simp_all
  then show ?thesis by (simp add: apply_mask_def tbin_ok)
qed

lemma attention_scores_ok:
  assumes fsi: "shape fsi = [pad_size L * b, depth L]" and b: "0 < b" and pd: "0 < pad_size L"
    and nh: "0 < num_heads L" "num_heads L dvd depth L" and dp: "0 < depth L"
    and p: "params_ok L f p"
  shows "\<exists>aw vt. attention_scores L p b fsi = Inr (aw, vt)
     \<and> shape aw = [b, num_heads L, pad_size L, pad_size L]
     \<and> shape vt = [b, num_heads L, pad_size L, depth L div num_heads L]
     \<and> wf_tensor aw \<and> wf_tensor vt"
proof -
  let ?pd = "pad_size L" and ?dp = "depth L" and ?nh = "num_heads L" and ?hd = "depth L div num_heads L"
  have hd: "?nh * ?hd = ?dp" using nh by simp
  have hd0: "0 < ?hd" using nh dp by (simp add: div_greater_zero_iff dvd_imp_le)
  have dn: "\<And>w bias. shape w = [?dp, ?dp] \<Longrightarrow> shape bias = [?dp] \<Longrightarrow>
      dense fsi w bias = Inr (tbin_raw (+) (matmul_raw fsi w False [] (?pd * b) ?dp ?dp) bias [?pd * b, ?dp])"
    using fsi by (simp add: dense_ok)
  have rs: "\<And>t :: tensor. shape t = [?pd * b, ?dp] \<Longrightarrow>
      treshape t [D b, D ?pd, Infer] = Inr (t\<lparr>shape := [b, ?pd, ?dp]\<rparr>)"
    using b pd by (intro reshape_3) (simp_all add: ac_simps)
  have sh: "\<And>t :: tensor. shape t = [b, ?pd, ?dp] \<Longrightarrow>
      split_heads L b t = Inr (transpose_raw (t\<lparr>shape := [b, ?pd, ?nh, ?hd]\<rparr>) [0, 2, 1, 3])"
  proof -
    fix t :: tensor assume t: "shape t = [b, ?pd, ?dp]"
    have "treshape t [D b, Infer, D ?nh, D ?hd] = Inr (t\<lparr>shape := [b, ?pd, ?nh, ?hd]\<rparr>)"
      using t b nh(1) hd0 hd dp by (intro reshape_heads) (simp_all add: ac_simps)
    then show "split_heads L b t = Inr (transpose_raw (t\<lparr>shape := [b, ?pd, ?nh, ?hd]\<rparr>) [0, 2, 1, 3])"
      by (simp add: split_heads_def ttranspose_def)
  qed
  show ?thesis
    using p by (simp add: attention_scores_def params_ok_def Let_def dn rs sh tmatmul_4T tbin_ok apply_mask_eq add_zeros wf_tensor_def)
qed

lemma attention_output_ok:
  assumes aw: "shape aw = [b, num_heads L, pad_size L, pad_size L]"
    and vt: "shape vt = [b, num_heads L, pad_size L, depth L div num_heads L]"
    and b: "0 < b" and pd: "0 < pad_size L" and nh: "num_heads L dvd depth L" and dp: "0 < depth L"
    and p: "params_ok L f p"
  shows "\<exists>att. attention_output L p b aw vt = Inr att \<and> shape att = [b, pad_size L, depth L] \<and> wf_tensor att"
proof -
  let ?pd = "pad_size L" and ?dp = "depth L" and ?nh = "num_heads L" and ?hd = "depth L div num_heads L"
  let ?sa = "matmul_raw aw vt False [b, ?nh] ?pd ?pd ?hd"
  let ?st = "transpose_raw ?sa [0, 2, Suc 0, 3]"
  have hd: "?nh * ?hd = ?dp" using nh by simp
  have r1: "treshape ?st [D b, Infer, D ?dp] = Inr (?st\<lparr>shape := [b, ?pd, ?dp]\<rparr>)"
    using b dp hd by (intro reshape_concat) (simp_all add: ac_simps)
  have r2: "\<And>t :: tensor. shape t = [b, ?pd, ?dp] \<Longrightarrow>
      treshape t [D (b * ?pd), Infer] = Inr (t\<lparr>shape := [b * ?pd, ?dp]\<rparr>)"
    using b pd by (intro reshape_2) simp_all
  have r3: "\<And>t :: tensor. shape t = [b * ?pd, ?dp] \<Longrightarrow>
      treshape t [D b, D ?pd, Infer] = Inr (t\<lparr>shape := [b, ?pd, ?dp]\<rparr>)"
    using b pd by (intro reshape_3) simp_all
  show ?thesis
    using p aw vt by (simp add: attention_output_def tmatmul_4 ttranspose_def r1 r2 r3 dense_ok
        params_ok_def Let_def)
qed

lemma feedforward_ok:
  assumes nl: "shape nl = [b, pad_size L, depth L]" and b: "0 < b" and pd: "0 < pad_size L"
    and p: "params_ok L f p"
  shows "\<exists>dff2. feedforward L p keep b nl = Inr dff2 \<and> shape dff2 = [b, pad_size L, depth L] \<and> wf_tensor dff2"
proof -
  let ?pd = "pad_size L" and ?dp = "depth L"
  have r1: "treshape nl [D (b * ?pd), Infer] = Inr (nl\<lparr>shape := [b * ?pd, ?dp]\<rparr>)"
    using nl b pd by (intro reshape_2) simp_all
  have r2: "\<And>t :: tensor. shape t = [b * ?pd, ?dp] \<Longrightarrow>
      treshape t [D b, D ?pd, Infer] = Inr (t\<lparr>shape := [b, ?pd, ?dp]\<rparr>)"
    using b pd by (intro reshape_3) simp_all
  show ?thesis
    using p by (simp add: feedforward_def r1 r2 dense_ok params_ok_def Let_def)
qed

lemma layer_call_chain:
  assumes x: "shape x = [b, pad_size L, f]" and b: "0 < b" and pd: "0 < pad_size L"
    and nh: "0 < num_heads L" "num_heads L dvd depth L" and dp: "0 < depth L"
    and p: "params_ok L f p"
  defines "s \<equiv> [b, pad_size L, depth L]"
  shows "\<exists>fsi si att dff2. input_projection L p x = Inr (b, fsi, si)
     \<and> shape si = s \<and> wf_tensor si \<and> shape att = s \<and> wf_tensor att \<and> shape dff2 = s \<and> wf_tensor dff2
     \<and> layer_call L p keep x =
          (let nl = tbin_raw (+) si (tbin_raw (*) (tsqueeze (random_id_att p)) att s) s;
               out = tbin_raw (+) nl (tbin_raw (*) (tsqueeze (random_id_ff p)) dff2 s) s
           in if pool L then treduce_mean1 out else Inr out)"
proof -
  obtain fsi si where ip: "input_projection L p x = Inr (b, fsi, si)"
    and sf: "shape fsi = [pad_size L * b, depth L]" and ss: "shape si = s" and ws: "wf_tensor si"
    using input_projection_ok [OF x b pd p] by (simp add: s_def ac_simps)
  obtain aw vt where sc: "attention_scores L p b fsi = Inr (aw, vt)"
    and saw: "shape aw = [b, num_heads L, pad_size L, pad_size L]"
    and svt: "shape vt = [b, num_heads L, pad_size L, depth L div num_heads L]"
    using attention_scores_ok [OF sf b pd nh dp p] by blast
  obtain att where ao: "attention_output L p b aw vt = Inr att" and sa: "shape att = s"
    and wa: "wf_tensor att"
    using attention_output_ok [OF saw svt b pd nh(2) dp p] unfolding s_def by blast
  define nl where "nl = tbin_raw (+) si (tbin_raw (*) (tsqueeze (random_id_att p)) att s) s"
  have snl: "shape nl = s"
    by (simp add: nl_def)
  then obtain dff2 where ff: "feedforward L p keep b nl = Inr dff2" and sd: "shape dff2 = s"
    and wd: "wf_tensor dff2"
    using feedforward_ok [of nl b L f p keep] b pd p unfolding s_def by blast
  have g: "shape (tsqueeze (random_id_att p)) = []" "shape (tsqueeze (random_id_ff p)) = []"
    using params_ok_gates [OF p] by (simp_all del: One_nat_def)
  have rs: "\<And>t :: tensor. shape t = s \<Longrightarrow> treshape t [D b, D (pad_size L), D (depth L)] = Inr t"
    using treshape_same unfolding s_def by (metis list.simps(8,9))
  have "layer_call L p keep x =
          (let out = tbin_raw (+) nl (tbin_raw (*) (tsqueeze (random_id_ff p)) dff2 s) s
           in if pool L then treduce_mean1 out else Inr out)"
    using ss sa sd g snl by (simp add: layer_call_def ip sc ao tbin_ok ff rs Let_def flip: nl_def)
  then show ?thesis
    using ip ss ws sa wa sd wd by (auto simp: nl_def Let_def)
qed

lemma layer_call_ok:
  assumes "shape x = [b, pad_size L, f]" "0 < b" "0 < pad_size L"
    "0 < num_heads L" "num_heads L dvd depth L" "0 < depth L" "params_ok L f p"
  shows "\<exists>y. layer_call L p keep x = Inr y
     \<and> shape y = (if pool L then [b, depth L] else [b, pad_size L, depth L]) \<and> wf_tensor y"
proof -
  obtain out where lc: "layer_call L p keep x = (if pool L then treduce_mean1 out else Inr out)"
    and out: "shape out = [b, pad_size L, depth L]" "wf_tensor out"
    using layer_call_chain [OF assms, of keep] by (auto simp: Let_def)
  show ?thesis
    using lc out by (simp add: treduce_mean1_def)
qed

text \<open>An input whose second dimension is not \<open>pad_size\<close> is rejected by the first matrix
  product: the flattening reshape gives rows of the wrong width.\<close>

lemma input_projection_wrong_positions:
  assumes x: "shape x = [b, q, f]" and q: "q \<noteq> pad_size L" and f: "0 < f" and b: "0 < b"
    and p: "params_ok L f p"
  shows "input_projection L p x = Inl InvalidArgument"
proof (cases "treshape x [D (pad_size L * b), Infer]")
  case (Inl e)
  moreover have "e = InvalidArgument"
    using Inl by (simp add: treshape_def Let_def split: if_splits)
  ultimately show ?thesis using x by (simp add: input_projection_def tdim0_def)
next
  case (Inr fi)
  then have pos: "0 < pad_size L * b" and dvd: "(b * (q * f)) mod (pad_size L * b) = 0"
    and fi: "fi = x\<lparr>shape := [pad_size L * b, b * (q * f) div (pad_size L * b)]\<rparr>"
    using x by (auto simp: treshape_def Let_def split: if_splits)
  have "b * (q * f) div (pad_size L * b) \<noteq> f"
  proof
    assume "b * (q * f) div (pad_size L * b) = f"
    then have "b * (q * f) = pad_size L * b * f"
      using dvd by (metis mod_div_mult_eq add_0 mult.commute)
    then have "q * f = pad_size L * f" using b by (simp add: ac_simps)
    then show False using q f by simp
  qed
  then have "dense fi (input_dense_weight p) (input_dense_bias p) = Inl InvalidArgument"
    using p fi by (simp add: dense_def tmatmul_def params_ok_def Let_def)
  then show ?thesis using x Inr by (simp add: input_projection_def tdim0_def)
qed

lemma attention_scores_zero_depth:
  assumes fsi: "shape fsi = [pad_size L * b, 0]" and dp: "depth L = 0" and b: "0 < b" and pd: "0 < pad_size L"
    and p: "params_ok L f p"
  shows "attention_scores L p b fsi = Inl InvalidArgument"
proof -
  have dn: "\<And>w bias. shape w = [0, 0] \<Longrightarrow> shape bias = [0] \<Longrightarrow>
      dense fsi w bias = Inr (tbin_raw (+) (matmul_raw fsi w False [] (pad_size L * b) 0 0) bias [pad_size L * b, 0])"
    using fsi by (simp add: dense_ok)
  have rs: "\<And>t :: tensor. shape t = [pad_size L * b, 0] \<Longrightarrow>
      treshape t [D b, D (pad_size L), Infer] = Inr (t\<lparr>shape := [b, pad_size L, 0]\<rparr>)"
    using b pd by (intro reshape_3) simp_all
  have sh: "\<And>t :: tensor. split_heads L b t = Inl InvalidArgument"
    using dp by (simp add: split_heads_def treshape_def Let_def)
  show ?thesis
    using p dp by (simp add: attention_scores_def params_ok_def Let_def dn rs sh)
qed

text \<open>With both gates at zero the residual branches add exact zeros.\<close>

lemma zero_gates_identity:
  assumes x: "shape x = [b, pad_size L, f]" and b: "0 < b" and pd: "0 < pad_size L"
    and nh: "0 < num_heads L" "num_heads L dvd depth L" and dp: "0 < depth L"
    and p: "params_ok L f p" and ga: "tdata (random_id_att p) = [0]" and gf: "tdata (random_id_ff p) = [0]"
  shows "layer_call L p keep x =
           rbind (input_projection L p x) (\<lambda>(_, _, si). if pool L then treduce_mean1 si else Inr si)"
proof -
  let ?s = "[b, pad_size L, depth L]"
  obtain fsi si att dff2 where ip: "input_projection L p x = Inr (b, fsi, si)"
    and si: "shape si = ?s" "wf_tensor si" and att: "shape att = ?s" "wf_tensor att"
    and dff: "shape dff2 = ?s" "wf_tensor dff2"
    and lc: "layer_call L p keep x =
          (let nl = tbin_raw (+) si (tbin_raw (*) (tsqueeze (random_id_att p)) att ?s) ?s;
               out = tbin_raw (+) nl (tbin_raw (*) (tsqueeze (random_id_ff p)) dff2 ?s) ?s
           in if pool L then treduce_mean1 out else Inr out)"
    using layer_call_chain [OF x b pd nh dp p, of keep] by blast
  have g: "tsqueeze (random_id_att p) = tconst 0" "tsqueeze (random_id_ff p) = tconst 0"
    using params_ok_gates [OF p] ga gf by (simp_all add: tsqueeze_gate del: One_nat_def)
  have nl: "tbin_raw (+) si (tbin_raw (*) (tconst 0) att ?s) ?s = si"
    using zero_gate_residual [of si att] si att by simp
  have out: "tbin_raw (+) si (tbin_raw (*) (tconst 0) dff2 ?s) ?s = si"
    using zero_gate_residual [of si dff2] si dff by simp
  show ?thesis
    using lc by (simp add: g nl out ip)
qed

subsection \<open>The gated attention weights\<close>

lemma sigmoid_bounds: "0 < sigmoid x \<and> sigmoid x < 1"
proof -
  have "1 < 1 + exp (- x)" by simp
  moreover have "0 < 1 + exp (- x)" by (intro add_pos_pos) simp_all
  ultimately show ?thesis by (simp add: sigmoid_def divide_less_eq)
qed

lemma sigmoid_neg: "x < 0 \<Longrightarrow> sigmoid x < 1 / 2"
proof -
  assume "x < 0"
  then have "2 < 1 + exp (- x)" by simp
  moreover have "0 < 1 + exp (- x)" by (intro add_pos_pos) simp_all
  ultimately show ?thesis by (simp add: sigmoid_def divide_less_eq)
qed

lemma gated_weight_bounds: "- 1 / 2 < sigmoid x * tanh x \<and> sigmoid x * tanh x < 1"
proof (cases "x < 0")
  case True
  have "sigmoid x * (- 1) < sigmoid x * tanh x"
    using sigmoid_bounds [of x] tanh_real_gt_neg1 [of x] by (intro mult_strict_left_mono) simp_all
  moreover have "sigmoid x * tanh x < 0"
    using sigmoid_bounds [of x] True by (simp add: mult_pos_neg)
  ultimately show ?thesis using sigmoid_neg [OF True] by simp
next
  case False
  have "sigmoid x * tanh x \<le> sigmoid x"
    using sigmoid_bounds [of x] tanh_real_lt_1 [of x] by (intro mult_left_le) simp_all
  moreover have "0 \<le> sigmoid x * tanh x"
    using sigmoid_bounds [of x] False by simp
  ultimately show ?thesis using sigmoid_bounds [of x] by linarith
qed

lemma attention_weights_form:
  "attention_scores L p b fsi = Inr (aw, vt) \<Longrightarrow>
   \<exists>l. wf_tensor l \<and> tbin (*) (tmap sigmoid l) (tmap tanh l) = Inr aw"
  unfolding attention_scores_def apply_mask_def rbind_eq_Inr by (blast dest: tbin_Inr_wf)

subsection \<open>Claims\<close>

text \<open>C15: right after build (which initialises both residual gates to zero), a call of the layer returns the re-projected input \<open>scaled_input\<close>, mean-pooled when \<open>pool\<close> is set, whatever the attention and feed-forward branches and the dropout mask compute\<close>

theorem layer_identity_at_init:
  assumes bl: "layer_build L (shape x) glorot = Inr p"
    and x: "shape x = [b, pad_size L, f]" and b: "0 < b" and pd: "0 < pad_size L"
    and nh: "0 < num_heads L" "num_heads L dvd depth L" and dp: "0 < depth L"
  shows "layer_call L p keep x =
           rbind (input_projection L p x) (\<lambda>(_, _, si). if pool L then treduce_mean1 si else Inr si)"
proof -
  have "params_ok L f p"
    using layer_build_ok [OF bl] x by simp
  then show ?thesis
    using zero_gates_identity [OF x b pd nh dp] layer_build_zero_gates [OF bl] by blast
qed

theorem layer_identity_at_init_witness:
  "\<exists>p. layer_build ex_layer (shape ex_input) ex_glorot = Inr p
     \<and> layer_call ex_layer p ex_keep ex_input =
         rbind (input_projection ex_layer p ex_input) (\<lambda>(_, _, si). if pool ex_layer then treduce_mean1 si else Inr si)"
proof -
  have "\<exists>p. layer_build ex_layer (shape ex_input) ex_glorot = Inr p"
    by (simp add: layer_build_def Let_def)
  then obtain p where pb: "layer_build ex_layer (shape ex_input) ex_glorot = Inr p" ..
  show ?thesis
    using pb layer_identity_at_init [OF pb, of 1 3 ex_keep] by simp
qed

text \<open>C16: a layer that \<open>__init__\<close> accepts (positive depth), built for an input of shape \<open>[b, pad_size, f]\<close> with positive \<open>b\<close> and \<open>pad_size\<close>, returns from \<open>call\<close> without error a tensor of the shape \<open>compute_output_shape\<close> announces\<close>

theorem layer_output_shape:
  assumes i: "layer_init nh ps dp pl = Inr L" and bl: "layer_build L (shape x) glorot = Inr p"
    and x: "shape x = [b, ps, f]" and b: "0 < b" and ps: "0 < ps" and dp: "0 < dp"
  shows "\<exists>y. layer_call L p keep x = Inr y \<and> compute_output_shape L (shape x) = Inr (shape y) \<and> wf_tensor y"
proof -
  have L: "num_heads L = nh" "depth L = dp" "pool L = pl" "pad_size L = ps" "0 < nh" "nh dvd dp"
    using layer_init_ok [OF i] by simp_all
  have p: "params_ok L f p"
    using layer_build_ok [OF bl] x by simp
  obtain y where "layer_call L p keep x = Inr y"
    and "shape y = (if pool L then [b, depth L] else [b, pad_size L, depth L])" "wf_tensor y"
    using layer_call_ok [of x b L f p keep] x b ps dp p L by auto
  then show ?thesis
    using x L by (simp add: compute_output_shape_def)
qed

theorem layer_output_shape_witness:
  "\<exists>L p y. layer_init 2 4 8 False = Inr L \<and> layer_build L (shape ex_input) ex_glorot = Inr p
     \<and> layer_call L p ex_keep ex_input = Inr y \<and> compute_output_shape L (shape ex_input) = Inr (shape y)
     \<and> wf_tensor y"
proof -
  have "\<exists>L. layer_init 2 4 8 False = Inr L"
    by (simp add: layer_init_def)
  then obtain L where i: "layer_init 2 4 8 False = Inr L" ..
  have "\<exists>p. layer_build L (shape ex_input) ex_glorot = Inr p"
    by (simp add: layer_build_def Let_def)
  then obtain p where pb: "layer_build L (shape ex_input) ex_glorot = Inr p" ..
  show ?thesis
    using i pb layer_output_shape [OF i pb, of 1 3 ex_keep] by auto
qed

text \<open>C17: every attention weight \<open>sigmoid(s) * tanh(s)\<close> the scores stage returns lies strictly between -1/2 and 1 (so within the specified (-1, 1))\<close>

lemma attention_weights_bounded:
  "attention_scores L p b fsi = Inr (aw, vt) \<Longrightarrow> list_all (\<lambda>w. - 1 / 2 < w \<and> w < 1) (tdata aw)"
proof -
  assume "attention_scores L p b fsi = Inr (aw, vt)"
  then obtain l where l: "wf_tensor l" and "tbin (*) (tmap sigmoid l) (tmap tanh l) = Inr aw"
    using attention_weights_form by blast
  then have aw: "aw = tbin_raw (*) (tmap sigmoid l) (tmap tanh l) (shape l)"
    by (simp add: tbin_gated)
  have "tdata aw = map2 (*) (tdata (tmap sigmoid l)) (tdata (tmap tanh l))"
    using l tdata_tbin_same [of "tmap sigmoid l" "tmap tanh l" "(*)"] by (simp add: aw)
  also have "\<dots> = map (\<lambda>x. sigmoid x * tanh x) (tdata l)"
    by (simp add: tmap_def zip_map_map zip_same_conv_map comp_def)
  finally have "tdata aw = map (\<lambda>x. sigmoid x * tanh x) (tdata l)" .
  then show ?thesis using gated_weight_bounds by (simp add: list_all_iff)
qed

theorem attention_weights_bounded_witness:
  "\<exists>p fsi si aw vt. layer_build ex_layer (shape ex_input) ex_glorot = Inr p
     \<and> input_projection ex_layer p ex_input = Inr (1, fsi, si)
     \<and> attention_scores ex_layer p 1 fsi = Inr (aw, vt)
     \<and> list_all (\<lambda>w. - 1 / 2 < w \<and> w < 1) (tdata aw)"
proof -
  have "\<exists>p. layer_build ex_layer (shape ex_input) ex_glorot = Inr p"
    by (simp add: layer_build_def Let_def)
  then obtain p where pb: "layer_build ex_layer (shape ex_input) ex_glorot = Inr p" ..
  have p: "params_ok ex_layer 3 p"
    using layer_build_ok [OF pb] by simp
  obtain fsi si where ip: "input_projection ex_layer p ex_input = Inr (1, fsi, si)"
    and sf: "shape fsi = [pad_size ex_layer * 1, depth ex_layer]"
    using input_projection_ok [of ex_input 1 ex_layer 3 p] p by simp
  obtain aw vt where sc: "attention_scores ex_layer p 1 fsi = Inr (aw, vt)"
    using attention_scores_ok [OF sf _ _ _ _ _ p] by auto
  show ?thesis
    using pb ip sc attention_weights_bounded [OF sc] by blast
qed

text \<open>C18: the attention mask is numerically a no-op: adding \<open>(1 - ones) * -1e9\<close> to logits of the mask's shape gives the logits back exactly\<close>

theorem attention_mask_noop:
  assumes "wf_tensor l" "shape l = [b, num_heads L, pad_size L, pad_size L]"
  shows "apply_mask L b l = Inr l"
proof -
  have "tbin_raw (+) l \<lparr>shape = shape l, tdata = replicate (prod_list (shape l)) 0\<rparr> (shape l) = l"
    using assms(1) by (intro add_zeros) (simp_all add: wf_tensor_def)
  then show ?thesis using assms(2) by (simp add: apply_mask_eq tbin_ok)
qed

theorem attention_mask_noop_witness:
  "apply_mask ex_layer 1 \<lparr>shape = [1, 2, 4, 4], tdata = replicate 32 (1 / 2)\<rparr>
     = Inr \<lparr>shape = [1, 2, 4, 4], tdata = replicate 32 (1 / 2)\<rparr>"
  by (rule attention_mask_noop) (simp_all add: wf_tensor_def)

text \<open>C19: a depth of zero passes the configuration check of \<open>__init__\<close> (0 is a multiple of every head count), but every call of the built layer then fails in the reshape of \<open>split_heads\<close>\<close>

theorem layer_zero_depth_fails:
  assumes i: "layer_init nh ps 0 pl = Inr L" and bl: "layer_build L (shape x) glorot = Inr p"
    and x: "shape x = [b, ps, f]" and b: "0 < b" and ps: "0 < ps"
  shows "layer_call L p keep x = Inl InvalidArgument"
proof -
  have L: "depth L = 0" "pad_size L = ps"
    using layer_init_ok [OF i] by simp_all
  have p: "params_ok L f p"
    using layer_build_ok [OF bl] x by simp
  obtain fsi si where ip: "input_projection L p x = Inr (b, fsi, si)"
    and sf: "shape fsi = [pad_size L * b, 0]"
    using input_projection_ok [of x b L f p] x b ps p L by simp
  have "attention_scores L p b fsi = Inl InvalidArgument"
    using attention_scores_zero_depth [OF sf L(1) b] ps p L by simp
  then show ?thesis by (simp add: layer_call_def ip)
qed

theorem layer_zero_depth_fails_witness:
  "\<exists>L p. layer_init 4 4 0 False = Inr L \<and> layer_build L (shape ex_input) ex_glorot = Inr p
     \<and> layer_call L p ex_keep ex_input = Inl InvalidArgument"
proof -
  have "\<exists>L. layer_init 4 4 0 False = Inr L"
    by (simp add: layer_init_def)
  then obtain L where i: "layer_init 4 4 0 False = Inr L" ..
  have "\<exists>p. layer_build L (shape ex_input) ex_glorot = Inr p"
    by (simp add: layer_build_def Let_def)
  then obtain p where pb: "layer_build L (shape ex_input) ex_glorot = Inr p" ..
  show ?thesis
    using i pb layer_zero_depth_fails [OF i pb, of 1 3 ex_keep] by auto
qed


text \<open>C29: The layer accepts only inputs with pad_size positions: an input of shape
  [b, q, f] with q different from pad_size (and b, f > 0) makes every call fail with
  InvalidArgument, although compute_output_shape announces the shape [b, q, depth] for it.\<close>

theorem layer_call_wrong_positions:
  assumes "shape x = [b, q, f]" "q \<noteq> pad_size L" "0 < f" "0 < b" "params_ok L f p"
  shows "layer_call L p keep x = Inl InvalidArgument \<and> compute_output_shape L (shape x) = Inr (if pool L then [b, depth L] else [b, q, depth L])"
  using input_projection_wrong_positions [OF assms] assms(1) by (simp add: layer_call_def compute_output_shape_def)

theorem layer_call_wrong_positions_witness:
  "\<exists>p. layer_build ex_layer [1, 2, 3] ex_glorot = Inr p
     \<and> layer_call ex_layer p ex_keep \<lparr>shape = [1, 2, 3], tdata = replicate 6 1\<rparr> = Inl InvalidArgument
     \<and> compute_output_shape ex_layer [1, 2, 3] = Inr [1, 2, 8]"
proof -
  have "\<exists>p. layer_build ex_layer [1, 2, 3] ex_glorot = Inr p"
    by (simp add: layer_build_def Let_def)
  then obtain p where pb: "layer_build ex_layer [1, 2, 3] ex_glorot = Inr p" ..
  have "params_ok ex_layer 3 p"
    using layer_build_ok [OF pb] by simp
  then show ?thesis
    using pb layer_call_wrong_positions [of "\<lparr>shape = [1, 2, 3], tdata = replicate 6 1\<rparr>" 1 2 3 ex_layer p ex_keep]
    by auto
qed


text \<open>C39: get_config round trip: a layer built by __init__ is re-created with the same
  configuration from its get_config dictionary, whatever the base layer's config holds.\<close>
theorem get_config_roundtrip:
  "layer_init nh ps dp pl = Inr L \<Longrightarrow> from_config (get_config base L) = Inr L"
  using layer_init_ok [of nh ps dp pl L]
  by (cases pl) (auto simp: get_config_def from_config_def cfg_int_def cfg_truthy_def
                            update_conv' layer_init_def)

theorem get_config_roundtrip_witness:
  "from_config (get_config [(''name'', CfgInt 0), (''depth'', CfgBool True)] \<lparr>num_heads = 2, depth = 8, pool = True, pad_size = 4\<rparr>)
     = Inr \<lparr>num_heads = 2, depth = 8, pool = True, pad_size = 4\<rparr>"
  using get_config_roundtrip [of 2 4 8 True "\<lparr>num_heads = 2, depth = 8, pool = True, pad_size = 4\<rparr>"]
  by (simp add: layer_init_def)

end
