(* ===== verification/VectorDict.thy ===== *)
theory VectorDict
  imports Prelude
begin

text \<open>
  The vector dictionary of \<open>src/train.py\<close>: the table \<open>w2v\<close> read from
  \<open>./models/vec.vec\<close> (lines 217--230), the lookup \<open>convert\<close> (lines 270--275), the
  nearest-neighbour decoder \<open>reverser\<close> (lines 262--267) and \<open>reparse\<close> (lines 256--258).
  The Python dict \<open>w2v\<close> is an association list updated with \<open>AList.update\<close>, which
  keeps the position of the first insertion of a key and the value of the last one, as a
  Python dict does; \<open>vw2v = list(w2v.items())\<close> is the association list itself.
\<close>

type_synonym vec = "real list"
type_synonym w2v = "(string \<times> vec) list"

section \<open>Loading the vocabulary file\<close>

text \<open>
  \<open>float(token)\<close> is a parameter \<open>pf\<close> of the loader; \<open>py_float\<close> below is the decimal
  subset of Python's float syntax used by the vocabulary files.
\<close>

definition is_digit :: "char \<Rightarrow> bool" where
  "is_digit c = (char_digit c \<noteq> None)"

definition digits_real :: "string \<Rightarrow> real" where
  "digits_real ds = real (case digits_value 0 ds of Some v \<Rightarrow> v | None \<Rightarrow> 0)"

definition parse_mantissa :: "string \<Rightarrow> real option" where
  "parse_mantissa s =
     (let ip = takeWhile is_digit s; rest = dropWhile is_digit s in
      case rest of
        [] \<Rightarrow> (if ip = [] then None else Some (digits_real ip))
      | c # fp \<Rightarrow>
          (if c = CHR ''.'' \<and> list_all is_digit fp \<and> (ip \<noteq> [] \<or> fp \<noteq> [])
           then Some (digits_real ip + digits_real fp / 10 ^ length fp) else None))"

definition parse_signed :: "(string \<Rightarrow> real option) \<Rightarrow> string \<Rightarrow> real option" where
  "parse_signed p s =
     (case s of
        c # cs \<Rightarrow> (if c = CHR ''-'' then map_option uminus (p cs)
                   else if c = CHR ''+'' then p cs else p s)
      | [] \<Rightarrow> None)"

definition parse_exponent :: "string \<Rightarrow> real option" where
  "parse_exponent s = (if s \<noteq> [] \<and> list_all is_digit s then Some (digits_real s) else None)"

definition py_float :: "string \<Rightarrow> real option" where
  "py_float s =
     (let m = takeWhile (\<lambda>c. c \<noteq> CHR ''e'' \<and> c \<noteq> CHR ''E'') s;
          e = dropWhile (\<lambda>c. c \<noteq> CHR ''e'' \<and> c \<noteq> CHR ''E'') s in
      case parse_signed parse_mantissa m of
        None \<Rightarrow> None
      | Some x \<Rightarrow>
          (case e of
             [] \<Rightarrow> Some x
           | _ # es \<Rightarrow>
               (case parse_signed parse_exponent es of
                  None \<Rightarrow> None
                | Some k \<Rightarrow> Some (x * 10 powr k))))"

text \<open>
  One data line: \<open>tokens = line.split()\<close>, \<open>key = tokens.pop(0)\<close> (an \<open>IndexError\<close> on a
  blank line), \<open>vec = [float(token) for token in tokens if token]\<close> (a \<open>ValueError\<close> on
  the first malformed field).
\<close>

definition parse_line :: "(string \<Rightarrow> real option) \<Rightarrow> string \<Rightarrow> (string \<times> vec) result" where
  "parse_line pf line =
     (case py_split line of
        [] \<Rightarrow> Inl IndexError
      | key # toks \<Rightarrow>
          (case those (map pf (filter (\<lambda>t. t \<noteq> []) toks)) of
             None \<Rightarrow> Inl ValueError
           | Some v \<Rightarrow> Inr (key, v)))"

text \<open>The loop \<open>for line in v: ... w2v[key] = vec\<close>.\<close>

fun load_lines :: "(string \<Rightarrow> real option) \<Rightarrow> w2v \<Rightarrow> string list \<Rightarrow> w2v result" where
  "load_lines pf d [] = Inr d"
| "load_lines pf d (l # ls) =
     rbind (parse_line pf l) (\<lambda>(key, v). load_lines pf (AList.update key v d) ls)"

text \<open>\<open>v = f.readlines(); v.pop(0); w2v = {}; for line in v: ...\<close>\<close>

definition load_vocab :: "(string \<Rightarrow> real option) \<Rightarrow> string list \<Rightarrow> w2v result" where
  "load_vocab pf v = (case v of [] \<Rightarrow> Inl IndexError | _ # ls \<Rightarrow> load_lines pf [] ls)"

section \<open>Lookup: \<open>convert\<close>\<close>

definition empty_vec :: vec where
  "empty_vec = replicate 8 0"

text \<open>
  \<open>convert n\<close> looks up \<open>str(n)\<close>, falls back to \<open>empty_vec\<close>, and logs an error when the
  vector it returns equals \<open>empty_vec\<close>; the second component records that log line.
\<close>

definition convert :: "w2v \<Rightarrow> int \<Rightarrow> vec \<times> bool" where
  "convert d n =
     (let v = (case map_of d (py_str_int n) of Some v \<Rightarrow> v | None \<Rightarrow> empty_vec)
      in (v, v = empty_vec))"


section \<open>Nearest-neighbour decoding: \<open>reverser\<close>\<close>

text \<open>\<open>[item[1] if item[1] else [0] * 8 for item in vw2v]\<close>\<close>

definition stored_vectors :: "w2v \<Rightarrow> vec list" where
  "stored_vectors d = map (\<lambda>(k, v). if v = [] then replicate 8 0 else v) d"

text \<open>
  Broadcasting of the rows of \<open>vectors\<close> (length \<open>r\<close>) against \<open>arr_np\<close> (length
  \<open>a\<close>): equal lengths, or one of them 1; otherwise NumPy raises \<open>ValueError\<close>.
\<close>

definition bdim :: "nat \<Rightarrow> nat \<Rightarrow> nat option" where
  "bdim r a = (if r = a then Some r else if r = 1 then Some a else if a = 1 then Some r else None)"

definition bsub_row :: "nat \<Rightarrow> vec \<Rightarrow> vec \<Rightarrow> vec" where
  "bsub_row n row arr =
     map (\<lambda>j. row ! (if length row = 1 then 0 else j) - arr ! (if length arr = 1 then 0 else j))
       [0..<n]"

definition l2norm :: "vec \<Rightarrow> real" where
  "l2norm v = sqrt (sum_list (map (\<lambda>x. x\<^sup>2) v))"

text \<open>\<open>np.argmin\<close>: a left-to-right scan keeping the first strict minimum.\<close>

fun argmin_from :: "nat \<Rightarrow> nat \<Rightarrow> real \<Rightarrow> real list \<Rightarrow> nat" where
  "argmin_from i bi bv [] = bi"
| "argmin_from i bi bv (x # xs) =
     (if x < bv then argmin_from (Suc i) i x xs else argmin_from (Suc i) bi bv xs)"

definition py_argmin :: "real list \<Rightarrow> nat result" where
  "py_argmin xs = (case xs of [] \<Rightarrow> Inl ValueError | x # rest \<Rightarrow> Inr (argmin_from 1 0 x rest))"

text \<open>
  \<open>reverser(arr)\<close>: stack the vocabulary vectors (an empty vocabulary or rows of different
  lengths raise \<open>ValueError\<close>), subtract \<open>arr\<close> with broadcasting, take the Euclidean
  norm of each row and return the key of the first row of least distance.
\<close>

definition reverser :: "w2v \<Rightarrow> vec \<Rightarrow> string result" where
  "reverser d arr =
     (let vs = stored_vectors d in
      if vs = [] then Inl ValueError
      else if \<not> list_all (\<lambda>v. length v = length (hd vs)) vs then Inl ValueError
      else case bdim (length (hd vs)) (length arr) of
             None \<Rightarrow> Inl ValueError
           | Some n \<Rightarrow>
               rbind (py_argmin (map (\<lambda>v. l2norm (bsub_row n v arr)) vs))
                 (\<lambda>i. Inr (fst (d ! i))))"

text \<open>
  \<open>reparse(v)\<close> up to \<open>tokenizer.decode\<close>: the comprehension
  \<open>[int(reverser(item)) if len(item) else item for item in v]\<close> decodes every non-empty
  vector (\<open>Some\<close> of its id) and passes an empty one on unchanged (\<open>None\<close>); the
  tokenizer then rejects a list that still holds an empty item with \<open>TypeError\<close>.
\<close>

fun reparse_items :: "w2v \<Rightarrow> vec list \<Rightarrow> int option list result" where
  "reparse_items d [] = Inr []"
| "reparse_items d (item # items) =
     rbind (if item = [] then Inr None
            else rbind (reverser d item) (\<lambda>key. rbind (py_int key) (\<lambda>t. Inr (Some t))))
       (\<lambda>x. rbind (reparse_items d items) (\<lambda>xs. Inr (x # xs)))"

definition reparse_ids :: "w2v \<Rightarrow> vec list \<Rightarrow> int list result" where
  "reparse_ids d v =
     rbind (reparse_items d v) (\<lambda>xs. case those xs of None \<Rightarrow> Inl TypeError | Some ts \<Rightarrow> Inr ts)"


section \<open>Executable companions and the vocabulary invariant\<close>

text \<open>
  \<open>reverser_sq\<close> ranks the rows by squared distance instead of by \<open>np.linalg.norm\<close>;
  \<open>sqrt\<close> is strictly monotone, so both pick the same row (\<open>reverser_eq_sq\<close>), and
  the squared form evaluates by \<open>simp\<close>.
\<close>

definition sq_dist :: "vec \<Rightarrow> real" where
  "sq_dist v = sum_list (map (\<lambda>x. x\<^sup>2) v)"

definition reverser_sq :: "w2v \<Rightarrow> vec \<Rightarrow> string result" where
  "reverser_sq d arr =
     (let vs = stored_vectors d in
      if vs = [] then Inl ValueError
      else if \<not> list_all (\<lambda>v. length v = length (hd vs)) vs then Inl ValueError
      else case bdim (length (hd vs)) (length arr) of
             None \<Rightarrow> Inl ValueError
           | Some n \<Rightarrow>
               rbind (py_argmin (map (\<lambda>v. sq_dist (bsub_row n v arr)) vs))
                 (\<lambda>i. Inr (fst (d ! i))))"

text \<open>
  The vocabulary invariant the round trip needs: the vectors \<open>reverser\<close> stacks are
  pairwise distinct and of one length.
\<close>

definition vocab_ok :: "w2v \<Rightarrow> bool" where
  "vocab_ok d \<longleftrightarrow> distinct (stored_vectors d)
     \<and> list_all (\<lambda>v. length v = length (hd (stored_vectors d))) (stored_vectors d)"

text \<open>All data lines parsed, stopping at the first failure, as the loader's loop does.\<close>

fun parse_all :: "(string \<Rightarrow> real option) \<Rightarrow> string list \<Rightarrow> (string \<times> vec) list result" where
  "parse_all pf [] = Inr []"
| "parse_all pf (l # ls) = rbind (parse_line pf l) (\<lambda>e. rbind (parse_all pf ls) (\<lambda>es. Inr (e # es)))"


section \<open>Properties\<close>

subsection \<open>Loading\<close>

lemma load_lines_parse_all:
  "load_lines pf d ls =
     rbind (parse_all pf ls) (\<lambda>es. Inr (fold (\<lambda>(k, v). AList.update k v) es d))"
proof (induction ls arbitrary: d)
  case Nil
  then show ?case by simp
next
  case (Cons l ls)
  show ?case
    by (cases "parse_line pf l"; cases "parse_all pf ls") (auto simp: Cons.IH)
qed

lemma map_of_fold_update:
  "map_of (fold (\<lambda>(k, v). AList.update k v) es d) = map_of d ++ map_of (rev es)"
  by (induction es arbitrary: d) (auto simp: AList.update_conv')

lemma distinct_fold_update:
  "distinct (map fst d) \<Longrightarrow> distinct (map fst (fold (\<lambda>(k, v). AList.update k v) es d))"
  by (induction es arbitrary: d) (auto simp: AList.distinct_update)

lemma those_None_iff: "those xs = None \<longleftrightarrow> None \<in> set xs"
  by (induction xs) (auto split: option.splits)

lemma those_Some_None: "those xs = Some ys \<Longrightarrow> None \<notin> set xs"
  by (metis option.distinct(1) those_None_iff)

lemma parse_all_Inl:
  "parse_all pf ls = Inl e \<longleftrightarrow>
     (\<exists>pre l post. ls = pre @ l # post \<and> (\<forall>l'\<in>set pre. \<not> isl (parse_line pf l')) \<and> parse_line pf l = Inl e)"
proof (induction ls)
  case Nil
  then show ?case by simp
next
  case (Cons l0 ls)
  show ?case
  proof (cases "parse_line pf l0")
    case (Inl e0)
    show ?thesis
    proof
      assume "parse_all pf (l0 # ls) = Inl e"
      then show "\<exists>pre l post. l0 # ls = pre @ l # post \<and> (\<forall>l'\<in>set pre. \<not> isl (parse_line pf l'))
                   \<and> parse_line pf l = Inl e"
        using Inl by (intro exI [of _ "[]"] exI [of _ l0] exI [of _ ls]) simp
    next
      assume "\<exists>pre l post. l0 # ls = pre @ l # post \<and> (\<forall>l'\<in>set pre. \<not> isl (parse_line pf l'))
                \<and> parse_line pf l = Inl e"
      then show "parse_all pf (l0 # ls) = Inl e"
        using Inl by (auto simp: Cons_eq_append_conv)
    qed
  next
    case (Inr r)
    then have "parse_all pf (l0 # ls) = Inl e \<longleftrightarrow> parse_all pf ls = Inl e"
      by (cases "parse_all pf ls") simp_all
    also have "\<dots> \<longleftrightarrow> (\<exists>pre l post. ls = pre @ l # post \<and> (\<forall>l'\<in>set pre. \<not> isl (parse_line pf l'))
                                    \<and> parse_line pf l = Inl e)"
      by (rule Cons.IH)
    also have "\<dots> \<longleftrightarrow> (\<exists>pre l post. l0 # ls = pre @ l # post \<and> (\<forall>l'\<in>set pre. \<not> isl (parse_line pf l'))
                                    \<and> parse_line pf l = Inl e)"
    proof
      assume "\<exists>pre l post. ls = pre @ l # post \<and> (\<forall>l'\<in>set pre. \<not> isl (parse_line pf l'))
                \<and> parse_line pf l = Inl e"
      then obtain pre l post where "ls = pre @ l # post" "\<forall>l'\<in>set pre. \<not> isl (parse_line pf l')"
        "parse_line pf l = Inl e" by blast
      then show "\<exists>pre l post. l0 # ls = pre @ l # post \<and> (\<forall>l'\<in>set pre. \<not> isl (parse_line pf l'))
                   \<and> parse_line pf l = Inl e"
        using Inr by (intro exI [of _ "l0 # pre"] exI [of _ l] exI [of _ post]) simp
    next
      assume "\<exists>pre l post. l0 # ls = pre @ l # post \<and> (\<forall>l'\<in>set pre. \<not> isl (parse_line pf l'))
                \<and> parse_line pf l = Inl e"
      then obtain pre l post where eq: "l0 # ls = pre @ l # post"
        and a: "\<forall>l'\<in>set pre. \<not> isl (parse_line pf l')" and b: "parse_line pf l = Inl e" by blast
      obtain pre' where "pre = l0 # pre'" "ls = pre' @ l # post"
        using eq b Inr by (cases pre) auto
      then show "\<exists>pre l post. ls = pre @ l # post \<and> (\<forall>l'\<in>set pre. \<not> isl (parse_line pf l'))
                   \<and> parse_line pf l = Inl e"
        using a b by auto
    qed
    finally show ?thesis .
  qed
qed

lemma parse_line_blank: "\<forall>c\<in>set l. py_space c \<Longrightarrow> parse_line pf l = Inl IndexError"
  by (simp add: parse_line_def py_split_def split_aux_all_space)

subsection \<open>Lookup\<close>

lemma convert_found:
  "map_of d (py_str_int n) = Some v \<Longrightarrow> fst (convert d n) = v"
  by (simp add: convert_def)

lemma convert_length:
  "list_all (\<lambda>(k, v). length v = 8) d \<Longrightarrow> length (fst (convert d n)) = 8"
  by (auto simp: convert_def empty_vec_def list_all_iff dest: map_of_SomeD split: option.splits)

subsection \<open>Decoding\<close>

lemma argmin_from_mono:
  assumes "\<And>x y. g x < g y \<longleftrightarrow> x < y"
  shows "argmin_from i bi (g bv) (map g xs) = argmin_from i bi bv xs"
  using assms by (induction xs arbitrary: i bi bv) auto

lemma py_argmin_mono:
  assumes "\<And>x y. g x < g y \<longleftrightarrow> x < y"
  shows "py_argmin (map g xs) = py_argmin xs"
  using assms by (cases xs) (simp_all add: py_argmin_def argmin_from_mono)

lemma reverser_eq_sq: "reverser d arr = reverser_sq d arr"
proof -
  have "\<And>xs. py_argmin (map (\<lambda>x. sqrt x) xs) = py_argmin xs"
    by (rule py_argmin_mono) simp
  from this [of "map (\<lambda>v. sq_dist (bsub_row _ v arr)) _"] show ?thesis
    by (simp add: reverser_def reverser_sq_def l2norm_def sq_dist_def comp_def Let_def
        split: option.splits)
qed

lemma argmin_from_correct:
  assumes "i = length pre" "bi < i" "pre ! bi = bv" "\<forall>k<i. bv \<le> pre ! k" "\<forall>k<bi. bv < pre ! k"
  shows "argmin_from i bi bv xs < length (pre @ xs)
    \<and> (\<forall>j<length (pre @ xs). (pre @ xs) ! argmin_from i bi bv xs \<le> (pre @ xs) ! j)
    \<and> (\<forall>j<argmin_from i bi bv xs. (pre @ xs) ! argmin_from i bi bv xs < (pre @ xs) ! j)"
  using assms
proof (induction xs arbitrary: pre i bi bv)
  case Nil
  then show ?case by simp
next
  case (Cons x xs)
  let ?pre = "pre @ [x]"
  show ?case
  proof (cases "x < bv")
    case True
    have "argmin_from (Suc i) i x xs < length (?pre @ xs)
      \<and> (\<forall>j<length (?pre @ xs). (?pre @ xs) ! argmin_from (Suc i) i x xs \<le> (?pre @ xs) ! j)
      \<and> (\<forall>j<argmin_from (Suc i) i x xs. (?pre @ xs) ! argmin_from (Suc i) i x xs < (?pre @ xs) ! j)"
      using Cons.prems True
      by (intro Cons.IH) (auto simp: nth_append less_Suc_eq)
    with True show ?thesis by simp
  next
    case False
    have "argmin_from (Suc i) bi bv xs < length (?pre @ xs)
      \<and> (\<forall>j<length (?pre @ xs). (?pre @ xs) ! argmin_from (Suc i) bi bv xs \<le> (?pre @ xs) ! j)
      \<and> (\<forall>j<argmin_from (Suc i) bi bv xs. (?pre @ xs) ! argmin_from (Suc i) bi bv xs < (?pre @ xs) ! j)"
      using Cons.prems False
      by (intro Cons.IH) (auto simp: nth_append less_Suc_eq)
    with False show ?thesis by simp
  qed
qed

lemma py_argmin_Inr:
  assumes "py_argmin xs = Inr i"
  shows "i < length xs \<and> (\<forall>j<length xs. xs ! i \<le> xs ! j) \<and> (\<forall>j<i. xs ! i < xs ! j)"
proof (cases xs)
  case Nil
  with assms show ?thesis by (simp add: py_argmin_def)
next
  case (Cons x rest)
  with assms have i: "i = argmin_from 1 0 x rest" by (simp add: py_argmin_def)
  have "argmin_from 1 0 x rest < length ([x] @ rest)
    \<and> (\<forall>j<length ([x] @ rest). ([x] @ rest) ! argmin_from 1 0 x rest \<le> ([x] @ rest) ! j)
    \<and> (\<forall>j<argmin_from 1 0 x rest. ([x] @ rest) ! argmin_from 1 0 x rest < ([x] @ rest) ! j)"
    by (rule argmin_from_correct) auto
  with Cons i show ?thesis by simp
qed

lemma py_argmin_unique_zero:
  assumes "py_argmin xs = Inr i" "p < length xs" "xs ! p = 0"
    and "\<forall>j<length xs. j \<noteq> p \<longrightarrow> 0 < xs ! j"
  shows "i = p"
proof -
  from py_argmin_Inr [OF assms(1)] assms(2) have "i < length xs" "xs ! i \<le> xs ! p" by auto
  with assms(3,4) show ?thesis by force
qed

lemma sq_dist_nonneg: "0 \<le> sq_dist v"
  by (induction v) (simp_all add: sq_dist_def)

lemma sq_dist_eq_0: "sq_dist v = 0 \<longleftrightarrow> (\<forall>x\<in>set v. x = 0)"
proof (induction v)
  case Nil
  then show ?case by (simp add: sq_dist_def)
next
  case (Cons x v)
  have "0 \<le> sq_dist v" by (rule sq_dist_nonneg)
  with Cons show ?case by (simp add: sq_dist_def add_nonneg_eq_0_iff)
qed

lemma bsub_row_same_length:
  "length v = n \<Longrightarrow> length w = n \<Longrightarrow> bsub_row n v w = map (\<lambda>j. v ! j - w ! j) [0..<n]"
  by (auto simp: bsub_row_def)

lemma sq_dist_bsub_row_eq_0:
  assumes "length v = n" "length w = n"
  shows "sq_dist (bsub_row n v w) = 0 \<longleftrightarrow> v = w"
  using assms by (auto simp: bsub_row_same_length sq_dist_eq_0 intro: nth_equalityI)

lemma stored_vectors_nth:
  "p < length d \<Longrightarrow> d ! p = (k, v) \<Longrightarrow> v \<noteq> [] \<Longrightarrow> stored_vectors d ! p = v"
  by (simp add: stored_vectors_def)

lemma reverser_roundtrip:
  assumes ok: "vocab_ok d" and kv: "(k, v) \<in> set d" and ne: "v \<noteq> []"
  shows "reverser d v = Inr k"
proof -
  let ?vs = "stored_vectors d"
  obtain p where p: "p < length d" "d ! p = (k, v)"
    using kv by (auto simp: in_set_conv_nth)
  have vp: "?vs ! p = v" using p ne by (rule stored_vectors_nth)
  have len: "length ?vs = length d" by (simp add: stored_vectors_def)
  have vs_ne: "?vs \<noteq> []" using p len by auto
  have all_len: "\<forall>w\<in>set ?vs. length w = length (hd ?vs)"
    using ok by (simp add: vocab_ok_def list_all_iff)
  have hd_len: "length (hd ?vs) = length v"
    using all_len vp p len by (metis nth_mem)
  have lens: "\<forall>j<length ?vs. length (?vs ! j) = length v"
    using all_len hd_len by (metis nth_mem)
  let ?ds = "map (\<lambda>w. sq_dist (bsub_row (length v) w v)) ?vs"
  have ds_p: "?ds ! p = 0"
    using p len vp by (simp add: sq_dist_bsub_row_eq_0)
  have ds_pos: "\<forall>j<length ?ds. j \<noteq> p \<longrightarrow> 0 < ?ds ! j"
  proof (intro allI impI)
    fix j assume j: "j < length ?ds" "j \<noteq> p"
    have "?vs ! j \<noteq> ?vs ! p"
      using ok j p len by (simp add: vocab_ok_def nth_eq_iff_index_eq)
    then have "sq_dist (bsub_row (length v) (?vs ! j) v) \<noteq> 0"
      using lens j vp by (simp add: sq_dist_bsub_row_eq_0)
    with sq_dist_nonneg show "0 < ?ds ! j"
      using j by (simp add: order_less_le)
  qed
  obtain x rest where ds_cons: "?ds = x # rest"
    using vs_ne by (cases ?vs) auto
  then obtain i where i: "py_argmin ?ds = Inr i" by (simp add: py_argmin_def)
  have "i = p"
    using i p len ds_p ds_pos by (intro py_argmin_unique_zero [of ?ds]) auto
  then have "reverser_sq d v = Inr k"
    using vs_ne all_len hd_len i p
    by (simp add: reverser_sq_def Let_def list_all_iff bdim_def)
  then show ?thesis by (simp add: reverser_eq_sq)
qed

lemma those_map_Some [simp]: "those (map Some xs) = Some xs"
  by (induction xs) auto

subsection \<open>Claims\<close>

text \<open>C1: Round trip of the vector dictionary: when the vocabulary vectors are pairwise distinct and of one length, decoding the vector \<open>convert\<close> returns for an in-vocabulary token id with \<open>reverser\<close> gives back the key \<open>str(n)\<close> of that id.\<close>

theorem convert_reverser_roundtrip:
  assumes "vocab_ok d" "map_of d (py_str_int n) = Some v" "v \<noteq> []"
  shows "reverser d (fst (convert d n)) = Inr (py_str_int n)"
  using assms by (simp add: convert_found reverser_roundtrip map_of_SomeD)

theorem convert_reverser_roundtrip_witness:
  "vocab_ok [(''11'', [1, 2]), (''12'', [3, 4])]
   \<and> reverser [(''11'', [1, 2]), (''12'', [3, 4])] (fst (convert [(''11'', [1, 2]), (''12'', [3, 4])] 11)) = Inr ''11''"
proof -
  have ok: "vocab_ok [(''11'', [1, 2]), (''12'', [3, 4::real])]"
    by (simp add: vocab_ok_def stored_vectors_def)
  have k: "py_str_int 11 = ''11''" by code_simp
  have "map_of [(''11'', [1, 2]), (''12'', [3, 4::real])] (py_str_int 11) = Some [1, 2]"
    by (simp add: k)
  from convert_reverser_roundtrip [OF ok this] ok k show ?thesis by simp
qed

text \<open>C2: Unknown-token policy: \<open>convert\<close> of an id whose \<open>str(n)\<close> is not a key returns eight zeros, and it logs the missing-token error exactly when the id is unknown or its stored vector is itself eight zeros, so an in-vocabulary token with a zero vector is reported as missing.\<close>

theorem convert_unknown_token:
  "(snd (convert d n) \<longleftrightarrow>
      map_of d (py_str_int n) = None \<or> map_of d (py_str_int n) = Some (replicate 8 0))
   \<and> (map_of d (py_str_int n) = None \<longrightarrow> fst (convert d n) = replicate 8 0)"
  by (cases "map_of d (py_str_int n)") (auto simp: convert_def empty_vec_def)

theorem convert_unknown_token_witness:
  "map_of [(''11'', [1, 2])] (py_str_int 5) = None \<and> convert [(''11'', [1, 2])] 5 = (replicate 8 0, True)
   \<and> snd (convert [(''0'', replicate 8 0)] 0)"
proof -
  have k: "py_str_int 5 = ''5''" "py_str_int 0 = ''0''" by code_simp+
  have u: "map_of [(''11'', [1, 2::real])] (py_str_int 5) = None" by (simp add: k)
  have z: "map_of [(''0'', replicate 8 (0::real))] (py_str_int 0) = Some (replicate 8 0)" by (simp add: k)
  have "snd (convert [(''11'', [1, 2])] 5) \<and> fst (convert [(''11'', [1, 2])] 5) = replicate 8 0"
    using convert_unknown_token [of "[(''11'', [1, 2])]" 5] u by simp
  moreover have "snd (convert [(''0'', replicate 8 0)] 0)"
    using convert_unknown_token [of "[(''0'', replicate 8 0)]" 0] z by simp
  ultimately show ?thesis using u by (simp add: prod_eq_iff k)
qed

lemma w1: "load_vocab py_float [''h'', ''7 0.5 1e1''] = Inr [(''7'', [1/2, 10])]"
  by code_simp

lemma w2: "parse_all py_float [''11 1'', ''  ''] = Inl IndexError"
  by code_simp

lemma reparse_items_convert:
  assumes ok: "vocab_ok d"
    and known: "list_all (\<lambda>t. \<exists>v. map_of d (py_str_int t) = Some v \<and> v \<noteq> []) ts"
  shows "reparse_items d (map (\<lambda>t. fst (convert d t)) ts) = Inr (map Some ts)"
  using known
proof (induction ts)
  case Nil
  then show ?case by simp
next
  case (Cons t ts)
  then obtain v where v: "map_of d (py_str_int t) = Some v" "v \<noteq> []" by auto
  then have "reverser d v = Inr (py_str_int t)"
    using ok by (simp add: reverser_roundtrip map_of_SomeD)
  with Cons v show ?case by (simp add: convert_found py_int_py_str_int)
qed


text \<open>C3: Decoding a whole encoded window: \<open>reparse\<close> (before the tokenizer) maps the vectors of a list of in-vocabulary ids back to exactly those ids, in order.\<close>

theorem reparse_roundtrip:
  assumes "vocab_ok d"
    and "list_all (\<lambda>t. \<exists>v. map_of d (py_str_int t) = Some v \<and> v \<noteq> []) ts"
  shows "reparse_ids d (map (\<lambda>t. fst (convert d t)) ts) = Inr ts"
  using reparse_items_convert [OF assms] by (simp add: reparse_ids_def)

theorem reparse_roundtrip_witness:
  "vocab_ok [(''11'', [1, 2]), (''12'', [3, 4])]
   \<and> list_all (\<lambda>t. \<exists>v. map_of [(''11'', [1, 2]), (''12'', [3, 4::real])] (py_str_int t) = Some v \<and> v \<noteq> []) [12, 11, 12]
   \<and> reparse_ids [(''11'', [1, 2]), (''12'', [3, 4])]
       (map (\<lambda>t. fst (convert [(''11'', [1, 2]), (''12'', [3, 4])] t)) [12, 11, 12]) = Inr [12, 11, 12]"
proof -
  have ok: "vocab_ok [(''11'', [1, 2]), (''12'', [3, 4::real])]"
    by (simp add: vocab_ok_def stored_vectors_def)
  have k: "py_str_int 11 = ''11''" "py_str_int 12 = ''12''" by code_simp+
  have kn: "list_all (\<lambda>t. \<exists>v. map_of [(''11'', [1, 2]), (''12'', [3, 4::real])] (py_str_int t) = Some v \<and> v \<noteq> []) [12, 11, 12]"
    by (simp add: k)
  from reparse_roundtrip [OF ok kn] ok kn show ?thesis by blast
qed

text \<open>C4: Loading the vocabulary file behaves as a Python dict: when every data line parses, the loaded table has unique keys and maps each key to the vector of its last line.\<close>

theorem load_vocab_last_wins:
  assumes "parse_all pf ls = Inr es"
  shows "\<exists>d. load_vocab pf (h # ls) = Inr d \<and> distinct (map fst d) \<and> map_of d = map_of (rev es)"
proof -
  let ?d = "fold (\<lambda>(k, v). AList.update k v) es []"
  have "load_vocab pf (h # ls) = Inr ?d"
    using assms by (simp add: load_vocab_def load_lines_parse_all)
  moreover have "distinct (map fst ?d)" by (rule distinct_fold_update) simp
  moreover have "map_of ?d = map_of (rev es)" by (simp add: map_of_fold_update)
  ultimately show ?thesis by blast
qed

theorem load_vocab_last_wins_witness:
  "parse_all py_float [''11 1 2'', ''12 3 4'', ''11 5 6''] = Inr [(''11'', [1, 2]), (''12'', [3, 4]), (''11'', [5, 6])]
   \<and> (\<exists>d. load_vocab py_float [''w2v'', ''11 1 2'', ''12 3 4'', ''11 5 6''] = Inr d \<and> distinct (map fst d)
        \<and> map_of d = map_of (rev [(''11'', [1, 2]), (''12'', [3, 4]), (''11'', [5, 6])]))"
proof -
  have p: "parse_all py_float [''11 1 2'', ''12 3 4'', ''11 5 6''] = Inr [(''11'', [1, 2]), (''12'', [3, 4]), (''11'', [5, 6])]"
    by code_simp
  from load_vocab_last_wins [OF p, of "''w2v''"] p show ?thesis by simp
qed

lemma parse_line_Inl:
  "parse_line pf l = Inl e \<longleftrightarrow>
     (py_split l = [] \<and> e = IndexError)
     \<or> (py_split l \<noteq> [] \<and> e = ValueError \<and> (\<exists>t\<in>set (tl (py_split l)). t \<noteq> [] \<and> pf t = None))"
proof (cases "py_split l")
  case Nil
  then show ?thesis by (auto simp: parse_line_def)
next
  case (Cons key toks)
  have "those (map pf (filter (\<lambda>t. t \<noteq> []) toks)) = None \<longleftrightarrow> (\<exists>t\<in>set toks. t \<noteq> [] \<and> pf t = None)"
    by (auto simp: those_None_iff image_iff)
  then show ?thesis
    using Cons by (auto simp: parse_line_def split: option.splits)
qed

text \<open>C5: Loader errors: the load fails exactly when the file is empty (\<open>IndexError\<close> at \<open>v.pop(0)\<close>) or some data line fails to parse, and then with the error of the first such line; a line fails with \<open>IndexError\<close> at \<open>tokens.pop(0)\<close> when it is blank and with \<open>ValueError\<close> when one of its fields is not a float.\<close>

theorem load_vocab_errors:
  "(load_vocab pf v = Inl e \<longleftrightarrow>
      (v = [] \<and> e = IndexError)
      \<or> (\<exists>h pre l post. v = h # pre @ l # post \<and> (\<forall>l'\<in>set pre. \<not> isl (parse_line pf l'))
           \<and> parse_line pf l = Inl e))
   \<and> (parse_line pf l = Inl e \<longleftrightarrow>
      (py_split l = [] \<and> e = IndexError)
      \<or> (py_split l \<noteq> [] \<and> e = ValueError \<and> (\<exists>t\<in>set (tl (py_split l)). t \<noteq> [] \<and> pf t = None)))"
proof -
  have "load_vocab pf v = Inl e \<longleftrightarrow>
      (v = [] \<and> e = IndexError)
      \<or> (\<exists>h pre l post. v = h # pre @ l # post \<and> (\<forall>l'\<in>set pre. \<not> isl (parse_line pf l'))
           \<and> parse_line pf l = Inl e)"
    by (cases v) (auto simp: load_vocab_def load_lines_parse_all rbind_eq_Inl parse_all_Inl)
  then show ?thesis
    using parse_line_Inl [of pf l e] by blast
qed

theorem load_vocab_errors_witness:
  "load_vocab py_float [''w2v'', ''11 1'', ''  ''] = Inl IndexError
   \<and> parse_line py_float ''11 1x'' = Inl ValueError"
proof -
  have p1: "parse_line py_float ''11 1'' = Inr (''11'', [1])" and p2: "py_split ''  '' = []"
    and p3: "py_split ''11 1x'' = [''11'', ''1x'']" and p4: "py_float ''1x'' = None"
    by code_simp+
  have "parse_line py_float ''  '' = Inl IndexError"
    using load_vocab_errors [of py_float _ IndexError "''  ''"] p2 by simp
  then have "\<exists>h pre l post. [''w2v'', ''11 1'', ''  ''] = h # pre @ l # post
      \<and> (\<forall>l'\<in>set pre. \<not> isl (parse_line py_float l')) \<and> parse_line py_float l = Inl IndexError"
    using p1 by (intro exI [of _ "''w2v''"] exI [of _ "[''11 1'']"] exI [of _ "''  ''"] exI [of _ "[]"]) simp
  then have a: "load_vocab py_float [''w2v'', ''11 1'', ''  ''] = Inl IndexError"
    using load_vocab_errors [of py_float "[''w2v'', ''11 1'', ''  '']" IndexError "''  ''"] by blast
  have "parse_line py_float ''11 1x'' = Inl ValueError"
    using load_vocab_errors [of py_float _ ValueError "''11 1x''"] p3 p4 by simp
  with a show ?thesis by blast
qed


end
