(* ===== verification/Batching.thy ===== *)
theory Batching
  imports VectorDict
begin

text \<open>
  The batch generator of \<open>src/train.py\<close> (\<open>generator\<close>, lines 344--392, nested in
  \<open>run\<close>) with the configuration \<open>cfg\<close> (lines 43--49) it reads.  For each book it takes
  the token list (the tokenized cache or \<open>tokenizer.encode\<close>, both outside the model:
  the parameter \<open>tok\<close>), and for \<open>len(book) // batchSize\<close> groups \<open>n\<close> it appends the
  windows \<open>k = 0 .. batchSize - 1\<close> starting at offset \<open>n + k\<close> to the global
  \<open>setx\<close>, then yields \<open>setx\<close> as one batch, stores it in the global \<open>last_batch\<close> and
  clears it.  The lazy generator is modelled twice: as the list of everything it yields
  (\<open>generator\<close>) and as a pull-based iterator whose \<open>next\<close> resumes after the last
  \<open>yield\<close> (\<open>gen_next\<close>); the two agree.
\<close>

record cfg =
  sequenceSize :: nat
  dimension :: nat
  arrayDimension :: nat
  predictSteps :: nat
  batchSize :: nat

definition default_cfg :: cfg where
  "default_cfg = \<lparr>sequenceSize = 512, dimension = 512, arrayDimension = 8, predictSteps = 8,
                   batchSize = 2048\<rparr>"

text \<open>A window is \<open>[xs_converted, ys_converted]\<close>; a yielded batch is \<open>(tx1, ty1)\<close>.\<close>

type_synonym window = "vec list \<times> vec list"
type_synonym batch = "vec list list \<times> vec list list"

text \<open>The module-level mutable state the generator writes (\<open>global setx, last_batch\<close>).\<close>

record gen_state =
  setx :: "window list"
  last_batch :: "window list"

section \<open>One window, one group, one book\<close>

text \<open>Lines 366--376 for one \<open>k\<close>.\<close>

definition make_window :: "cfg \<Rightarrow> w2v \<Rightarrow> int list \<Rightarrow> nat \<Rightarrow> nat \<Rightarrow> window" where
  "make_window c d book n k =
     (let pool_slice = py_slice book (n + k) (k + n + sequenceSize c + predictSteps c);
          xs = take (sequenceSize c) pool_slice;
          ys = py_tail_slice (sequenceSize c) pool_slice
      in (map (\<lambda>t. fst (convert d t)) xs, map (\<lambda>t. fst (convert d t)) ys))"

text \<open>The inner loop \<open>for k in range(batchSize)\<close> (lines 365--378).\<close>

definition group_windows :: "cfg \<Rightarrow> w2v \<Rightarrow> int list \<Rightarrow> nat \<Rightarrow> window list" where
  "group_windows c d book n = map (make_window c d book n) [0..<batchSize c]"

text \<open>\<open>tx1 = np.array([item[0] for item in setx])\<close>, \<open>ty1\<close> likewise.\<close>

definition emit :: "window list \<Rightarrow> batch" where
  "emit sx = (map fst sx, map snd sx)"

text \<open>
  The outer loop \<open>for _ in range(len(book) // batchSize)\<close> (lines 364--392), with \<open>n\<close>
  the group counter and the number of iterations left as the recursion argument.
\<close>

fun book_loop :: "cfg \<Rightarrow> w2v \<Rightarrow> int list \<Rightarrow> nat \<Rightarrow> nat \<Rightarrow> gen_state \<Rightarrow> batch list \<times> gen_state" where
  "book_loop c d book n 0 st = ([], st)"
| "book_loop c d book n (Suc g) st =
     (let sx = setx st @ group_windows c d book n in
      if length sx = batchSize c
      then (let (bs, st') = book_loop c d book (Suc n) g (st\<lparr>setx := [], last_batch := sx\<rparr>)
            in (emit sx # bs, st'))
      else book_loop c d book (Suc n) g (st\<lparr>setx := sx\<rparr>))"

text \<open>
  The bound of the outer loop, \<open>range(len(book) // cfg['batchSize'])\<close> (line 364): the
  floor division raises \<open>ZeroDivisionError\<close> for \<open>batchSize = 0\<close>.
\<close>

definition book_groups :: "cfg \<Rightarrow> int list \<Rightarrow> nat result" where
  "book_groups c book =
     (if batchSize c = 0 then Inl ZeroDivisionError else Inr (length book div batchSize c))"

text \<open>The loop over the books (line 349): \<open>setx = []\<close> and \<open>n = 0\<close> per book.\<close>

fun generator :: "cfg \<Rightarrow> w2v \<Rightarrow> (string \<Rightarrow> int list) \<Rightarrow> string list \<Rightarrow> gen_state
                   \<Rightarrow> (batch list \<times> gen_state) result" where
  "generator c d tok [] st = Inr ([], st)"
| "generator c d tok (p # ps) st =
     (let book = tok p in
      rbind (book_groups c book) (\<lambda>G.
        let (bs, st') = book_loop c d book 0 G (st\<lparr>setx := []\<rparr>)
        in rbind (generator c d tok ps st') (\<lambda>(bs', st''). Inr (bs @ bs', st''))))"

section \<open>Specification and iterator\<close>

text \<open>
  The batches of one book in closed form: group \<open>n\<close> of \<open>len(book) // batchSize\<close> is
  the windows \<open>n + 0, ..., n + batchSize - 1\<close>.
\<close>

definition book_batches :: "cfg \<Rightarrow> w2v \<Rightarrow> int list \<Rightarrow> batch list" where
  "book_batches c d book =
     map (\<lambda>n. emit (group_windows c d book n)) [0..<length book div batchSize c]"

abbreviation all_batches :: "cfg \<Rightarrow> w2v \<Rightarrow> (string \<Rightarrow> int list) \<Rightarrow> string list \<Rightarrow> batch list" where
  "all_batches c d tok ps \<equiv> concat (map (\<lambda>p. book_batches c d (tok p)) ps)"

text \<open>
  \<open>next()\<close> on the generator object: the suspension point is the list of books not yet
  started and, inside a book, the book, the group counter \<open>n\<close> and the iterations of
  \<open>range(len(book) // batchSize)\<close> left; the globals travel along.  A call runs the
  code up to the next \<open>yield\<close> (\<open>Some\<close> batch) or to the end (\<open>None\<close>:
  \<open>StopIteration\<close>).
\<close>

fun gen_next :: "cfg \<Rightarrow> w2v \<Rightarrow> (string \<Rightarrow> int list) \<Rightarrow> string list \<Rightarrow> (int list \<times> nat \<times> nat) option
                 \<Rightarrow> gen_state \<Rightarrow> (batch option \<times> string list \<times> (int list \<times> nat \<times> nat) option \<times> gen_state) result"
  where
  "gen_next c d tok [] None st = Inr (None, [], None, st)"
| "gen_next c d tok (p # ps) None st =
     (let book = tok p in
      rbind (book_groups c book) (\<lambda>G. gen_next c d tok ps (Some (book, 0, G)) (st\<lparr>setx := []\<rparr>)))"
| "gen_next c d tok ps (Some (book, n, 0)) st = gen_next c d tok ps None st"
| "gen_next c d tok ps (Some (book, n, Suc g)) st =
     (let sx = setx st @ group_windows c d book n in
      if length sx = batchSize c
      then Inr (Some (emit sx), ps, Some (book, Suc n, g), st\<lparr>setx := [], last_batch := sx\<rparr>)
      else gen_next c d tok ps (Some (book, Suc n, g)) (st\<lparr>setx := sx\<rparr>))"

text \<open>What the list model still has to yield from a suspension point.\<close>

definition gen_rest :: "cfg \<Rightarrow> w2v \<Rightarrow> (string \<Rightarrow> int list) \<Rightarrow> string list \<Rightarrow> (int list \<times> nat \<times> nat) option
                        \<Rightarrow> gen_state \<Rightarrow> (batch list \<times> gen_state) result" where
  "gen_rest c d tok ps cur st =
     (case cur of
        None \<Rightarrow> generator c d tok ps st
      | Some (book, n, g) \<Rightarrow>
          (let (bs, st') = book_loop c d book n g st
           in rbind (generator c d tok ps st') (\<lambda>(bs', st''). Inr (bs @ bs', st''))))"

text \<open>A small configuration and vocabulary for the witnesses.\<close>

abbreviation ex_cfg :: cfg where
  "ex_cfg \<equiv> \<lparr>sequenceSize = 2, dimension = 4, arrayDimension = 2, predictSteps = 1, batchSize = 2\<rparr>"

abbreviation ex_vocab :: w2v where
  "ex_vocab \<equiv> [(''1'', [1, 0, 0, 0, 0, 0, 0, 0]), (''2'', [0, 1, 0, 0, 0, 0, 0, 0])]"

abbreviation ex_state :: gen_state where
  "ex_state \<equiv> \<lparr>setx = [], last_batch = []\<rparr>"

section \<open>Properties\<close>

lemma length_group_windows [simp]: "length (group_windows c d book n) = batchSize c"
  by (simp add: group_windows_def)

lemma book_groups_pos [simp]: "0 < batchSize c \<Longrightarrow> book_groups c book = Inr (length book div batchSize c)"
  by (simp add: book_groups_def)

lemma book_groups_zero [simp]: "batchSize c = 0 \<Longrightarrow> book_groups c book = Inl ZeroDivisionError"
  by (simp add: book_groups_def)

lemma book_loop_full:
  assumes "0 < batchSize c" "setx st = []"
  shows "book_loop c d book n g st =
    (map (\<lambda>i. emit (group_windows c d book (n + i))) [0..<g],
     if g = 0 then st else st\<lparr>setx := [], last_batch := group_windows c d book (n + g - 1)\<rparr>)"
  using assms(2)
proof (induction g arbitrary: n st)
  case 0
  then show ?case by simp
next
  case (Suc g)
  let ?st1 = "st\<lparr>setx := [], last_batch := group_windows c d book n\<rparr>"
  have IH: "book_loop c d book (Suc n) g ?st1 =
    (map (\<lambda>i. emit (group_windows c d book (Suc n + i))) [0..<g],
     if g = 0 then ?st1 else ?st1\<lparr>setx := [], last_batch := group_windows c d book (Suc n + g - 1)\<rparr>)"
    by (rule Suc.IH) simp
  have m: "emit (group_windows c d book n) # map (\<lambda>i. emit (group_windows c d book (Suc n + i))) [0..<g]
         = map (\<lambda>i. emit (group_windows c d book (n + i))) [0..<Suc g]"
    by (simp add: upt_conv_Cons map_Suc_upt[symmetric] del: upt_Suc)
  show ?case
    using Suc.prems IH m by (simp add: Let_def)
qed

lemma book_loop_book_batches:
  assumes "0 < batchSize c"
  shows "book_loop c d book 0 (length book div batchSize c) (st\<lparr>setx := []\<rparr>) =
    (book_batches c d book,
     if length book div batchSize c = 0 then st\<lparr>setx := []\<rparr>
     else st\<lparr>setx := [], last_batch := group_windows c d book (length book div batchSize c - 1)\<rparr>)"
  using book_loop_full [OF assms, of "st\<lparr>setx := []\<rparr>" d book 0 "length book div batchSize c"]
  by (simp add: book_batches_def)

lemma last_book_batches:
  "book_batches c d book \<noteq> [] \<Longrightarrow>
   last (book_batches c d book) = emit (group_windows c d book (length book div batchSize c - 1))"
  by (simp add: book_batches_def last_map)

lemma generator_closed:
  assumes B: "0 < batchSize c"
  shows "\<exists>st'. generator c d tok ps st = Inr (all_batches c d tok ps, st')
     \<and> (ps \<noteq> [] \<longrightarrow> setx st' = [])
     \<and> (all_batches c d tok ps = [] \<longrightarrow> last_batch st' = last_batch st)
     \<and> (all_batches c d tok ps \<noteq> [] \<longrightarrow> emit (last_batch st') = last (all_batches c d tok ps))"
proof (induction ps arbitrary: st)
  case Nil
  then show ?case by simp
next
  case (Cons p ps)
  let ?book = "tok p"
  let ?G = "length ?book div batchSize c"
  define st1 where "st1 = (if ?G = 0 then st\<lparr>setx := []\<rparr>
     else st\<lparr>setx := [], last_batch := group_windows c d ?book (?G - 1)\<rparr>)"
  have bl: "book_loop c d ?book 0 ?G (st\<lparr>setx := []\<rparr>) = (book_batches c d ?book, st1)"
    using book_loop_book_batches [OF B] by (simp add: st1_def)
  obtain st' where st': "generator c d tok ps st1 = Inr (all_batches c d tok ps, st')"
    and sx: "ps \<noteq> [] \<longrightarrow> setx st' = []"
    and lb0: "all_batches c d tok ps = [] \<longrightarrow> last_batch st' = last_batch st1"
    and lb1: "all_batches c d tok ps \<noteq> [] \<longrightarrow> emit (last_batch st') = last (all_batches c d tok ps)"
    using Cons.IH [of st1] by blast
  have gen: "generator c d tok (p # ps) st = Inr (all_batches c d tok (p # ps), st')"
    using B bl st' by simp
  have bb0: "book_batches c d ?book = [] \<longleftrightarrow> ?G = 0"
    by (simp add: book_batches_def)
  have setx1: "setx st1 = []" by (simp add: st1_def)
  have "setx st' = []"
    using sx st' setx1 by (cases ps) auto
  moreover have "all_batches c d tok (p # ps) = [] \<longrightarrow> last_batch st' = last_batch st"
    using lb0 bb0 by (simp add: st1_def)
  moreover have "all_batches c d tok (p # ps) \<noteq> [] \<longrightarrow>
      emit (last_batch st') = last (all_batches c d tok (p # ps))"
  proof
    assume ne: "all_batches c d tok (p # ps) \<noteq> []"
    show "emit (last_batch st') = last (all_batches c d tok (p # ps))"
    proof (cases "all_batches c d tok ps = []")
      case True
      with ne have "book_batches c d ?book \<noteq> []" by simp
      with True lb0 bb0 show ?thesis by (simp add: st1_def last_book_batches)
    next
      case False
      with lb1 show ?thesis by simp
    qed
  qed
  ultimately show ?case using gen by blast
qed

lemma length_make_window_fst:
  "length (fst (make_window c d book n k)) = min (sequenceSize c) (length book - (n + k))"
  by (simp add: make_window_def Let_def py_slice_def min_def)

text \<open>C9: A window whose slice lies inside the book is the pair (\<open>book[s : s + sequenceSize]\<close>, \<open>book[s + predictSteps : s + predictSteps + sequenceSize]\<close>) of converted tokens, \<open>s = n + k\<close>: the target is the input shifted by \<open>predictSteps\<close>.\<close>

lemma make_window_proper:
  assumes "n + k + sequenceSize c + predictSteps c \<le> length book" "0 < sequenceSize c"
  shows "make_window c d book n k =
    (map (\<lambda>t. fst (convert d t)) (take (sequenceSize c) (drop (n + k) book)),
     map (\<lambda>t. fst (convert d t)) (take (sequenceSize c) (drop (n + k + predictSteps c) book)))"
proof -
  let ?S = "sequenceSize c" and ?P = "predictSteps c"
  have pool: "py_slice book (n + k) (k + n + ?S + ?P) = take (?S + ?P) (drop (n + k) book)"
    by (simp add: py_slice_def add.commute add.left_commute)
  have len: "length (take (?S + ?P) (drop (n + k) book)) = ?S + ?P"
    using assms(1) by simp
  have "py_tail_slice ?S (take (?S + ?P) (drop (n + k) book)) = drop ?P (take (?S + ?P) (drop (n + k) book))"
    using assms(2) len by (intro py_tail_slice_take_drop) simp_all
  also have "\<dots> = take ?S (drop (n + k + ?P) book)"
    by (simp add: drop_take add.commute)
  finally show ?thesis
    using pool by (simp add: make_window_def Let_def take_take)
qed

text \<open>
  One \<open>next()\<close> against the list model: what remains to be yielded from a suspension point
  is the batch the next \<open>next()\<close> returns followed by what remains after it, with errors
  and exhaustion passed on.
\<close>

lemma gen_next_refines:
  "gen_rest c d tok ps cur st =
     (case gen_next c d tok ps cur st of
        Inl e \<Rightarrow> Inl e
      | Inr (None, ps', cur', st') \<Rightarrow> Inr ([], st')
      | Inr (Some b, ps', cur', st') \<Rightarrow>
          rbind (gen_rest c d tok ps' cur' st') (\<lambda>(bs, st''). Inr (b # bs, st'')))"
proof (induction c d tok ps cur st rule: gen_next.induct)
  case (1 c d tok st)
  then show ?case by (simp add: gen_rest_def)
next
  case (2 c d tok p ps st)
  then show ?case by (cases "book_groups c (tok p)") (simp_all add: gen_rest_def Let_def)
next
  case (3 c d tok ps book n st)
  then show ?case by (simp add: gen_rest_def)
next
  case (4 c d tok ps book n g st)
  show ?case
  proof (cases "length (setx st @ group_windows c d book n) = batchSize c")
    case True
    then show ?thesis
      by (simp add: gen_rest_def Let_def rbind_assoc split: prod.splits)
         (auto simp: rbind_def split: sum.splits)
  next
    case False
    with "4" show ?thesis by (simp add: gen_rest_def Let_def)
  qed
qed

text \<open>
  When \<open>next()\<close> yields a batch, nothing is accumulated ahead (\<open>setx = []\<close>) and the
  shared \<open>last_batch\<close> slot holds exactly the windows of the batch just yielded; when it
  reports exhaustion, no book and no suspended book is left.
\<close>

lemma gen_next_lockstep:
  "gen_next c d tok ps cur st = Inr (Some b, ps', cur', st') \<Longrightarrow>
   setx st' = [] \<and> emit (last_batch st') = b"
  by (induction c d tok ps cur st rule: gen_next.induct) (auto simp: Let_def rbind_eq_Inr split: if_splits)

lemma gen_next_None:
  "gen_next c d tok ps cur st = Inr (None, ps', cur', st') \<Longrightarrow>
   ps' = [] \<and> cur' = None \<and> last_batch st' = last_batch st"
  by (induction c d tok ps cur st rule: gen_next.induct) (auto simp: Let_def rbind_eq_Inr split: if_splits)

text \<open>C6: Batch-count law as the code has it: with \<open>batchSize > 0\<close> the generator yields exactly \<open>len(book) // batchSize\<close> batches per book, every one of exactly \<open>batchSize\<close> input and target windows (never a partial batch).\<close>

theorem generator_batch_count:
  assumes "0 < batchSize c" and "generator c d tok ps st = Inr (bs, st')"
  shows "length bs = sum_list (map (\<lambda>p. length (tok p) div batchSize c) ps)
    \<and> list_all (\<lambda>(tx, ty). length tx = batchSize c \<and> length ty = batchSize c) bs"
proof -
  obtain st'' where "generator c d tok ps st = Inr (all_batches c d tok ps, st'')"
    using generator_closed [OF assms(1)] by blast
  with assms(2) have bs: "bs = all_batches c d tok ps" by simp
  have "length (book_batches c d book) = length book div batchSize c" for book
    by (simp add: book_batches_def)
  moreover have "list_all (\<lambda>(tx, ty). length tx = batchSize c \<and> length ty = batchSize c)
      (book_batches c d book)" for book
    by (simp add: book_batches_def list_all_iff emit_def)
  ultimately show ?thesis
    by (simp add: bs length_concat comp_def list_all_iff)
qed

theorem generator_batch_count_witness:
  "\<exists>bs st'. 0 < batchSize ex_cfg \<and> generator ex_cfg ex_vocab (\<lambda>_. [1, 2, 1, 2, 1]) [''a'', ''b''] ex_state = Inr (bs, st')
     \<and> length bs = 4
     \<and> list_all (\<lambda>(tx, ty). length tx = 2 \<and> length ty = 2) bs"
proof -
  obtain bs st' where g: "generator ex_cfg ex_vocab (\<lambda>_. [1, 2, 1, 2, 1]) [''a'', ''b''] ex_state = Inr (bs, st')"
    using generator_closed [of ex_cfg ex_vocab "\<lambda>_. [1, 2, 1, 2, 1]" "[''a'', ''b'']" ex_state] by auto
  have B: "0 < batchSize ex_cfg" by simp
  from generator_batch_count [OF B g] g show ?thesis by auto
qed

lemma book_batches_nth:
  "g < length book div batchSize c \<Longrightarrow> book_batches c d book ! g = emit (group_windows c d book g)"
  by (simp add: book_batches_def)

lemma book_batches_windows:
  "list_all P (book_batches c d book) \<longleftrightarrow>
   (\<forall>g<length book div batchSize c. P (emit (group_windows c d book g)))"
  by (auto simp: book_batches_def list_all_iff)

lemma make_window_fst_length_iff:
  "0 < sequenceSize c \<Longrightarrow>
   length (fst (make_window c d book n k)) = sequenceSize c \<longleftrightarrow> n + k + sequenceSize c \<le> length book"
  by (auto simp: length_make_window_fst min_def)

text \<open>C8: Every input window of a book's batches has \<open>sequenceSize\<close> tokens exactly when the book yields no batch or \<open>G + batchSize + sequenceSize \<le> len(book) + 2\<close> for \<open>G = len(book) // batchSize\<close>; shorter books yield ragged windows (for the default configuration, every book of 2048 tokens).\<close>

theorem book_batches_full_windows_iff:
  assumes B: "0 < batchSize c" and S: "0 < sequenceSize c"
  shows "list_all (\<lambda>(tx, ty). list_all (\<lambda>x. length x = sequenceSize c) tx) (book_batches c d book)
     \<longleftrightarrow> length book div batchSize c = 0
         \<or> length book div batchSize c + batchSize c + sequenceSize c \<le> length book + 2"
  (is "?lhs \<longleftrightarrow> ?G = 0 \<or> _")
proof -
  have "?lhs \<longleftrightarrow> (\<forall>g<?G. \<forall>k<batchSize c. length (fst (make_window c d book g k)) = sequenceSize c)"
    unfolding book_batches_windows by (auto simp: emit_def group_windows_def list_all_iff)
  also have "\<dots> \<longleftrightarrow> (\<forall>g<?G. \<forall>k<batchSize c. g + k + sequenceSize c \<le> length book)"
    using S by (simp add: make_window_fst_length_iff)
  also have "\<dots> \<longleftrightarrow> ?G = 0 \<or> ?G + batchSize c + sequenceSize c \<le> length book + 2"
  proof
    assume all: "\<forall>g<?G. \<forall>k<batchSize c. g + k + sequenceSize c \<le> length book"
    show "?G = 0 \<or> ?G + batchSize c + sequenceSize c \<le> length book + 2"
    proof (cases "?G = 0")
      case False
      have "?G - 1 + (batchSize c - 1) + sequenceSize c \<le> length book"
        using all [rule_format, of "?G - 1" "batchSize c - 1"] False B by simp
      with False B show ?thesis by linarith
    qed simp
  next
    assume "?G = 0 \<or> ?G + batchSize c + sequenceSize c \<le> length book + 2"
    then show "\<forall>g<?G. \<forall>k<batchSize c. g + k + sequenceSize c \<le> length book" by auto
  qed
  finally show ?thesis .
qed

theorem book_batches_full_windows_iff_witness:
  "0 < batchSize default_cfg \<and> 0 < sequenceSize default_cfg
   \<and> \<not> list_all (\<lambda>(tx, ty). list_all (\<lambda>x. length x = sequenceSize default_cfg) tx)
         (book_batches default_cfg [] (replicate 2048 0))"
proof -
  have B: "0 < batchSize default_cfg" and S: "0 < sequenceSize default_cfg"
    by (simp_all add: default_cfg_def)
  from book_batches_full_windows_iff [OF B S, of "[]" "replicate 2048 0"] B S show ?thesis
    by (simp add: default_cfg_def)
qed

text \<open>C7: Window offsets: the window \<open>k\<close> of group \<open>n\<close> starts at \<open>n + k\<close> (not \<open>n * batchSize + k\<close>), so batch \<open>n + 1\<close> repeats the windows \<open>1 .. batchSize - 1\<close> of batch \<open>n\<close> shifted by one.\<close>

theorem consecutive_batches_overlap:
  assumes "Suc g < length book div batchSize c" "Suc k < batchSize c"
  shows "fst (book_batches c d book ! Suc g) ! k = fst (book_batches c d book ! g) ! Suc k
       \<and> snd (book_batches c d book ! Suc g) ! k = snd (book_batches c d book ! g) ! Suc k"
proof -
  have "make_window c d book (Suc g) k = make_window c d book g (Suc k)"
    by (simp add: make_window_def)
  with assms show ?thesis
    by (simp add: book_batches_nth emit_def group_windows_def)
qed

text \<open>C10: With \<open>batchSize = 0\<close> the generator raises \<open>ZeroDivisionError\<close> exactly when it has a book to read, in the list model and at the first \<open>next()\<close> of the suspended generator alike: no batch is ever yielded.\<close>

theorem generator_zero_batch_size:
  assumes "batchSize c = 0"
  shows "(generator c d tok ps st = Inl ZeroDivisionError \<longleftrightarrow> ps \<noteq> [])
       \<and> (gen_next c d tok ps None st = Inl ZeroDivisionError \<longleftrightarrow> ps \<noteq> [])"
  using assms by (cases ps) simp_all

text \<open>C14: When every vocabulary vector has 8 components, every token vector in every yielded batch has 8 components (the width of \<open>empty_vec\<close> for unknown tokens as well).\<close>

theorem batch_vector_width:
  assumes B: "0 < batchSize c" and w: "list_all (\<lambda>(k, v). length v = 8) d"
    and g: "generator c d tok ps st = Inr (bs, st')"
  shows "list_all (\<lambda>(tx, ty). list_all (list_all (\<lambda>v. length v = 8)) tx
                            \<and> list_all (list_all (\<lambda>v. length v = 8)) ty) bs"
proof -
  obtain st'' where "generator c d tok ps st = Inr (all_batches c d tok ps, st'')"
    using generator_closed [OF B] by blast
  with g have bs: "bs = all_batches c d tok ps" by simp
  have cv: "length (fst (convert d t)) = 8" for t
    using w by (rule convert_length)
  show ?thesis
    by (auto simp: bs list_all_iff book_batches_def emit_def group_windows_def make_window_def
        Let_def cv dest!: in_set_takeD in_set_dropD)
qed

text \<open>C13: After the generator has run, \<open>last_batch\<close> holds the windows of the last batch it yielded, and is left unchanged when it yielded none.\<close>

theorem generator_last_batch:
  assumes "0 < batchSize c" "generator c d tok ps st = Inr (bs, st')"
  shows "(bs = [] \<longrightarrow> last_batch st' = last_batch st) \<and> (bs \<noteq> [] \<longrightarrow> emit (last_batch st') = last bs)"
  using generator_closed [OF assms(1), of d tok ps st] assms(2) by auto

theorem generator_last_batch_witness:
  "\<exists>bs st'. 0 < batchSize ex_cfg
     \<and> generator ex_cfg ex_vocab (\<lambda>_. [1, 2, 1, 2, 1]) [''a''] ex_state = Inr (bs, st')
     \<and> bs \<noteq> [] \<and> emit (last_batch st') = last bs"
proof -
  have B: "0 < batchSize ex_cfg" by simp
  obtain st' where g: "generator ex_cfg ex_vocab (\<lambda>_. [1, 2, 1, 2, 1]) [''a''] ex_state
      = Inr (all_batches ex_cfg ex_vocab (\<lambda>_. [1, 2, 1, 2, 1]) [''a''], st')"
    using generator_closed [OF B] by blast
  have ne: "all_batches ex_cfg ex_vocab (\<lambda>_. [1, 2, 1, 2, 1]) [''a''] \<noteq> []"
    by (simp add: book_batches_def)
  from generator_last_batch [OF B g] g ne B show ?thesis by blast
qed

theorem make_window_proper_witness:
  "0 + 1 + sequenceSize ex_cfg + predictSteps ex_cfg \<le> length [1, 2, 1, 2, (1::int)] \<and> 0 < sequenceSize ex_cfg
   \<and> make_window ex_cfg ex_vocab [1, 2, 1, 2, 1] 0 1 =
       (map (\<lambda>t. fst (convert ex_vocab t)) [2, 1], map (\<lambda>t. fst (convert ex_vocab t)) [1, 2])"
  using make_window_proper [of 0 1 ex_cfg "[1, 2, 1, 2, 1]" ex_vocab] by simp

theorem consecutive_batches_overlap_witness:
  "Suc 0 < length [1, 2, 1, 2, 1, (2::int)] div batchSize ex_cfg \<and> Suc 0 < batchSize ex_cfg
   \<and> fst (book_batches ex_cfg ex_vocab [1, 2, 1, 2, 1, 2] ! 1) ! 0 = fst (book_batches ex_cfg ex_vocab [1, 2, 1, 2, 1, 2] ! 0) ! 1
   \<and> snd (book_batches ex_cfg ex_vocab [1, 2, 1, 2, 1, 2] ! 1) ! 0 = snd (book_batches ex_cfg ex_vocab [1, 2, 1, 2, 1, 2] ! 0) ! 1"
  using consecutive_batches_overlap [of 0 "[1, 2, 1, 2, 1, 2]" ex_cfg 0 ex_vocab] by simp

theorem generator_zero_batch_size_witness:
  "batchSize (ex_cfg\<lparr>batchSize := 0\<rparr>) = 0
   \<and> generator (ex_cfg\<lparr>batchSize := 0\<rparr>) ex_vocab (\<lambda>_. [1]) [''a''] ex_state = Inl ZeroDivisionError
   \<and> gen_next (ex_cfg\<lparr>batchSize := 0\<rparr>) ex_vocab (\<lambda>_. [1]) [''a''] None ex_state = Inl ZeroDivisionError"
  using generator_zero_batch_size [of "ex_cfg\<lparr>batchSize := 0\<rparr>" ex_vocab "\<lambda>_. [1]" "[''a'']" ex_state]
  by simp

theorem batch_vector_width_witness:
  "\<exists>bs st'. 0 < batchSize ex_cfg \<and> list_all (\<lambda>(k, v). length v = 8) ex_vocab
     \<and> generator ex_cfg ex_vocab (\<lambda>_. [1, 2, 7, 2, 1]) [''a''] ex_state = Inr (bs, st')
     \<and> list_all (\<lambda>(tx, ty). list_all (list_all (\<lambda>v. length v = 8)) tx
                            \<and> list_all (list_all (\<lambda>v. length v = 8)) ty) bs"
proof -
  have B: "0 < batchSize ex_cfg" by simp
  have w: "list_all (\<lambda>(k, v). length v = (8::nat)) ex_vocab" by simp
  obtain bs st' where g: "generator ex_cfg ex_vocab (\<lambda>_. [1, 2, 7, 2, 1]) [''a''] ex_state = Inr (bs, st')"
    using generator_closed [OF B] by blast
  from batch_vector_width [OF B w g] B w g show ?thesis by blast
qed

end
