(* ===== verification/ModelGraph.thy ===== *)
theory ModelGraph
  imports Attention Batching
begin

text \<open>
  The Keras graph that \<open>run()\<close> builds (lines 316--341): the input \<open>(sequenceSize,
  predictSteps)\<close>, \<open>Permute((2, 1))\<close>, a \<open>Conv1D\<close> with \<open>dimension\<close> filters, kernel
  size 1 and the \<open>mish\<close> activation, two \<open>TransformerLayer\<close>s of four heads and
  \<open>pad_size = arrayDimension\<close> (depth \<open>dimension\<close>, then \<open>sequenceSize\<close>; \<open>pool\<close> is
  left \<open>None\<close>, which is false), \<open>Permute((2, 1))\<close> again and a linear \<open>Dense\<close> with
  \<open>arrayDimension\<close> units.  Construction (the layers' \<open>__init__\<close> and \<open>build\<close>) and the
  forward pass are separate, as in Keras; the random initializer and the dropout masks are
  parameters.  Loading a saved model and compiling are not modelled.
\<close>

section \<open>Layers of the graph\<close>

text \<open>\<open>tf.keras.layers.Permute((2, 1))\<close>: swap the two non-batch dimensions.\<close>

definition permute21 :: "tensor \<Rightarrow> tensor result" where
  "permute21 t = ttranspose t [0, 2, 1]"

definition mish :: "real \<Rightarrow> real" where
  "mish x = x * tanh (ln (1 + exp x))"

text \<open>
  \<open>Conv1D(filters, kernel_size=1, strides=1, padding="same")\<close> on \<open>[b, len, cin]\<close> with
  the kernel \<open>w\<close> of shape \<open>[1, cin, filters]\<close>: at every position the channels are
  mapped by the kernel, the bias is added and the activation applied.
\<close>

definition conv1d_k1 :: "(real \<Rightarrow> real) \<Rightarrow> tensor \<Rightarrow> tensor \<Rightarrow> tensor \<Rightarrow> tensor result" where
  "conv1d_k1 act w bias x =
     (case shape x of
        [b, len, cin] \<Rightarrow>
          rbind (treshape x [D (b * len), D cin]) (\<lambda>flat.
          rbind (treshape w [D cin, Infer]) (\<lambda>k.
          rbind (tmatmul flat k False) (\<lambda>m.
          rbind (tbin (+) m bias) (\<lambda>z.
          treshape (tmap act z) [D b, D len, Infer]))))
      | _ \<Rightarrow> Inl InvalidArgument)"

text \<open>\<open>Dense(units)\<close> on \<open>[b, len, cin]\<close>: the last axis times the kernel \<open>w\<close> of shape \<open>[cin, units]\<close>, plus the bias.\<close>

definition dense3 :: "tensor \<Rightarrow> tensor \<Rightarrow> tensor \<Rightarrow> tensor result" where
  "dense3 w bias x =
     (case shape x of
        [b, len, cin] \<Rightarrow>
          rbind (treshape x [D (b * len), D cin]) (\<lambda>flat.
          rbind (tmatmul flat w False) (\<lambda>m.
          rbind (tbin (+) m bias) (\<lambda>z.
          treshape z [D b, D len, Infer])))
      | _ \<Rightarrow> Inl InvalidArgument)"

section \<open>Construction\<close>

record graph =
  layer1 :: layer_cfg
  layer2 :: layer_cfg
  conv_kernel :: tensor
  conv_bias :: tensor
  params1 :: layer_params
  params2 :: layer_params
  dense_kernel :: tensor
  dense_bias_out :: tensor

text \<open>
  Lines 318--331: the layers are created in order (a \<open>ValueError\<close> of a layer's
  \<open>__init__\<close> aborts \<open>run\<close>), and each is built for the static shape of its input, without
  the batch dimension: \<open>(predictSteps, sequenceSize)\<close> for the convolution,
  \<open>(predictSteps, dimension)\<close> for the first layer, \<open>(arrayDimension, dimension)\<close> for the
  second, \<open>(sequenceSize, arrayDimension)\<close> for the dense layer.
\<close>

definition graph_build :: "cfg \<Rightarrow> (string \<Rightarrow> nat \<Rightarrow> real) \<Rightarrow> graph result" where
  "graph_build c glorot =
     (let S = sequenceSize c; P = predictSteps c; dim = dimension c; A = arrayDimension c in
      rbind (layer_init 4 A dim False) (\<lambda>L1.
      rbind (layer_init 4 A S False) (\<lambda>L2.
      rbind (layer_build L1 [P, dim] glorot) (\<lambda>p1.
      rbind (layer_build L2 [A, dim] glorot) (\<lambda>p2.
      Inr \<lparr>layer1 = L1, layer2 = L2,
           conv_kernel = init_weight glorot ''conv1d_kernel'' [1, S, dim],
           conv_bias = zeros [dim],
           params1 = p1, params2 = p2,
           dense_kernel = init_weight glorot ''dense_kernel'' [A, A],
           dense_bias_out = zeros [A]\<rparr>)))))"

section \<open>The forward pass\<close>

definition model_forward :: "graph \<Rightarrow> (nat \<Rightarrow> bool) \<Rightarrow> (nat \<Rightarrow> bool) \<Rightarrow> tensor \<Rightarrow> tensor result" where
  "model_forward g keep1 keep2 input =
     rbind (permute21 input) (\<lambda>x.
     rbind (conv1d_k1 mish (conv_kernel g) (conv_bias g) x) (\<lambda>x.
     rbind (layer_call (layer1 g) (params1 g) keep1 x) (\<lambda>x.
     rbind (layer_call (layer2 g) (params2 g) keep2 x) (\<lambda>x.
     rbind (permute21 x) (\<lambda>x3a.
     dense3 (dense_kernel g) (dense_bias_out g) x3a)))))"

section \<open>Properties\<close>

lemma permute21_ok:
  "shape t = [a, b, c] \<Longrightarrow>
   \<exists>y. permute21 t = Inr y \<and> shape y = [a, c, b] \<and> wf_tensor y"
  by (simp add: permute21_def ttranspose_def)

lemma conv1d_k1_ok:
  assumes x: "shape x = [b, len, cin]" and w: "shape w = [1, cin, cout]" and bias: "shape bias = [cout]"
    and pos: "0 < b * len" "0 < cin"
  shows "\<exists>y. conv1d_k1 act w bias x = Inr y \<and> shape y = [b, len, cout] \<and> wf_tensor y"
proof -
  have r1: "treshape x [D (b * len), D cin] = Inr (x\<lparr>shape := [b * len, cin]\<rparr>)"
    using x treshape_exact [of "[b * len, cin]" x] by simp
  have r2: "treshape w [D cin, Infer] = Inr (w\<lparr>shape := [cin, cout]\<rparr>)"
    using w pos by (intro reshape_2) simp_all
  have r3: "\<And>t :: tensor. shape t = [b * len, cout] \<Longrightarrow>
      treshape t [D b, D len, Infer] = Inr (t\<lparr>shape := [b, len, cout]\<rparr>)"
    using pos by (intro reshape_3) simp_all
  show ?thesis
    using x bias by (simp add: conv1d_k1_def r1 r2 r3 tmatmul_2 tbin_ok)
qed

lemma dense3_ok:
  assumes x: "shape x = [b, len, cin]" and w: "shape w = [cin, u]" and bias: "shape bias = [u]"
    and pos: "0 < b * len"
  shows "\<exists>y. dense3 w bias x = Inr y \<and> shape y = [b, len, u] \<and> wf_tensor y"
proof -
  have r1: "treshape x [D (b * len), D cin] = Inr (x\<lparr>shape := [b * len, cin]\<rparr>)"
    using x treshape_exact [of "[b * len, cin]" x] by simp
  have r3: "\<And>t :: tensor. shape t = [b * len, u] \<Longrightarrow>
      treshape t [D b, D len, Infer] = Inr (t\<lparr>shape := [b, len, u]\<rparr>)"
    using pos by (intro reshape_3) simp_all
  show ?thesis
    using x w bias by (simp add: dense3_def r1 r3 tmatmul_2 tbin_ok)
qed

text \<open>A graph that was built has the layer configurations and weight shapes of \<open>run()\<close>;
  in particular both depths are multiples of the four heads.\<close>

lemma graph_build_ok:
  assumes "graph_build c glorot = Inr g"
  shows "layer1 g = \<lparr>num_heads = 4, depth = dimension c, pool = False, pad_size = arrayDimension c\<rparr>
    \<and> layer2 g = \<lparr>num_heads = 4, depth = sequenceSize c, pool = False, pad_size = arrayDimension c\<rparr>
    \<and> 4 dvd dimension c \<and> 4 dvd sequenceSize c
    \<and> params_ok (layer1 g) (dimension c) (params1 g) \<and> params_ok (layer2 g) (dimension c) (params2 g)
    \<and> shape (conv_kernel g) = [1, sequenceSize c, dimension c] \<and> shape (conv_bias g) = [dimension c]
    \<and> shape (dense_kernel g) = [arrayDimension c, arrayDimension c] \<and> shape (dense_bias_out g) = [arrayDimension c]"
proof -
  obtain L1 L2 p1 p2 where i1: "layer_init 4 (arrayDimension c) (dimension c) False = Inr L1"
    and i2: "layer_init 4 (arrayDimension c) (sequenceSize c) False = Inr L2"
    and b1: "layer_build L1 [predictSteps c, dimension c] glorot = Inr p1"
    and b2: "layer_build L2 [arrayDimension c, dimension c] glorot = Inr p2"
    and g: "g = \<lparr>layer1 = L1, layer2 = L2,
           conv_kernel = init_weight glorot ''conv1d_kernel'' [1, sequenceSize c, dimension c],
           conv_bias = zeros [dimension c], params1 = p1, params2 = p2,
           dense_kernel = init_weight glorot ''dense_kernel'' [arrayDimension c, arrayDimension c],
           dense_bias_out = zeros [arrayDimension c]\<rparr>"
    using assms by (auto simp: graph_build_def Let_def rbind_eq_Inr)
  show ?thesis
    using layer_init_ok [OF i1] layer_init_ok [OF i2] layer_build_ok [OF b1] layer_build_ok [OF b2] i1 i2
    by (simp add: g init_weight_def zeros_def layer_init_def split: if_splits)
qed

lemma graph_build_zero_gates:
  "graph_build c glorot = Inr g \<Longrightarrow>
   tdata (random_id_att (params1 g)) = [0] \<and> tdata (random_id_ff (params1 g)) = [0]
   \<and> tdata (random_id_att (params2 g)) = [0] \<and> tdata (random_id_ff (params2 g)) = [0]"
  by (auto simp: graph_build_def Let_def rbind_eq_Inr dest!: layer_build_zero_gates)

text \<open>C30: When predictSteps equals arrayDimension (as in cfg), the built graph maps every input batch of shape [b, sequenceSize, predictSteps] (b > 0, positive sizes) to predictions of shape [b, sequenceSize, arrayDimension], the shape of the targets\<close>

theorem model_forward_shape:
  assumes gb: "graph_build c glorot = Inr g" and x: "shape x = [b, sequenceSize c, predictSteps c]"
    and b: "0 < b" and PA: "predictSteps c = arrayDimension c" and A: "0 < arrayDimension c"
    and S: "0 < sequenceSize c" and dim: "0 < dimension c"
  shows "\<exists>y. model_forward g keep1 keep2 x = Inr y \<and> shape y = [b, sequenceSize c, arrayDimension c]
     \<and> wf_tensor y"
proof -
  let ?S = "sequenceSize c" and ?A = "arrayDimension c" and ?d = "dimension c"
  note G = graph_build_ok [OF gb]
  obtain x0 where x0: "permute21 x = Inr x0" "shape x0 = [b, ?A, ?S]"
    using permute21_ok [OF x] PA by auto
  obtain x1 where x1: "conv1d_k1 mish (conv_kernel g) (conv_bias g) x0 = Inr x1" "shape x1 = [b, ?A, ?d]"
    using conv1d_k1_ok [OF x0(2), of "conv_kernel g" ?d "conv_bias g" mish] G b A S by auto
  obtain x2 where x2: "layer_call (layer1 g) (params1 g) keep1 x1 = Inr x2" "shape x2 = [b, ?A, ?d]"
    using layer_call_ok [of x1 b "layer1 g" ?d "params1 g" keep1] G x1(2) b A dim by auto
  obtain x3 where x3: "layer_call (layer2 g) (params2 g) keep2 x2 = Inr x3" "shape x3 = [b, ?A, ?S]"
    using layer_call_ok [of x2 b "layer2 g" ?d "params2 g" keep2] G x2(2) b A S by auto
  obtain x4 where x4: "permute21 x3 = Inr x4" "shape x4 = [b, ?S, ?A]"
    using permute21_ok [OF x3(2)] by auto
  obtain y where y: "dense3 (dense_kernel g) (dense_bias_out g) x4 = Inr y" "shape y = [b, ?S, ?A]" "wf_tensor y"
    using dense3_ok [OF x4(2), of "dense_kernel g" ?A "dense_bias_out g"] G b S by auto
  show ?thesis
    using x0 x1 x2 x3 x4 y by (simp add: model_forward_def)
qed

theorem model_forward_shape_witness:
  "\<exists>g y. graph_build default_cfg ex_glorot = Inr g
     \<and> model_forward g ex_keep ex_keep \<lparr>shape = [1, 512, 8], tdata = []\<rparr> = Inr y
     \<and> shape y = [1, 512, 8] \<and> wf_tensor y"
proof -
  have "\<exists>g. graph_build default_cfg ex_glorot = Inr g"
    by (simp add: graph_build_def default_cfg_def layer_init_def layer_build_def Let_def)
  then obtain g where gb: "graph_build default_cfg ex_glorot = Inr g" ..
  show ?thesis
    using gb model_forward_shape [OF gb, of "\<lparr>shape = [1, 512, 8], tdata = []\<rparr>" 1 ex_keep ex_keep]
    by (auto simp: default_cfg_def)
qed

text \<open>C31: When predictSteps differs from arrayDimension, the graph still builds but every forward pass fails with InvalidArgument in the first attention layer: the Input and TensorSpec take predictSteps for the vector width, which works only because cfg sets both to 8\<close>

theorem model_forward_wrong_width:
  assumes gb: "graph_build c glorot = Inr g" and x: "shape x = [b, sequenceSize c, predictSteps c]"
    and b: "0 < b" and P: "0 < predictSteps c" and PA: "predictSteps c \<noteq> arrayDimension c"
    and S: "0 < sequenceSize c" and dim: "0 < dimension c"
  shows "model_forward g keep1 keep2 x = Inl InvalidArgument"
proof -
  let ?S = "sequenceSize c" and ?P = "predictSteps c" and ?d = "dimension c"
  note G = graph_build_ok [OF gb]
  obtain x0 where x0: "permute21 x = Inr x0" "shape x0 = [b, ?P, ?S]"
    using permute21_ok [OF x] by auto
  obtain x1 where x1: "conv1d_k1 mish (conv_kernel g) (conv_bias g) x0 = Inr x1" "shape x1 = [b, ?P, ?d]"
    using conv1d_k1_ok [OF x0(2), of "conv_kernel g" ?d "conv_bias g" mish] G b P S by auto
  have "input_projection (layer1 g) (params1 g) x1 = Inl InvalidArgument"
    using input_projection_wrong_positions [OF x1(2), of "layer1 g" "params1 g"] G PA dim b by auto
  then show ?thesis
    using x0 x1 by (simp add: model_forward_def layer_call_def)
qed

theorem model_forward_wrong_width_witness:
  "\<exists>g. graph_build (default_cfg\<lparr>predictSteps := 4\<rparr>) ex_glorot = Inr g
     \<and> model_forward g ex_keep ex_keep \<lparr>shape = [1, 512, 4], tdata = []\<rparr> = Inl InvalidArgument"
proof -
  have "\<exists>g. graph_build (default_cfg\<lparr>predictSteps := 4\<rparr>) ex_glorot = Inr g"
    by (simp add: graph_build_def default_cfg_def layer_init_def layer_build_def Let_def)
  then obtain g where gb: "graph_build (default_cfg\<lparr>predictSteps := 4\<rparr>) ex_glorot = Inr g" ..
  show ?thesis
    using gb model_forward_wrong_width [OF gb, of "\<lparr>shape = [1, 512, 4], tdata = []\<rparr>" 1 ex_keep ex_keep]
    by (auto simp: default_cfg_def)
qed

text \<open>C36: Right after construction both TransformerLayers pass their re-projected input through (their residual gates are zero), so for the inputs of C30 the whole graph computes Permute, Conv1D, the two input projections, Permute and Dense, and its predictions do not depend on the dropout masks\<close>

theorem model_forward_at_init:
  assumes gb: "graph_build c glorot = Inr g" and x: "shape x = [b, sequenceSize c, predictSteps c]"
    and b: "0 < b" and PA: "predictSteps c = arrayDimension c" and A: "0 < arrayDimension c"
    and S: "0 < sequenceSize c" and dim: "0 < dimension c"
  shows "model_forward g keep1 keep2 x =
     rbind (permute21 x) (\<lambda>x0.
     rbind (conv1d_k1 mish (conv_kernel g) (conv_bias g) x0) (\<lambda>x1.
     rbind (input_projection (layer1 g) (params1 g) x1) (\<lambda>(_, _, x2).
     rbind (input_projection (layer2 g) (params2 g) x2) (\<lambda>(_, _, x3).
     rbind (permute21 x3) (\<lambda>x4.
     dense3 (dense_kernel g) (dense_bias_out g) x4)))))"
proof -
  let ?S = "sequenceSize c" and ?A = "arrayDimension c" and ?d = "dimension c"
  note G = graph_build_ok [OF gb] and Z = graph_build_zero_gates [OF gb]
  obtain x0 where x0: "permute21 x = Inr x0" "shape x0 = [b, ?A, ?S]"
    using permute21_ok [OF x] PA by auto
  obtain x1 where x1: "conv1d_k1 mish (conv_kernel g) (conv_bias g) x0 = Inr x1" "shape x1 = [b, ?A, ?d]"
    using conv1d_k1_ok [OF x0(2), of "conv_kernel g" ?d "conv_bias g" mish] G b A S by auto
  obtain y2 where ip1: "input_projection (layer1 g) (params1 g) x1 = Inr (b, y2, y2\<lparr>shape := [b, ?A, ?d]\<rparr>)"
    using input_projection_ok [of x1 b "layer1 g" ?d "params1 g"] G x1(2) b A by auto
  have L: "pad_size (layer1 g) = ?A" "num_heads (layer1 g) = 4" "depth (layer1 g) = ?d" "\<not> pool (layer1 g)"
    "pad_size (layer2 g) = ?A" "num_heads (layer2 g) = 4" "depth (layer2 g) = ?S" "\<not> pool (layer2 g)"
    using G by simp_all
  have P: "params_ok (layer1 g) ?d (params1 g)" "params_ok (layer2 g) ?d (params2 g)" "4 dvd ?d" "4 dvd ?S"
    using G by blast+
  have l1: "layer_call (layer1 g) (params1 g) keep1 x1 = Inr (y2\<lparr>shape := [b, ?A, ?d]\<rparr>)"
    using zero_gates_identity [of x1 b "layer1 g" ?d "params1 g" keep1] L P Z x1(2) b A dim ip1 by simp
  obtain y3 where ip2: "input_projection (layer2 g) (params2 g) (y2\<lparr>shape := [b, ?A, ?d]\<rparr>)
      = Inr (b, y3, y3\<lparr>shape := [b, ?A, ?S]\<rparr>)"
    using input_projection_ok [of "y2\<lparr>shape := [b, ?A, ?d]\<rparr>" b "layer2 g" ?d "params2 g"] G b A by auto
  have l2: "layer_call (layer2 g) (params2 g) keep2 (y2\<lparr>shape := [b, ?A, ?d]\<rparr>) = Inr (y3\<lparr>shape := [b, ?A, ?S]\<rparr>)"
    using zero_gates_identity [of "y2\<lparr>shape := [b, ?A, ?d]\<rparr>" b "layer2 g" ?d "params2 g" keep2] L P Z b A S ip2
    by simp
  show ?thesis
    using x0 x1 ip1 l1 ip2 l2 by (simp add: model_forward_def)
qed

theorem model_forward_at_init_witness:
  "\<exists>g. graph_build default_cfg ex_glorot = Inr g
     \<and> model_forward g ex_keep (\<lambda>_. True) \<lparr>shape = [1, 512, 8], tdata = []\<rparr> =
         rbind (permute21 \<lparr>shape = [1, 512, 8], tdata = []\<rparr>) (\<lambda>x0.
         rbind (conv1d_k1 mish (conv_kernel g) (conv_bias g) x0) (\<lambda>x1.
         rbind (input_projection (layer1 g) (params1 g) x1) (\<lambda>(_, _, x2).
         rbind (input_projection (layer2 g) (params2 g) x2) (\<lambda>(_, _, x3).
         rbind (permute21 x3) (\<lambda>x4.
         dense3 (dense_kernel g) (dense_bias_out g) x4)))))"
proof -
  have "\<exists>g. graph_build default_cfg ex_glorot = Inr g"
    by (simp add: graph_build_def default_cfg_def layer_init_def layer_build_def Let_def)
  then obtain g where gb: "graph_build default_cfg ex_glorot = Inr g" ..
  show ?thesis
    using gb model_forward_at_init [OF gb, of "\<lparr>shape = [1, 512, 8], tdata = []\<rparr>" 1 ex_keep "\<lambda>_. True"]
    by (auto simp: default_cfg_def)
qed

end
