(* ===== verification/Training.thy ===== *)
theory Training
  imports Batching "HOL-Library.Multiset"
begin

text \<open>
  The training driver of \<open>src/train.py\<close>: the checkpoint record read at start-up and the
  learning-rate schedule built from it (lines 33--79), the hash-based train/test split
  (lines 282--298), \<open>estimate_loss\<close> (lines 301--312), the epoch-end callback
  \<open>on_epoch_end\<close> (lines 407--465) and the configuration of \<open>model.fit\<close>
  (lines 467--477).  The Keras model is a parameter: \<open>predict\<close> maps the input vectors of a
  window to the predicted vectors, \<open>loss\<close> gives the Huber loss of a batch.  The effects of
  the callback (saving the model, writing the checkpoint file, logging) are events in a
  list, so their presence and order can be stated.
\<close>

section \<open>Checkpoint and learning-rate schedule\<close>

text \<open>\<open>checkpoint_data\<close>: the field \<open>last_epoch\<close>; \<open>other_data\<close> is never read.\<close>

record checkpoint =
  ck_last_epoch :: int

definition default_checkpoint :: checkpoint where
  "default_checkpoint = \<lparr>ck_last_epoch = 0\<rparr>"

text \<open>Lines 61--63: the checkpoint file, when it exists, replaces the default record.\<close>

definition load_checkpoint :: "checkpoint option \<Rightarrow> checkpoint" where
  "load_checkpoint file = (case file of Some ck \<Rightarrow> ck | None \<Rightarrow> default_checkpoint)"

text \<open>
  Lines 51--53: the run is named after \<open>sequenceSize\<close> and \<open>dimension\<close>
  (\<open>model_id = f"{S}_{dim}"\<close>), and so are the saved model and the checkpoint file.
\<close>

definition model_id :: "cfg \<Rightarrow> string" where
  "model_id c = py_str_int (int (sequenceSize c)) @ ''_'' @ py_str_int (int (dimension c))"

definition model_path :: "cfg \<Rightarrow> string" where
  "model_path c = ''./models/llm_'' @ model_id c"

definition checkpoint_path :: "cfg \<Rightarrow> string" where
  "checkpoint_path c = ''checkpoint_'' @ model_id c @ ''.txt''"

text \<open>
  Line 54: \<open>wandb_log = True  # disabled by default\<close>.  The flag is set, whatever the
  comment says; \<open>on_epoch_end\<close> tests it (line 443).
\<close>

definition wandb_log :: bool where
  "wandb_log = True"

definition learning_rate :: real where
  "learning_rate = 0.0005"

definition max_iters :: int where
  "max_iters = 10000"

text \<open>\<open>tf.keras.optimizers.schedules.ExponentialDecay\<close>.\<close>

record schedule =
  initial_rate :: real
  decay_steps :: int
  decay_rate :: real
  staircase :: bool

text \<open>
  Lines 67--77: the schedule the optimizer uses, \<open>decay_steps = max_iters - last_epoch\<close>.
\<close>

definition startup_schedule :: "checkpoint \<Rightarrow> schedule" where
  "startup_schedule ck =
     \<lparr>initial_rate = learning_rate, decay_steps = max_iters - ck_last_epoch ck,
      decay_rate = 0.96, staircase = True\<rparr>"

text \<open>
  The rate at optimizer step \<open>step\<close>: \<open>p = step / decay_steps\<close>, rounded down when
  \<open>staircase\<close>, and \<open>initial_rate * decay_rate ** p\<close>.  For \<open>decay_steps = 0\<close> the
  float division gives \<open>inf\<close> or \<open>nan\<close>; the model returns \<open>None\<close> there.
\<close>

definition lr_at :: "schedule \<Rightarrow> nat \<Rightarrow> real option" where
  "lr_at s step =
     (if decay_steps s = 0 then None
      else (let p = real step / real_of_int (decay_steps s) in
            Some (initial_rate s * (if staircase s then decay_rate s powi \<lfloor>p\<rfloor> else decay_rate s powr p))))"

section \<open>Train/test split\<close>

text \<open>
  \<open>hash_based_split\<close> (lines 286--296).  \<open>int(md5(name).hexdigest(), 16)\<close> is the
  parameter \<open>md5\<close>, a number below \<open>2^128\<close>; the quotient by \<open>float(1 << 128)\<close> is
  taken in the reals.
\<close>

definition hash_num :: "(string \<Rightarrow> nat) \<Rightarrow> string \<Rightarrow> real" where
  "hash_num md5 f = real (md5 f) / 2 ^ 128"

fun split_loop :: "(string \<Rightarrow> nat) \<Rightarrow> real \<Rightarrow> string list \<Rightarrow> string list \<Rightarrow> string list
                    \<Rightarrow> string list \<times> string list" where
  "split_loop md5 ts train test [] = (train, test)"
| "split_loop md5 ts train test (f # fs) =
     (if hash_num md5 f < ts then split_loop md5 ts train (test @ [f]) fs
      else split_loop md5 ts (train @ [f]) test fs)"

definition hash_based_split :: "(string \<Rightarrow> nat) \<Rightarrow> real \<Rightarrow> string list \<Rightarrow> string list \<times> string list" where
  "hash_based_split md5 ts filenames = split_loop md5 ts [] [] filenames"

section \<open>Validation loss\<close>

text \<open>
  \<open>estimate_loss(model, dataset, eval_iters)\<close> (lines 301--312): a fresh iterator over the
  (cached) dataset, \<open>next\<close> \<open>eval_iters\<close> times, one loss per batch, and their mean.  An
  exhausted iterator raises \<open>StopIteration\<close>; \<open>np.mean([])\<close> is \<open>nan\<close>, \<open>None\<close> here.
\<close>

fun loss_loop :: "(batch \<Rightarrow> real) \<Rightarrow> batch list \<Rightarrow> nat \<Rightarrow> real list \<Rightarrow> real list result" where
  "loss_loop loss it 0 losses = Inr losses"
| "loss_loop loss [] (Suc k) losses = Inl StopIteration"
| "loss_loop loss (b # it) (Suc k) losses = loss_loop loss it k (losses @ [loss b])"

definition np_mean :: "real list \<Rightarrow> real option" where
  "np_mean xs = (if xs = [] then None else Some (sum_list xs / real (length xs)))"

definition estimate_loss :: "(batch \<Rightarrow> real) \<Rightarrow> batch list \<Rightarrow> nat \<Rightarrow> real option result" where
  "estimate_loss loss dataset eval_iters =
     rbind (loss_loop loss dataset eval_iters []) (\<lambda>losses. Inr (np_mean losses))"

section \<open>The epoch-end callback\<close>

text \<open>The record \<open>wandb.log\<close> receives (lines 453--462).\<close>

record metrics =
  m_iter :: int
  m_tokens :: int
  m_loss_train :: real
  m_loss_val :: "real option"
  m_accuracy :: real
  m_lr :: real
  m_mfu :: real

text \<open>
  The observable effects of the callback, in the order they happen: the warning of an
  empty \<open>last_batch\<close>, \<open>model.save\<close>, the checkpoint file write, the decoded sample
  passed to \<open>tokenizer.decode\<close> (input, target and predicted token ids), and the
  \<open>wandb.log\<close> call, or its logged failure.
\<close>

datatype event =
    SkipEpochEnd
  | SaveModel
  | WriteCheckpoint checkpoint
  | ShowSample "int list" "int list" "int list"
  | LogMetrics metrics
  | MetricsFailed

text \<open>What stays fixed during \<open>model.fit\<close>: the configuration, the vocabulary, the global
  \<open>last_epoch\<close> read at start-up, \<open>len(train_books)\<close>, the validation dataset (the batches
  the validation generator yields, cached), and the model.\<close>

record run_env =
  env_cfg :: cfg
  env_vocab :: w2v
  env_last_epoch :: int
  env_wandb_log :: bool
  env_train_books :: nat
  env_val_dataset :: "batch list"
  env_predict :: "vec list \<Rightarrow> vec list"
  env_loss :: "batch \<Rightarrow> real"

text \<open>The state the callback changes: the global \<open>checkpoint_data\<close>, the checkpoint
  file, and the effects so far.\<close>

record session =
  checkpoint_data :: checkpoint
  checkpoint_file :: "checkpoint option"
  events :: "event list"

text \<open>What differs per call: the global \<open>last_batch\<close> the generators left, the draw of
  \<open>random.randint\<close>, whether \<open>wandb.log\<close> succeeds, and \<open>logs\<close> (loss, accuracy).\<close>

record epoch_obs =
  obs_gen :: gen_state
  obs_random :: nat
  obs_wandb_ok :: bool
  obs_loss :: real
  obs_accuracy :: real

text \<open>\<open>list(map(lambda s: int(reverser(s)), a))\<close> (line 441).\<close>

fun decode_ids :: "w2v \<Rightarrow> vec list \<Rightarrow> int list result" where
  "decode_ids d [] = Inr []"
| "decode_ids d (v # vs) =
     rbind (reverser d v) (\<lambda>key. rbind (py_int key) (\<lambda>t. rbind (decode_ids d vs) (\<lambda>ts. Inr (t # ts))))"

text \<open>
  Lines 432--441: with \<open>show_test_output\<close>, the sampled window's input and target through
  \<open>reparse\<close>, and the prediction for its input decoded.
\<close>

definition show_sample :: "run_env \<Rightarrow> window \<Rightarrow> event list result" where
  "show_sample env w =
     rbind (reparse_ids (env_vocab env) (fst w)) (\<lambda>inp.
     rbind (reparse_ids (env_vocab env) (snd w)) (\<lambda>real_ids.
     rbind (decode_ids (env_vocab env) (env_predict env (fst w))) (\<lambda>pred.
     Inr [ShowSample inp real_ids pred])))"

text \<open>
  \<open>on_epoch_end(epoch, logs)\<close> (lines 407--465).  An exception leaves the effects done
  before it in place and aborts \<open>model.fit\<close>: the result pairs the session with
  \<open>Inl\<close> of the exception, or \<open>Inr ()\<close>.  \<open>random.randint(0, len(last_batch) - 1)\<close> is
  the draw modulo the length.
\<close>

definition on_epoch_end :: "run_env \<Rightarrow> epoch_obs \<Rightarrow> nat \<Rightarrow> session \<Rightarrow> session \<times> unit result" where
  "on_epoch_end env obs epoch s =
     (let lb = last_batch (obs_gen obs) in
      if lb = [] then (s\<lparr>events := events s @ [SkipEpochEnd]\<rparr>, Inr ())
      else
        (let ck = (checkpoint_data s)\<lparr>ck_last_epoch := env_last_epoch env + int epoch\<rparr>;
             s1 = s\<lparr>checkpoint_data := ck, checkpoint_file := Some ck,
                    events := events s @ [SaveModel, WriteCheckpoint ck]\<rparr>;
             w = lb ! (obs_random obs mod length lb)
         in case (if epoch mod 10 = 0 then show_sample env w else Inr []) of
              Inl e \<Rightarrow> (s1, Inl e)
            | Inr shown \<Rightarrow>
                (let s2 = s1\<lparr>events := events s1 @ shown\<rparr>;
                     iters = (if 512 \<le> batchSize (env_cfg env) then 10 else 100)
                 in if \<not> env_wandb_log env then (s2, Inr ()) else
                    case estimate_loss (env_loss env) (env_val_dataset env) iters of
                      Inl e \<Rightarrow> (s2, Inl e)
                    | Inr val_loss \<Rightarrow>
                        (let it = env_last_epoch env + int epoch;
                             m = \<lparr>m_iter = it, m_tokens = it * int (env_train_books env) div 128,
                                  m_loss_train = obs_loss obs, m_loss_val = val_loss,
                                  m_accuracy = obs_accuracy obs, m_lr = learning_rate, m_mfu = 0\<rparr>
                         in (s2\<lparr>events := events s2 @ [if obs_wandb_ok obs then LogMetrics m else MetricsFailed]\<rparr>,
                             Inr ())))))"

section \<open>The run\<close>

text \<open>
  \<open>model.fit\<close> calls \<open>on_epoch_end\<close> after each of the epochs \<open>0, 1, ...\<close>; an exception
  from the callback ends the run.  \<open>obs e\<close> is what epoch \<open>e\<close> leaves behind.
\<close>

fun run_epochs :: "run_env \<Rightarrow> (nat \<Rightarrow> epoch_obs) \<Rightarrow> nat list \<Rightarrow> session \<Rightarrow> session \<times> unit result" where
  "run_epochs env obs [] s = (s, Inr ())"
| "run_epochs env obs (e # es) s =
     (case on_epoch_end env (obs e) e s of
        (s', Inl err) \<Rightarrow> (s', Inl err)
      | (s', Inr u) \<Rightarrow> run_epochs env obs es s')"

text \<open>Lines 467--477: \<open>(epochs, steps_per_epoch)\<close> passed to \<open>model.fit\<close>.\<close>

definition fit_config :: "cfg \<Rightarrow> nat \<Rightarrow> nat \<times> nat" where
  "fit_config c n_train = (n_train div 128, n_train div batchSize c)"

text \<open>A whole run: start-up from the checkpoint file, then the epochs of \<open>fit_config\<close>.\<close>

definition train_run :: "run_env \<Rightarrow> (nat \<Rightarrow> epoch_obs) \<Rightarrow> checkpoint option \<Rightarrow> session \<times> unit result" where
  "train_run env obs file =
     (let ck = load_checkpoint file in
      run_epochs (env\<lparr>env_last_epoch := ck_last_epoch ck, env_wandb_log := wandb_log\<rparr>) obs
        [0..<fst (fit_config (env_cfg env) (env_train_books env))]
        \<lparr>checkpoint_data = ck, checkpoint_file = file, events = []\<rparr>)"

section \<open>Observations and examples\<close>

text \<open>The events that report the epoch's metrics: a \<open>wandb.log\<close> call or its logged failure.\<close>

fun is_metric_event :: "event \<Rightarrow> bool" where
  "is_metric_event (LogMetrics m) = True"
| "is_metric_event MetricsFailed = True"
| "is_metric_event _ = False"

text \<open>Example runs: two epochs over 256 training books, a validation dataset of 100 batches.\<close>

abbreviation ex_md5 :: "string \<Rightarrow> nat" where
  "ex_md5 \<equiv> \<lambda>f. if f = ''a'' then 0 else 2 ^ 127"

abbreviation ex_env :: run_env where
  "ex_env \<equiv> \<lparr>env_cfg = ex_cfg, env_vocab = ex_vocab, env_last_epoch = 0, env_wandb_log = True, env_train_books = 256,
             env_val_dataset = replicate 100 ([], []), env_predict = id, env_loss = \<lambda>b. 0\<rparr>"

abbreviation ex_obs :: "nat \<Rightarrow> epoch_obs" where
  "ex_obs \<equiv> \<lambda>e. \<lparr>obs_gen = \<lparr>setx = [], last_batch = [([], [])]\<rparr>, obs_random = 0, obs_wandb_ok = True,
                  obs_loss = 0, obs_accuracy = 0\<rparr>"

abbreviation ex_obs_skip :: "nat \<Rightarrow> epoch_obs" where
  "ex_obs_skip \<equiv> \<lambda>e. \<lparr>obs_gen = \<lparr>setx = [], last_batch = (if e = 0 then [([], [])] else [])\<rparr>, obs_random = 0,
                       obs_wandb_ok = False, obs_loss = 0, obs_accuracy = 0\<rparr>"

section \<open>Properties\<close>

lemma model_id_eq:
  "model_id c1 = model_id c2 \<longleftrightarrow> sequenceSize c1 = sequenceSize c2 \<and> dimension c1 = dimension c2"
proof -
  have u: "CHR ''_'' \<notin> set (py_str_int (int n))" for n
    using py_str_int_nat_digits [of "CHR ''_''" n] by (auto simp: char_digit_def)
  show ?thesis
    unfolding model_id_def using append_Cons_eq_iff [OF u u] by (simp add: py_str_int_inj)
qed

subsection \<open>Split, validation loss and schedule\<close>

lemma split_loop_filter:
  "split_loop md5 ts train test fs =
     (train @ filter (\<lambda>f. \<not> hash_num md5 f < ts) fs, test @ filter (\<lambda>f. hash_num md5 f < ts) fs)"
  by (induction md5 ts train test fs rule: split_loop.induct) auto

lemma loss_loop_eq:
  "loss_loop loss it n acc = (if length it < n then Inl StopIteration else Inr (acc @ map loss (take n it)))"
  by (induction loss it n acc rule: loss_loop.induct) auto

subsection \<open>The callback and the run\<close>

lemma on_epoch_end_empty [simp]:
  "last_batch (obs_gen obs) = [] \<Longrightarrow>
   on_epoch_end env obs e s = (s\<lparr>events := events s @ [SkipEpochEnd]\<rparr>, Inr ())"
  by (simp add: on_epoch_end_def)

lemma show_sample_no_metric: "show_sample env w = Inr shown \<Longrightarrow> filter is_metric_event shown = []"
  by (auto simp: show_sample_def rbind_eq_Inr)

text \<open>A callback on a non-empty \<open>last_batch\<close> saves, writes the checkpoint
  \<open>last_epoch + epoch\<close>, and then either completes with exactly one metrics event or fails.\<close>

lemma on_epoch_end_nonempty:
  assumes "last_batch (obs_gen obs) \<noteq> []" and "on_epoch_end env obs e s = (s', r)"
  shows "checkpoint_data s' = \<lparr>ck_last_epoch = env_last_epoch env + int e\<rparr>
     \<and> checkpoint_file s' = Some \<lparr>ck_last_epoch = env_last_epoch env + int e\<rparr>
     \<and> (\<exists>evs. events s' = events s @ SaveModel # WriteCheckpoint \<lparr>ck_last_epoch = env_last_epoch env + int e\<rparr> # evs
          \<and> length (filter is_metric_event evs) = (if r = Inr () \<and> env_wandb_log env then 1 else 0))"
  using assms
  by (auto simp: on_epoch_end_def Let_def show_sample_no_metric split: sum.splits if_splits)

lemma run_epochs_effects:
  assumes "run_epochs env obs es s = (s', Inr ())"
  shows "checkpoint_file s' =
           (if filter (\<lambda>e. last_batch (obs_gen (obs e)) \<noteq> []) es = [] then checkpoint_file s
            else Some \<lparr>ck_last_epoch = env_last_epoch env + int (last (filter (\<lambda>e. last_batch (obs_gen (obs e)) \<noteq> []) es))\<rparr>)
     \<and> length (filter is_metric_event (events s')) =
         length (filter is_metric_event (events s))
         + (if env_wandb_log env then length (filter (\<lambda>e. last_batch (obs_gen (obs e)) \<noteq> []) es) else 0)"
  using assms
proof (induction es arbitrary: s)
  case Nil
  then show ?case by simp
next
  case (Cons e es)
  let ?ne = "\<lambda>e. last_batch (obs_gen (obs e)) \<noteq> []"
  show ?case
  proof (cases "?ne e")
    case False
    let ?s1 = "s\<lparr>events := events s @ [SkipEpochEnd]\<rparr>"
    have "run_epochs env obs es ?s1 = (s', Inr ())"
      using Cons.prems False by simp
    from Cons.IH [OF this] show ?thesis using False by simp
  next
    case True
    obtain s1 r where oe: "on_epoch_end env (obs e) e s = (s1, r)" by fastforce
    with Cons.prems have r: "r = Inr ()" and rest: "run_epochs env obs es s1 = (s', Inr ())"
      by (auto split: sum.splits)
    have s1: "checkpoint_file s1 = Some \<lparr>ck_last_epoch = env_last_epoch env + int e\<rparr>"
      "length (filter is_metric_event (events s1)) =
         length (filter is_metric_event (events s)) + (if env_wandb_log env then 1 else 0)"
      using on_epoch_end_nonempty [OF True oe] r by auto
    have "checkpoint_file s' =
           (if filter ?ne es = [] then checkpoint_file s1
            else Some \<lparr>ck_last_epoch = env_last_epoch env + int (last (filter ?ne es))\<rparr>)"
      using Cons.IH [OF rest] by blast
    moreover have "length (filter is_metric_event (events s')) =
         length (filter is_metric_event (events s1)) + (if env_wandb_log env then length (filter ?ne es) else 0)"
      using Cons.IH [OF rest] by blast
    ultimately show ?thesis using True s1 by simp
  qed
qed

lemma ex_run: "train_run ex_env ex_obs None =
   (\<lparr>checkpoint_data = \<lparr>ck_last_epoch = 1\<rparr>, checkpoint_file = Some \<lparr>ck_last_epoch = 1\<rparr>,
     events = [SaveModel, WriteCheckpoint \<lparr>ck_last_epoch = 0\<rparr>, ShowSample [] [] [],
               LogMetrics \<lparr>m_iter = 0, m_tokens = 0, m_loss_train = 0, m_loss_val = Some 0, m_accuracy = 0,
                            m_lr = learning_rate, m_mfu = 0\<rparr>,
               SaveModel, WriteCheckpoint \<lparr>ck_last_epoch = 1\<rparr>,
               LogMetrics \<lparr>m_iter = 1, m_tokens = 2, m_loss_train = 0, m_loss_val = Some 0, m_accuracy = 0,
                            m_lr = learning_rate, m_mfu = 0\<rparr>]\<rparr>, Inr ())"
  by (simp add: train_run_def fit_config_def load_checkpoint_def default_checkpoint_def on_epoch_end_def wandb_log_def
      show_sample_def reparse_ids_def estimate_loss_def loss_loop_eq np_mean_def upt_rec Let_def
      sum_list_replicate)

lemma ex_run_skip:
  "run_epochs ex_env ex_obs_skip [0, 1] \<lparr>checkpoint_data = default_checkpoint, checkpoint_file = None, events = []\<rparr>
   = (\<lparr>checkpoint_data = \<lparr>ck_last_epoch = 0\<rparr>, checkpoint_file = Some \<lparr>ck_last_epoch = 0\<rparr>,
       events = [SaveModel, WriteCheckpoint \<lparr>ck_last_epoch = 0\<rparr>, ShowSample [] [] [], MetricsFailed, SkipEpochEnd]\<rparr>,
      Inr ())"
  by (simp add: default_checkpoint_def on_epoch_end_def show_sample_def reparse_ids_def estimate_loss_def
      loss_loop_eq np_mean_def Let_def sum_list_replicate)

subsection \<open>Claims\<close>

text \<open>C20: Resuming counts an epoch twice: after a completed run of E > 0 epochs whose last epoch saw a non-empty last batch, the checkpoint the next run reads holds last_epoch + E - 1, because on_epoch_end stores last_epoch + epoch with the 0-based epoch\<close>

theorem checkpoint_resume_off_by_one:
  assumes "train_run env obs file = (s', Inr ())"
    and "0 < env_train_books env div 128"
    and "last_batch (obs_gen (obs (env_train_books env div 128 - 1))) \<noteq> []"
  shows "ck_last_epoch (load_checkpoint (checkpoint_file s')) =
           ck_last_epoch (load_checkpoint file) + int (env_train_books env div 128) - 1"
proof -
  let ?E = "env_train_books env div 128"
  let ?ne = "\<lambda>e. last_batch (obs_gen (obs e)) \<noteq> []"
  have run: "run_epochs (env\<lparr>env_last_epoch := ck_last_epoch (load_checkpoint file), env_wandb_log := wandb_log\<rparr>) obs [0..<?E]
      \<lparr>checkpoint_data = load_checkpoint file, checkpoint_file = file, events = []\<rparr> = (s', Inr ())"
    using assms(1) by (simp add: train_run_def fit_config_def Let_def)
  have E: "[0..<?E] = [0..<?E - 1] @ [?E - 1]"
    using assms(2) by (metis Suc_diff_1 upt_Suc_append zero_le)
  have "filter ?ne [0..<?E] = filter ?ne [0..<?E - 1] @ [?E - 1]"
    using assms(3) by (simp only: E filter_append) simp
  then have "checkpoint_file s' =
      Some \<lparr>ck_last_epoch = ck_last_epoch (load_checkpoint file) + int (?E - 1)\<rparr>"
    using run_epochs_effects [OF run] by simp
  then show ?thesis
    using assms(2) by (simp add: load_checkpoint_def of_nat_diff)
qed

theorem checkpoint_resume_off_by_one_witness:
  "\<exists>s'. train_run ex_env ex_obs None = (s', Inr ()) \<and> 0 < env_train_books ex_env div 128
     \<and> last_batch (obs_gen (ex_obs (env_train_books ex_env div 128 - 1))) \<noteq> []
     \<and> ck_last_epoch (load_checkpoint (checkpoint_file s')) =
         ck_last_epoch (load_checkpoint None) + int (env_train_books ex_env div 128) - 1"
  using ex_run checkpoint_resume_off_by_one [OF ex_run] by simp

text \<open>C21: Metrics are reported (by wandb.log or its logged failure) only when the module flag wandb_log is set, which line 54 does although its comment says disabled by default, and then only for epochs whose last_batch is non-empty: a completed run adds exactly one metrics event per such epoch, so an empty last_batch skips the metrics and not only the decoded sample\<close>

theorem metrics_only_for_nonempty_batches:
  "run_epochs env obs es s = (s', Inr ()) \<Longrightarrow>
   length (filter is_metric_event (events s')) =
     length (filter is_metric_event (events s))
     + (if env_wandb_log env then length (filter (\<lambda>e. last_batch (obs_gen (obs e)) \<noteq> []) es) else 0)"
  using run_epochs_effects by blast

theorem metrics_only_for_nonempty_batches_witness:
  "\<exists>s'. run_epochs ex_env ex_obs_skip [0, 1] \<lparr>checkpoint_data = default_checkpoint, checkpoint_file = None, events = []\<rparr>
          = (s', Inr ())
     \<and> length (filter is_metric_event (events s')) = 1"
  using ex_run_skip metrics_only_for_nonempty_batches [OF ex_run_skip] by simp

text \<open>C22: With wandb_log set, as line 54 sets it although its comment says disabled by default, a validation dataset shorter than the evaluation count (10 batches for batchSize >= 512, else 100) makes every epoch end with a non-empty last_batch raise, after the model has been saved and the checkpoint written: the metrics step is not failure-tolerant\<close>

theorem val_loss_stop_iteration:
  assumes "last_batch (obs_gen obs) \<noteq> []"
    and "length (env_val_dataset env) < (if 512 \<le> batchSize (env_cfg env) then 10 else 100)"
    and "on_epoch_end env obs e s = (s', r)" and "env_wandb_log env"
  shows "r \<noteq> Inr () \<and> SaveModel \<in> set (events s')
     \<and> checkpoint_file s' = Some \<lparr>ck_last_epoch = env_last_epoch env + int e\<rparr>"
proof -
  have "estimate_loss (env_loss env) (env_val_dataset env) (if 512 \<le> batchSize (env_cfg env) then 10 else 100)
        = Inl StopIteration"
    using assms(2) by (simp add: estimate_loss_def loss_loop_eq)
  then have "r \<noteq> Inr ()"
    using assms(1,3,4) by (auto simp: on_epoch_end_def Let_def split: sum.splits if_splits)
  then show ?thesis
    using on_epoch_end_nonempty [OF assms(1,3)] by auto
qed

theorem val_loss_stop_iteration_witness:
  "\<exists>s' r. last_batch (obs_gen (ex_obs 1)) \<noteq> []
     \<and> length (env_val_dataset (ex_env\<lparr>env_cfg := default_cfg, env_val_dataset := []\<rparr>)) <
         (if 512 \<le> batchSize (env_cfg (ex_env\<lparr>env_cfg := default_cfg, env_val_dataset := []\<rparr>)) then 10 else 100)
     \<and> on_epoch_end (ex_env\<lparr>env_cfg := default_cfg, env_val_dataset := []\<rparr>) (ex_obs 1) 1
         \<lparr>checkpoint_data = default_checkpoint, checkpoint_file = None, events = []\<rparr> = (s', r)
     \<and> env_wandb_log (ex_env\<lparr>env_cfg := default_cfg, env_val_dataset := []\<rparr>)
     \<and> r \<noteq> Inr () \<and> SaveModel \<in> set (events s')"
proof -
  obtain s' r where oe: "on_epoch_end (ex_env\<lparr>env_cfg := default_cfg, env_val_dataset := []\<rparr>) (ex_obs 1) 1
      \<lparr>checkpoint_data = default_checkpoint, checkpoint_file = None, events = []\<rparr> = (s', r)" by fastforce
  show ?thesis using oe val_loss_stop_iteration [OF _ _ oe] by (auto simp: default_cfg_def)
qed

text \<open>C23: hash_based_split partitions the file names: the two lists together are the input as a multiset, no name is on both sides, and a name is a test file exactly when its md5 value over 2^128 is below test_split\<close>

theorem hash_split_partition:
  assumes "hash_based_split md5 ts fs = (train, test)"
  shows "mset train + mset test = mset fs \<and> set train \<inter> set test = {}
     \<and> (\<forall>f\<in>set fs. f \<in> set test \<longleftrightarrow> real (md5 f) / 2 ^ 128 < ts)"
proof -
  have t: "train = filter (\<lambda>f. \<not> hash_num md5 f < ts) fs" "test = filter (\<lambda>f. hash_num md5 f < ts) fs"
    using assms by (simp_all add: hash_based_split_def split_loop_filter)
  have "mset (filter (\<lambda>f. \<not> P f) xs) + mset (filter P xs) = mset xs" for P and xs :: "string list"
    by (induction xs) auto
  then show ?thesis
    unfolding t by (auto simp: hash_num_def)
qed

theorem hash_split_partition_witness:
  "hash_based_split ex_md5 0.2 [''a'', ''b''] = ([''b''], [''a''])
   \<and> mset [''b''] + mset [''a''] = mset [''a'', ''b''] \<and> set [''b''] \<inter> set [''a''] = {}
   \<and> (''a'' \<in> set [''a''] \<longleftrightarrow> real (ex_md5 ''a'') / 2 ^ 128 < (0.2::real))
   \<and> (''b'' \<notin> set [''a''] \<longleftrightarrow> \<not> real (ex_md5 ''b'') / 2 ^ 128 < (0.2::real))"
proof -
  have s: "hash_based_split ex_md5 0.2 [''a'', ''b''] = ([''b''], [''a''])"
    by (simp add: hash_based_split_def hash_num_def)
  show ?thesis using s hash_split_partition [OF s] by simp
qed

text \<open>C24: estimate_loss raises StopIteration when the dataset has fewer than eval_iters batches, and otherwise returns the mean loss of its first eval_iters batches (nan, None here, for eval_iters = 0)\<close>

theorem estimate_loss_eq:
  "estimate_loss loss ds n =
     (if length ds < n then Inl StopIteration else Inr (np_mean (map loss (take n ds))))"
  by (simp add: estimate_loss_def loss_loop_eq)

text \<open>C25: When the checkpoint has passed max_iters, decay_steps = max_iters - last_epoch is negative and the schedule the optimizer uses exceeds the initial learning rate at every step after the first\<close>

theorem lr_grows_after_max_iters:
  assumes "max_iters < ck_last_epoch ck" "0 < step"
  shows "\<exists>r. lr_at (startup_schedule ck) step = Some r \<and> learning_rate < r"
proof -
  let ?ds = "max_iters - ck_last_epoch ck"
  have ds: "?ds < 0" using assms(1) by simp
  have "real step / real_of_int ?ds < 0"
    using ds assms(2) by (simp add: divide_pos_neg)
  then have fl: "\<lfloor>real step / real_of_int ?ds\<rfloor> < 0" by linarith
  define x where "x = (0.96::real) powi \<lfloor>real step / real_of_int ?ds\<rfloor>"
  have "(1::real) powi \<lfloor>real step / real_of_int ?ds\<rfloor> < x"
    unfolding x_def using fl by (intro power_int_strict_antimono) simp_all
  then have "learning_rate < learning_rate * x" by (simp add: learning_rate_def)
  moreover have "lr_at (startup_schedule ck) step = Some (learning_rate * x)"
    using ds by (simp add: lr_at_def startup_schedule_def Let_def x_def)
  ultimately show ?thesis by blast
qed

theorem lr_grows_after_max_iters_witness:
  "\<exists>r. max_iters < ck_last_epoch \<lparr>ck_last_epoch = 10001\<rparr> \<and> 0 < (1::nat)
     \<and> lr_at (startup_schedule \<lparr>ck_last_epoch = 10001\<rparr>) 1 = Some r \<and> learning_rate < r"
  using lr_grows_after_max_iters [of "\<lparr>ck_last_epoch = 10001\<rparr>" 1] by (simp add: max_iters_def)

text \<open>C35: The saved model and the checkpoint file are named after sequenceSize and dimension only: two configurations share them exactly when these two fields agree, so runs that differ in batchSize, arrayDimension or predictSteps resume from each other's checkpoint and overwrite each other's model\<close>

theorem checkpoint_path_shared:
  "(checkpoint_path c1 = checkpoint_path c2 \<longleftrightarrow> sequenceSize c1 = sequenceSize c2 \<and> dimension c1 = dimension c2)
   \<and> (model_path c1 = model_path c2 \<longleftrightarrow> sequenceSize c1 = sequenceSize c2 \<and> dimension c1 = dimension c2)"
  by (simp add: checkpoint_path_def model_path_def model_id_eq)

text \<open>C37: While the checkpoint is below max_iters, the schedule the optimizer uses is defined at every step, stays within (0, learning_rate] and never increases from one step to a later one\<close>

theorem lr_decays_within_bounds:
  assumes "ck_last_epoch ck < max_iters" "step1 \<le> step2"
  shows "\<exists>r1 r2. lr_at (startup_schedule ck) step1 = Some r1 \<and> lr_at (startup_schedule ck) step2 = Some r2
           \<and> 0 < r2 \<and> r2 \<le> r1 \<and> r1 \<le> learning_rate"
proof -
  obtain k where k: "max_iters - ck_last_epoch ck = int k" "0 < k"
    using assms(1) by (metis pos_int_cases diff_gt_0_iff_gt)
  have lr: "lr_at (startup_schedule ck) step = Some (learning_rate * 0.96 ^ (step div k))" for step
  proof -
    have "\<lfloor>real step / real_of_int (max_iters - ck_last_epoch ck)\<rfloor> = int (step div k)"
      using k by (simp add: floor_divide_of_nat_eq)
    then show ?thesis
      using k by (simp add: lr_at_def startup_schedule_def Let_def power_int_of_nat)
  qed
  have lr0: "0 < learning_rate" by (simp add: learning_rate_def)
  have "(0.96::real) ^ (step2 div k) \<le> 0.96 ^ (step1 div k)"
    by (rule power_decreasing) (simp_all add: div_le_mono assms(2))
  then have "learning_rate * 0.96 ^ (step2 div k) \<le> learning_rate * 0.96 ^ (step1 div k)"
    using lr0 by (intro mult_left_mono) simp_all
  moreover have "learning_rate * (0.96::real) ^ (step1 div k) \<le> learning_rate"
    using lr0 by (simp add: power_le_one)
  moreover have "0 < learning_rate * (0.96::real) ^ (step2 div k)"
    using lr0 by simp
  ultimately show ?thesis
    using lr [of step1] lr [of step2] by blast
qed

theorem lr_decays_within_bounds_witness:
  "\<exists>r1 r2. ck_last_epoch default_checkpoint < max_iters \<and> (0::nat) \<le> 10000
     \<and> lr_at (startup_schedule default_checkpoint) 0 = Some r1
     \<and> lr_at (startup_schedule default_checkpoint) 10000 = Some r2
     \<and> 0 < r2 \<and> r2 \<le> r1 \<and> r1 \<le> learning_rate"
proof -
  have a: "ck_last_epoch default_checkpoint < max_iters" "(0::nat) \<le> 10000"
    by (simp_all add: default_checkpoint_def max_iters_def)
  show ?thesis
    using a lr_decays_within_bounds [OF a] by blast
qed

end
