(* ===== verification/Utilities.thy ===== *)
theory Utilities
  imports Batching "HOL-Library.Word"
begin

text \<open>
  Two helpers of \<open>src/train.py\<close> outside the core: the checksum \<open>addler(data, mod)\<close>
  (lines 196--204, defined but never called) and \<open>estimate_mfu\<close> (lines 235--253, its
  only call is commented out at line 415).  Python's \<open>%\<close> on ints is the floor modulo,
  which is \<open>mod\<close> on \<open>int\<close>; \<open>%\<close> by zero raises \<open>ZeroDivisionError\<close>.
\<close>

section \<open>The checksum\<close>

fun addler_loop :: "int \<Rightarrow> int \<Rightarrow> int \<Rightarrow> int list \<Rightarrow> (int \<times> int) result" where
  "addler_loop m a b [] = Inr (a, b)"
| "addler_loop m a b (v # vs) =
     (if m = 0 then Inl ZeroDivisionError
      else (let a' = (a + v) mod m; b' = (b + a') mod m in addler_loop m a' b' vs))"

definition addler :: "int list \<Rightarrow> int \<Rightarrow> int result" where
  "addler data m = rbind (addler_loop m 1 0 data) (\<lambda>(a, b). Inr b)"

text \<open>
  The checksum in closed form, without the reductions inside the loop: the sum of the
  running sums \<open>1 + data[0] + ... + data[i]\<close>, reduced once.
\<close>

definition addler_ref :: "int list \<Rightarrow> int \<Rightarrow> int" where
  "addler_ref data m = (\<Sum>i<length data. 1 + sum_list (take (Suc i) data)) mod m"

text \<open>
  The same loop on 16-bit machine words, where \<open>+\<close> wraps: for \<open>mod = 2^16\<close> the
  reductions are exactly the wrap-around.
\<close>

fun adler16_loop :: "16 word \<Rightarrow> 16 word \<Rightarrow> int list \<Rightarrow> 16 word \<times> 16 word" where
  "adler16_loop a b [] = (a, b)"
| "adler16_loop a b (v # vs) = (let a' = a + word_of_int v; b' = b + a' in adler16_loop a' b' vs)"

section \<open>Model flops utilisation\<close>

text \<open>
  \<open>estimate_mfu(model, fwdbwd_per_iter, dt)\<close>: \<open>N\<close> is the number of trainable
  parameters of the model (a parameter here).  \<open>1.0 / dt\<close> raises \<open>ZeroDivisionError\<close>
  for \<open>dt = 0\<close>, and \<open>cfg['dimension'] // cfg['sequenceSize']\<close> before it for a zero
  \<open>sequenceSize\<close>.
\<close>

definition estimate_mfu :: "cfg \<Rightarrow> nat \<Rightarrow> nat \<Rightarrow> real \<Rightarrow> real result" where
  "estimate_mfu c N fwdbwd_per_iter dt =
     (if sequenceSize c = 0 then Inl ZeroDivisionError
      else
       (let L = sequenceSize c; H = dimension c div sequenceSize c; Q = sequenceSize c;
            T = sequenceSize c;
            flops_per_token = 6 * N + 12 * L * H * Q * T;
            flops_per_fwdbwd = flops_per_token * T;
            flops_per_iter = flops_per_fwdbwd * fwdbwd_per_iter
        in if dt = 0 then Inl ZeroDivisionError
           else (let flops_achieved = real flops_per_iter * (1 / dt);
                     flops_promised = 312 * 10 ^ 12
                 in Inr (flops_achieved / flops_promised))))"

section \<open>Properties\<close>

lemma mod_add_mult_mod_int: "(p + q * (r mod m)) mod m = (p + q * r) mod (m :: int)"
  by (metis mod_add_right_eq mod_mult_right_eq)

lemma addler_loop_eq:
  "m \<noteq> 0 \<Longrightarrow> addler_loop m a b vs =
     Inr (if vs = [] then (a, b)
          else ((a + sum_list vs) mod m, (b + (\<Sum>i<length vs. a + sum_list (take (Suc i) vs))) mod m))"
proof (induction vs arbitrary: a b)
  case Nil
  then show ?case by simp
next
  case (Cons v vs)
  let ?a = "(a + v) mod m"
  let ?b = "(b + ?a) mod m"
  let ?n = "int (length vs)" and ?y = "\<Sum>i<length vs. sum_list (take (Suc i) vs)"
  have step: "addler_loop m a b (v # vs) = addler_loop m ?a ?b vs"
    using Cons.prems by (simp add: Let_def)
  show ?case
  proof (cases "vs = []")
    case True
    then show ?thesis using step by (simp add: mod_simps ac_simps)
  next
    case False
    have sh: "(\<Sum>i<Suc (length vs). a + sum_list (take (Suc i) (v # vs)))
        = (a + v) + (?n * (a + v) + ?y)"
      by (subst sum.lessThan_Suc_shift) (simp add: sum.distrib algebra_simps)
    have "(?b + (\<Sum>i<length vs. ?a + sum_list (take (Suc i) vs))) mod m = (?b + (?y + ?n * ?a)) mod m"
      by (simp add: sum.distrib ac_simps)
    also have "\<dots> = (b + ?a + (?y + ?n * ?a)) mod m"
      by (rule mod_add_left_eq)
    also have "\<dots> = (b + ?y + (1 + ?n) * ?a) mod m"
      by (rule arg_cong [where f = "\<lambda>x. x mod m"]) (simp add: algebra_simps)
    also have "\<dots> = (b + ?y + (1 + ?n) * (a + v)) mod m"
      by (rule mod_add_mult_mod_int)
    finally have "(?b + (\<Sum>i<length vs. ?a + sum_list (take (Suc i) vs))) mod m
        = (b + ((a + v) + (?n * (a + v) + ?y))) mod m"
      by (simp add: algebra_simps)
    then show ?thesis
      using step Cons.IH [OF Cons.prems, of ?a ?b] False sh by (simp add: mod_simps ac_simps)
  qed
qed

lemma uint_adler_step: "uint (a + word_of_int v :: 16 word) = (uint a + v) mod 65536"
  by (simp add: uint_word_ariths uint_word_of_int_eq take_bit_eq_mod mod_simps)

lemma adler16_loop_eq:
  "addler_loop 65536 (uint a) (uint b) vs = Inr (map_prod uint uint (adler16_loop a b vs))"
proof (induction vs arbitrary: a b)
  case Nil
  then show ?case by simp
next
  case (Cons v vs)
  have "uint (a + word_of_int v) = (uint a + v) mod 65536"
    "uint (b + (a + word_of_int v)) = (uint b + (uint a + v) mod 65536) mod 65536"
    by (simp_all add: uint_word_ariths uint_word_of_int_eq take_bit_eq_mod mod_simps)
  then show ?case
    using Cons.IH [of "a + word_of_int v" "b + (a + word_of_int v)"] by (simp add: Let_def)
qed

text \<open>C26: The incremental checksum, reducing modulo mod at every step, equals the closed form: the sum of the running sums 1 + data[0] + ... + data[i], reduced once (for a non-zero modulus)\<close>

theorem addler_eq_ref:
  "m \<noteq> 0 \<Longrightarrow> addler data m = Inr (addler_ref data m)"
  by (simp add: addler_def addler_ref_def addler_loop_eq)

theorem addler_eq_ref_witness:
  "(7::int) \<noteq> 0 \<and> addler [1, 2, 3] 7 = Inr (addler_ref [1, 2, 3] 7) \<and> addler_ref [1, 2, 3] 7 = 6"
  using addler_eq_ref [of 7 "[1, 2, 3]"] by (simp add: addler_ref_def lessThan_nat_numeral)

text \<open>C27: For mod = 2^16 the checksum is the same loop on 16-bit machine words, whose additions wrap around\<close>

theorem addler_word16:
  "addler data 65536 = Inr (uint (snd (adler16_loop 1 0 data)))"
  using adler16_loop_eq [of 1 0 data] by (cases "adler16_loop 1 0 data") (simp add: addler_def)

text \<open>C28: The checksum lies in [0, mod) for a positive modulus and in (mod, 0] for a negative one (Python floor modulo); modulus 0 returns only for empty data, and raises ZeroDivisionError otherwise\<close>

theorem addler_result_range:
  assumes "addler data m = Inr r"
  shows "(m = 0 \<and> data = [] \<and> r = 0) \<or> (0 < m \<and> 0 \<le> r \<and> r < m) \<or> (m < 0 \<and> m < r \<and> r \<le> 0)"
proof (cases "m = 0")
  case True
  then show ?thesis using assms by (cases data) (simp_all add: addler_def)
next
  case False
  then have "r = addler_ref data m"
    using assms by (simp add: addler_def addler_loop_eq addler_ref_def split: if_splits)
  moreover have "0 < m \<or> m < 0" using False by linarith
  ultimately show ?thesis
    by (auto simp: addler_ref_def pos_mod_bound neg_mod_bound pos_mod_sign neg_mod_sign)
qed

theorem addler_result_range_witness:
  "addler [1, 2, 3] (- 7) = Inr (- 1)
   \<and> ((- 7 :: int) = 0 \<and> [1, 2, 3 :: int] = [] \<and> (- 1 :: int) = 0 \<or> 0 < (- 7 :: int) \<and> 0 \<le> (- 1 :: int) \<and> (- 1 :: int) < - 7
      \<or> (- 7 :: int) < 0 \<and> (- 7 :: int) < - 1 \<and> (- 1 :: int) \<le> 0)"
proof -
  have a: "addler [1, 2, 3] (- 7) = Inr (- 1)" by (simp add: addler_def)
  show ?thesis using a addler_result_range [OF a] by simp
qed

end
