(* ===== verification/Pipeline.thy ===== *)
theory Pipeline
  imports Batching "HOL-Library.Sublist"
begin

text \<open>
  The producer/consumer pipeline between the batch generator and the training loop
  (lines 394--404): \<open>tf.data.Dataset.from_generator(generator)\<close> pulls batches with
  \<open>next()\<close>, and \<open>.prefetch(buffer_size=AUTOTUNE)\<close> lets it run ahead of the consumer by
  up to \<open>k\<close> batches (\<open>k = 1\<close>: a batch is produced only when the consumer asks for it).
  The interleavings are the runs of the step relation \<open>pipe_step\<close>: the producer resumes
  the suspended generator (\<open>gen_next\<close>) and appends the yielded batch to the buffer, or
  the consumer takes the oldest buffered batch.  The generator state carries the global
  \<open>last_batch\<close> that \<open>on_epoch_end\<close> reads.
\<close>

record pipe =
  p_books :: "string list"
  p_cur :: "(int list \<times> nat \<times> nat) option"
  p_gen :: gen_state
  p_done :: bool
  p_buffer :: "batch list"
  p_consumed :: "batch list"

definition pipe_init :: "string list \<Rightarrow> gen_state \<Rightarrow> pipe" where
  "pipe_init books st =
     \<lparr>p_books = books, p_cur = None, p_gen = st, p_done = False, p_buffer = [], p_consumed = []\<rparr>"

inductive pipe_step :: "cfg \<Rightarrow> w2v \<Rightarrow> (string \<Rightarrow> int list) \<Rightarrow> nat \<Rightarrow> pipe \<Rightarrow> pipe \<Rightarrow> bool"
  for c d tok k where
  produce:
    "\<not> p_done s \<Longrightarrow> length (p_buffer s) < k \<Longrightarrow>
     gen_next c d tok (p_books s) (p_cur s) (p_gen s) = Inr (Some b, ps, cur, g) \<Longrightarrow>
     pipe_step c d tok k s (s\<lparr>p_books := ps, p_cur := cur, p_gen := g, p_buffer := p_buffer s @ [b]\<rparr>)"
| finish:
    "\<not> p_done s \<Longrightarrow> length (p_buffer s) < k \<Longrightarrow>
     gen_next c d tok (p_books s) (p_cur s) (p_gen s) = Inr (None, ps, cur, g) \<Longrightarrow>
     pipe_step c d tok k s (s\<lparr>p_books := ps, p_cur := cur, p_gen := g, p_done := True\<rparr>)"
| consume:
    "p_buffer s = b # rest \<Longrightarrow>
     pipe_step c d tok k s (s\<lparr>p_buffer := rest, p_consumed := p_consumed s @ [b]\<rparr>)"

inductive_cases pipe_step_cases: "pipe_step c d tok k s s'"

abbreviation pipe_reach :: "cfg \<Rightarrow> w2v \<Rightarrow> (string \<Rightarrow> int list) \<Rightarrow> nat \<Rightarrow> pipe \<Rightarrow> pipe \<Rightarrow> bool" where
  "pipe_reach c d tok k \<equiv> (pipe_step c d tok k)\<^sup>*\<^sup>*"

text \<open>The batches the producer has handed over so far, consumed or still buffered.\<close>

definition produced :: "pipe \<Rightarrow> batch list" where
  "produced s = p_consumed s @ p_buffer s"

text \<open>
  The work left in a state, for a run that hands over \<open>n\<close> batches in all: each batch
  still to produce costs a production and a consumption, each buffered batch a
  consumption, and an unfinished producer its final \<open>StopIteration\<close>.
\<close>

definition pipe_measure :: "nat \<Rightarrow> pipe \<Rightarrow> nat" where
  "pipe_measure n s = 2 * (n - length (produced s)) + length (p_buffer s) + (if p_done s then 0 else 1)"

text \<open>
  The invariant of every reachable state: the batches handed over so far, followed by what
  the suspended generator still yields, are what the list model \<open>generator\<close> yields; a
  finished producer has no book left; \<open>last_batch\<close> holds the last batch handed over
  (or its initial value); the buffer respects the prefetch bound.
\<close>

definition pipe_inv :: "cfg \<Rightarrow> w2v \<Rightarrow> (string \<Rightarrow> int list) \<Rightarrow> nat \<Rightarrow> string list \<Rightarrow> gen_state \<Rightarrow> pipe \<Rightarrow> bool" where
  "pipe_inv c d tok k books st s \<longleftrightarrow>
     rbind (gen_rest c d tok (p_books s) (p_cur s) (p_gen s)) (\<lambda>(bs, st'). Inr (produced s @ bs, st'))
       = generator c d tok books st
     \<and> (p_done s \<longrightarrow> p_books s = [] \<and> p_cur s = None)
     \<and> (produced s = [] \<longrightarrow> last_batch (p_gen s) = last_batch st)
     \<and> (produced s \<noteq> [] \<longrightarrow> emit (last_batch (p_gen s)) = last (produced s))
     \<and> length (p_buffer s) \<le> k"

text \<open>A run with a prefetch depth of two on one book of five tokens (two batches).\<close>

abbreviation ex_book :: "int list" where
  "ex_book \<equiv> [1, 2, 1, 2, 1]"

abbreviation ex_W :: "nat \<Rightarrow> window list" where
  "ex_W n \<equiv> group_windows ex_cfg ex_vocab ex_book n"

abbreviation ex_s3 :: pipe where
  "ex_s3 \<equiv> \<lparr>p_books = [], p_cur = Some (ex_book, 2, 0), p_gen = \<lparr>setx = [], last_batch = ex_W 1\<rparr>,
            p_done = False, p_buffer = [emit (ex_W 1)], p_consumed = [emit (ex_W 0)]\<rparr>"

section \<open>Properties\<close>

lemma pipe_inv_init: "pipe_inv c d tok k books st (pipe_init books st)"
  by (simp add: pipe_inv_def pipe_init_def produced_def gen_rest_def)

lemma rbind_prepend:
  "rbind (rbind r (\<lambda>(bs, st''). Inr (b # bs, st''))) (\<lambda>(bs, st'). Inr (f bs, st'))
   = rbind r (\<lambda>(bs, st'). Inr (f (b # bs), st'))"
  by (cases r) (auto split: prod.splits)

lemma pipe_inv_step:
  assumes "pipe_step c d tok k s s'" "pipe_inv c d tok k books st s"
  shows "pipe_inv c d tok k books st s'"
  using assms
proof (induction rule: pipe_step.induct)
  case (produce s b ps cur g)
  have r: "gen_rest c d tok (p_books s) (p_cur s) (p_gen s) =
      rbind (gen_rest c d tok ps cur g) (\<lambda>(bs, st''). Inr (b # bs, st''))"
    using gen_next_refines [of c d tok "p_books s" "p_cur s" "p_gen s"] produce.hyps(3) by simp
  have lb: "emit (last_batch g) = b"
    using gen_next_lockstep [OF produce.hyps(3)] by simp
  show ?case
    using produce.prems produce.hyps(1,2) r lb
    by (simp add: pipe_inv_def produced_def rbind_prepend)
next
  case (finish s ps cur g)
  have r: "gen_rest c d tok (p_books s) (p_cur s) (p_gen s) = Inr ([], g)"
    using gen_next_refines [of c d tok "p_books s" "p_cur s" "p_gen s"] finish.hyps(3) by simp
  have n: "ps = [] \<and> cur = None \<and> last_batch g = last_batch (p_gen s)"
    using gen_next_None [OF finish.hyps(3)] .
  then have "gen_rest c d tok ps cur g = Inr ([], g)"
    by (simp add: gen_rest_def)
  then show ?case
    using finish.prems r n by (simp add: pipe_inv_def produced_def)
next
  case (consume s b rest)
  then show ?case by (auto simp: pipe_inv_def produced_def)
qed

lemma pipe_inv_reach:
  assumes "pipe_reach c d tok k (pipe_init books st) s"
  shows "pipe_inv c d tok k books st s"
  using assms
proof (induction rule: rtranclp_induct)
  case base
  then show ?case by (rule pipe_inv_init)
next
  case (step s s')
  show ?case by (rule pipe_inv_step [OF step.hyps(2) step.IH])
qed

lemma pipe_inv_rest:
  assumes "pipe_inv c d tok k books st s" "generator c d tok books st = Inr (all, st_end)"
  shows "\<exists>rest. gen_rest c d tok (p_books s) (p_cur s) (p_gen s) = Inr (rest, st_end) \<and> all = produced s @ rest"
  using assms by (auto simp: pipe_inv_def rbind_eq_Inr)

lemma pipe_inv_done:
  "pipe_inv c d tok k books st s \<Longrightarrow> p_done s \<Longrightarrow>
   gen_rest c d tok (p_books s) (p_cur s) (p_gen s) = Inr ([], p_gen s)"
  by (simp add: pipe_inv_def gen_rest_def)

text \<open>Progress: with a positive prefetch depth, a state that is not drained has a step.\<close>

lemma pipe_progress:
  assumes inv: "pipe_inv c d tok k books st s" and g: "generator c d tok books st = Inr (all, st_end)"
    and k: "0 < k" and nf: "\<not> (p_done s \<and> p_buffer s = [])"
  shows "\<exists>s'. pipe_step c d tok k s s'"
proof (cases "p_buffer s")
  case (Cons b rest)
  then show ?thesis by (blast intro: pipe_step.consume)
next
  case Nil
  obtain rest where "gen_rest c d tok (p_books s) (p_cur s) (p_gen s) = Inr (rest, st_end)"
    using pipe_inv_rest [OF inv g] by blast
  then obtain ob ps cur g' where n: "gen_next c d tok (p_books s) (p_cur s) (p_gen s) = Inr (ob, ps, cur, g')"
    using gen_next_refines [of c d tok "p_books s" "p_cur s" "p_gen s"]
    by (cases "gen_next c d tok (p_books s) (p_cur s) (p_gen s)") auto
  show ?thesis
  proof (cases ob)
    case None
    have "pipe_step c d tok k s (s\<lparr>p_books := ps, p_cur := cur, p_gen := g', p_done := True\<rparr>)"
      using n Nil nf k None by (intro pipe_step.finish) simp_all
    then show ?thesis ..
  next
    case (Some b)
    have "pipe_step c d tok k s (s\<lparr>p_books := ps, p_cur := cur, p_gen := g', p_buffer := p_buffer s @ [b]\<rparr>)"
      using n Nil nf k Some by (intro pipe_step.produce) simp_all
    then show ?thesis ..
  qed
qed

text \<open>What the list model yields first is what the first \<open>next()\<close> returns.\<close>

lemma gen_rest_Cons:
  assumes "gen_rest c d tok ps cur st = Inr (b # bs, st_end)"
  shows "\<exists>ps' cur' st'. gen_next c d tok ps cur st = Inr (Some b, ps', cur', st')
           \<and> gen_rest c d tok ps' cur' st' = Inr (bs, st_end)"
proof -
  note r = gen_next_refines [of c d tok ps cur st]
  show ?thesis
  proof (cases "gen_next c d tok ps cur st")
    case (Inl e)
    with r assms show ?thesis by simp
  next
    case (Inr x)
    obtain ob ps' cur' st' where x: "x = (ob, ps', cur', st')" by (cases x) auto
    show ?thesis
    proof (cases ob)
      case None
      with r assms Inr x show ?thesis by simp
    next
      case (Some b')
      with r assms Inr x show ?thesis
        by (cases "gen_rest c d tok ps' cur' st'") (auto split: prod.splits)
    qed
  qed
qed

text \<open>A drained state is final: the producer has finished and nothing is buffered, so no
  rule applies (inversion of the step relation).\<close>

lemma pipe_final_no_step: "p_done s \<Longrightarrow> p_buffer s = [] \<Longrightarrow> \<not> pipe_step c d tok k s s'"
  by (auto elim: pipe_step_cases)

text \<open>Every step costs exactly one unit of the work left.\<close>

lemma pipe_measure_step:
  assumes st: "pipe_step c d tok k s s'" and inv: "pipe_inv c d tok k books st s"
    and g: "generator c d tok books st = Inr (all, st_end)"
  shows "Suc (pipe_measure (length all) s') = pipe_measure (length all) s"
proof -
  obtain rest where "all = produced s' @ rest"
    using pipe_inv_rest [OF pipe_inv_step [OF st inv] g] by blast
  then have "length (produced s') \<le> length all" by simp
  with st show ?thesis
    by (induction rule: pipe_step.induct) (auto simp: pipe_measure_def produced_def)
qed

lemma pipe_run_measure:
  assumes "(pipe_step c d tok k ^^ n) (pipe_init books st) s" and g: "generator c d tok books st = Inr (all, st_end)"
  shows "pipe_measure (length all) s + n = Suc (2 * length all)"
  using assms(1)
proof (induction n arbitrary: s)
  case 0
  then have "s = pipe_init books st" by simp
  then show ?case by (simp add: pipe_init_def pipe_measure_def produced_def)
next
  case (Suc n)
  from Suc.prems obtain y where y: "(pipe_step c d tok k ^^ n) (pipe_init books st) y"
    and st: "pipe_step c d tok k y s" by (rule relpowp_Suc_E)
  have "pipe_inv c d tok k books st y" by (rule pipe_inv_reach [OF relpowp_imp_rtranclp [OF y]])
  then have "Suc (pipe_measure (length all) s) = pipe_measure (length all) y"
    by (rule pipe_measure_step [OF st _ g])
  with Suc.IH [OF y] show ?case by simp
qed

lemma pipe_drain:
  assumes "pipe_reach c d tok k (pipe_init books st) s" and g: "generator c d tok books st = Inr (all, st_end)"
    and k: "0 < k"
  shows "\<exists>s'. pipe_reach c d tok k s s' \<and> p_done s' \<and> p_buffer s' = []"
  using assms(1)
proof (induction "pipe_measure (length all) s" arbitrary: s rule: less_induct)
  case less
  show ?case
  proof (cases "p_done s \<and> p_buffer s = []")
    case True
    then show ?thesis by blast
  next
    case False
    have inv: "pipe_inv c d tok k books st s" by (rule pipe_inv_reach [OF less.prems])
    obtain s1 where st: "pipe_step c d tok k s s1"
      using pipe_progress [OF inv g k False] by blast
    have "pipe_measure (length all) s1 < pipe_measure (length all) s"
      using pipe_measure_step [OF st inv g] by simp
    moreover have "pipe_reach c d tok k (pipe_init books st) s1"
      using less.prems st by (rule rtranclp.rtrancl_into_rtrancl)
    ultimately obtain s' where "pipe_reach c d tok k s1 s'" "p_done s'" "p_buffer s' = []"
      using less.hyps by blast
    then show ?thesis using st by (meson converse_rtranclp_into_rtranclp)
  qed
qed

lemma ex_gen_next_1:
  "gen_next ex_cfg ex_vocab (\<lambda>_. ex_book) [''a''] None \<lparr>setx = [], last_batch = []\<rparr> =
     Inr (Some (emit (ex_W 0)), [], Some (ex_book, Suc 0, Suc 0), \<lparr>setx = [], last_batch = ex_W 0\<rparr>)"
proof -
  have G: "book_groups ex_cfg ex_book = Inr (Suc (Suc 0))" by (simp add: book_groups_def)
  show ?thesis by (simp only: gen_next.simps Let_def G rbind_Inr) (simp add: Let_def)
qed

lemma ex_gen_next_2:
  "gen_next ex_cfg ex_vocab (\<lambda>_. ex_book) [] (Some (ex_book, Suc 0, Suc 0)) \<lparr>setx = [], last_batch = ex_W 0\<rparr> =
     Inr (Some (emit (ex_W 1)), [], Some (ex_book, 2, 0), \<lparr>setx = [], last_batch = ex_W 1\<rparr>)"
  by (simp add: numeral_2_eq_2 Let_def)

lemma ex_pipe_run3:
  "(pipe_step ex_cfg ex_vocab (\<lambda>_. ex_book) 2 ^^ 3) (pipe_init [''a''] ex_state) ex_s3"
proof -
  let ?s0 = "pipe_init [''a''] \<lparr>setx = [], last_batch = []\<rparr>"
  let ?s1 = "?s0\<lparr>p_books := [], p_cur := Some (ex_book, Suc 0, Suc 0), p_gen := \<lparr>setx = [], last_batch = ex_W 0\<rparr>,
                  p_buffer := p_buffer ?s0 @ [emit (ex_W 0)]\<rparr>"
  let ?s2 = "?s1\<lparr>p_books := [], p_cur := Some (ex_book, 2, 0), p_gen := \<lparr>setx = [], last_batch = ex_W 1\<rparr>,
                  p_buffer := p_buffer ?s1 @ [emit (ex_W 1)]\<rparr>"
  have 1: "pipe_step ex_cfg ex_vocab (\<lambda>_. ex_book) 2 ?s0 ?s1"
    by (rule pipe_step.produce) (insert ex_gen_next_1, simp_all add: pipe_init_def del: gen_next.simps)
  have 2: "pipe_step ex_cfg ex_vocab (\<lambda>_. ex_book) 2 ?s1 ?s2"
    by (rule pipe_step.produce) (insert ex_gen_next_2, simp_all add: pipe_init_def del: gen_next.simps)
  have 3: "pipe_step ex_cfg ex_vocab (\<lambda>_. ex_book) 2 ?s2 ex_s3"
    using pipe_step.consume [of ?s2 "emit (ex_W 0)" "[emit (ex_W 1)]" ex_cfg ex_vocab "\<lambda>_. ex_book" 2]
    by (simp add: pipe_init_def)
  show ?thesis unfolding numeral_3_eq_3 using 1 2 3 by (meson relpowp_Suc_I relpowp_0_I)
qed

lemma ex_pipe_run: "pipe_reach ex_cfg ex_vocab (\<lambda>_. ex_book) 2 (pipe_init [''a''] ex_state) ex_s3"
  by (rule relpowp_imp_rtranclp [OF ex_pipe_run3])

lemma ex_generator: "\<exists>all st_end. generator ex_cfg ex_vocab (\<lambda>_. ex_book) [''a''] ex_state = Inr (all, st_end)"
  by (simp add: book_groups_def numeral_2_eq_2 Let_def)

lemma ex_generator_batches:
  "\<exists>st_end. generator ex_cfg ex_vocab (\<lambda>_. ex_book) [''a''] ex_state = Inr ([emit (ex_W 0), emit (ex_W 1)], st_end)"
proof -
  have G: "book_groups ex_cfg ex_book = Inr (Suc (Suc 0))" by (simp add: book_groups_def)
  show ?thesis by (simp only: generator.simps Let_def G rbind_Inr) (simp add: numeral_2_eq_2 Let_def)
qed

lemma ex_batches_differ: "emit (ex_W 1) \<noteq> emit (ex_W 0)"
proof -
  have k: "py_str_int 1 = ''1''" "py_str_int 2 = ''2''" by code_simp+
  show ?thesis
    by (simp add: group_windows_def make_window_def emit_def py_slice_def py_tail_slice_def convert_def k
        upt_rec numeral_2_eq_2 Let_def)
qed

text \<open>C11: Whatever the interleaving of producer and consumer and the prefetch depth, the batches the pipeline hands to the training loop are a prefix of what the list model of the generator yields, in order, and all of them once the producer has finished\<close>

theorem pipeline_refines:
  assumes "pipe_reach c d tok k (pipe_init books st) s" "generator c d tok books st = Inr (all, st_end)"
  shows "prefix (produced s) all \<and> (p_done s \<longrightarrow> produced s = all \<and> p_gen s = st_end)"
proof -
  have inv: "pipe_inv c d tok k books st s" by (rule pipe_inv_reach [OF assms(1)])
  obtain rest where "gen_rest c d tok (p_books s) (p_cur s) (p_gen s) = Inr (rest, st_end)"
    and "all = produced s @ rest"
    using pipe_inv_rest [OF inv assms(2)] by blast
  with pipe_inv_done [OF inv] show ?thesis by auto
qed

theorem pipeline_refines_witness:
  "\<exists>all st_end. pipe_reach ex_cfg ex_vocab (\<lambda>_. ex_book) 2 (pipe_init [''a''] \<lparr>setx = [], last_batch = []\<rparr>) ex_s3
     \<and> generator ex_cfg ex_vocab (\<lambda>_. ex_book) [''a''] \<lparr>setx = [], last_batch = []\<rparr> = Inr (all, st_end)
     \<and> prefix (produced ex_s3) all \<and> (p_done ex_s3 \<longrightarrow> produced ex_s3 = all \<and> p_gen ex_s3 = st_end)"
proof -
  obtain all st_end where g: "generator ex_cfg ex_vocab (\<lambda>_. ex_book) [''a''] ex_state = Inr (all, st_end)"
    using ex_generator by blast
  show ?thesis using ex_pipe_run g pipeline_refines [OF ex_pipe_run g] by blast
qed

text \<open>C12: In every reachable state of the pipeline the shared last_batch slot holds the windows of the last batch the producer handed over, and at most k batches are buffered\<close>

theorem pipeline_last_batch:
  assumes "pipe_reach c d tok k (pipe_init books st) s" "produced s \<noteq> []"
  shows "emit (last_batch (p_gen s)) = last (produced s) \<and> length (p_buffer s) \<le> k"
  using pipe_inv_reach [OF assms(1)] assms(2) by (simp add: pipe_inv_def)

theorem pipeline_last_batch_witness:
  "pipe_reach ex_cfg ex_vocab (\<lambda>_. ex_book) 2 (pipe_init [''a''] \<lparr>setx = [], last_batch = []\<rparr>) ex_s3
   \<and> produced ex_s3 \<noteq> []
   \<and> emit (last_batch (p_gen ex_s3)) = last (produced ex_s3) \<and> length (p_buffer ex_s3) \<le> 2"
  using ex_pipe_run pipeline_last_batch [OF ex_pipe_run] by (simp add: produced_def)

text \<open>C32: With a prefetch depth of at least 2 the producer runs ahead of training: whenever the generator's first two batches differ, a reachable state has consumed only the first batch while the global last_batch, written by the generator, already holds the second one, buffered and not yet trained on; so the strict lockstep of the specification does not hold for the prefetching pipeline\<close>

theorem prefetch_breaks_lockstep:
  assumes k: "2 \<le> k" and g: "generator c d tok books st = Inr (b0 # b1 # bs, st_end)" and ne: "b0 \<noteq> b1"
  shows "\<exists>s. pipe_reach c d tok k (pipe_init books st) s \<and> p_consumed s = [b0] \<and> p_buffer s = [b1]
           \<and> emit (last_batch (p_gen s)) = b1 \<and> emit (last_batch (p_gen s)) \<noteq> last (p_consumed s)"
proof -
  let ?s0 = "pipe_init books st"
  have "gen_rest c d tok (p_books ?s0) (p_cur ?s0) (p_gen ?s0) = Inr (b0 # b1 # bs, st_end)"
    using g by (simp add: pipe_init_def gen_rest_def)
  then obtain ps1 cur1 g1 where n1: "gen_next c d tok (p_books ?s0) (p_cur ?s0) (p_gen ?s0) = Inr (Some b0, ps1, cur1, g1)"
    and r1: "gen_rest c d tok ps1 cur1 g1 = Inr (b1 # bs, st_end)"
    using gen_rest_Cons by blast
  obtain ps2 cur2 g2 where n2: "gen_next c d tok ps1 cur1 g1 = Inr (Some b1, ps2, cur2, g2)"
    using gen_rest_Cons [OF r1] by blast
  define s1 where "s1 = ?s0\<lparr>p_books := ps1, p_cur := cur1, p_gen := g1, p_buffer := p_buffer ?s0 @ [b0]\<rparr>"
  define s2 where "s2 = s1\<lparr>p_books := ps2, p_cur := cur2, p_gen := g2, p_buffer := p_buffer s1 @ [b1]\<rparr>"
  define s3 where "s3 = s2\<lparr>p_buffer := [b1], p_consumed := p_consumed s2 @ [b0]\<rparr>"
  have 1: "pipe_step c d tok k ?s0 s1"
    unfolding s1_def using n1 k by (intro pipe_step.produce) (simp_all add: pipe_init_def)
  have 2: "pipe_step c d tok k s1 s2"
    unfolding s2_def using n2 k by (intro pipe_step.produce) (simp_all add: s1_def pipe_init_def)
  have 3: "pipe_step c d tok k s2 s3"
    unfolding s3_def by (rule pipe_step.consume) (simp add: s2_def s1_def pipe_init_def)
  have "pipe_reach c d tok k ?s0 s3"
    using 1 2 3 by (meson rtranclp.rtrancl_into_rtrancl rtranclp.rtrancl_refl)
  moreover have "emit (last_batch (p_gen s3)) = b1"
    using gen_next_lockstep [OF n2] by (simp add: s3_def s2_def)
  moreover have "p_consumed s3 = [b0]" "p_buffer s3 = [b1]"
    by (simp_all add: s3_def s2_def s1_def pipe_init_def)
  ultimately show ?thesis using ne by auto
qed

theorem prefetch_breaks_lockstep_witness:
  "\<exists>st_end s. 2 \<le> (2::nat)
     \<and> generator ex_cfg ex_vocab (\<lambda>_. ex_book) [''a''] ex_state = Inr ([emit (ex_W 0), emit (ex_W 1)], st_end)
     \<and> emit (ex_W 0) \<noteq> emit (ex_W 1)
     \<and> pipe_reach ex_cfg ex_vocab (\<lambda>_. ex_book) 2 (pipe_init [''a''] ex_state) s
     \<and> p_consumed s = [emit (ex_W 0)] \<and> p_buffer s = [emit (ex_W 1)]
     \<and> emit (last_batch (p_gen s)) = emit (ex_W 1)"
proof -
  obtain st_end where g: "generator ex_cfg ex_vocab (\<lambda>_. ex_book) [''a''] ex_state = Inr ([emit (ex_W 0), emit (ex_W 1)], st_end)"
    using ex_generator_batches by blast
  have k: "2 \<le> (2::nat)" by simp
  have ne: "emit (ex_W 0) \<noteq> emit (ex_W 1)" using ex_batches_differ by metis
  show ?thesis using g k ne prefetch_breaks_lockstep [OF k g ne] by blast
qed

text \<open>C33: Termination of the pipeline: whatever the interleaving of producer and consumer and the prefetch depth, a run from the initial state has at most 2 * B + 1 steps, where B is the number of batches the generator yields (each batch is produced once and consumed once, and the producer stops once)\<close>

theorem pipeline_run_bound:
  assumes "(pipe_step c d tok k ^^ n) (pipe_init books st) s" "generator c d tok books st = Inr (all, st_end)"
  shows "n \<le> 2 * length all + 1"
  using pipe_run_measure [OF assms] by simp

theorem pipeline_run_bound_witness:
  "\<exists>all st_end. (pipe_step ex_cfg ex_vocab (\<lambda>_. ex_book) 2 ^^ 3) (pipe_init [''a''] ex_state) ex_s3
     \<and> generator ex_cfg ex_vocab (\<lambda>_. ex_book) [''a''] ex_state = Inr (all, st_end)
     \<and> 3 \<le> 2 * length all + 1"
proof -
  obtain all st_end where g: "generator ex_cfg ex_vocab (\<lambda>_. ex_book) [''a''] ex_state = Inr (all, st_end)"
    using ex_generator by blast
  show ?thesis using ex_pipe_run3 g pipeline_run_bound [OF ex_pipe_run3 g] by blast
qed

text \<open>C34: Liveness of the pipeline: with a positive prefetch depth, from every reachable state the run can go on until the producer has finished and the buffer is empty, a state where no step applies, and then the training loop has consumed exactly the batches of the generator, in order, and the generator state is the one the list model ends in; no reachable state is stuck before\<close>

theorem pipeline_drains:
  assumes "pipe_reach c d tok k (pipe_init books st) s" "generator c d tok books st = Inr (all, st_end)" "0 < k"
  shows "\<exists>s'. pipe_reach c d tok k s s' \<and> p_done s' \<and> p_buffer s' = [] \<and> p_consumed s' = all \<and> p_gen s' = st_end
             \<and> (\<forall>s''. \<not> pipe_step c d tok k s' s'')"
proof -
  obtain s' where r: "pipe_reach c d tok k s s'" "p_done s'" "p_buffer s' = []"
    using pipe_drain [OF assms] by blast
  have inv: "pipe_inv c d tok k books st s'"
    by (rule pipe_inv_reach [OF rtranclp_trans [OF assms(1) r(1)]])
  obtain rest where "gen_rest c d tok (p_books s') (p_cur s') (p_gen s') = Inr (rest, st_end)"
    and "all = produced s' @ rest"
    using pipe_inv_rest [OF inv assms(2)] by blast
  with pipe_inv_done [OF inv r(2)] r pipe_final_no_step [OF r(2,3)] show ?thesis by (auto simp: produced_def)
qed

theorem pipeline_drains_witness:
  "\<exists>all st_end s'. pipe_reach ex_cfg ex_vocab (\<lambda>_. ex_book) 2 (pipe_init [''a''] ex_state) ex_s3
     \<and> generator ex_cfg ex_vocab (\<lambda>_. ex_book) [''a''] ex_state = Inr (all, st_end) \<and> 0 < (2::nat)
     \<and> pipe_reach ex_cfg ex_vocab (\<lambda>_. ex_book) 2 ex_s3 s' \<and> p_done s' \<and> p_buffer s' = []
     \<and> p_consumed s' = all \<and> p_gen s' = st_end \<and> (\<forall>s''. \<not> pipe_step ex_cfg ex_vocab (\<lambda>_. ex_book) 2 s' s'')"
proof -
  obtain all st_end where g: "generator ex_cfg ex_vocab (\<lambda>_. ex_book) [''a''] ex_state = Inr (all, st_end)"
    using ex_generator by blast
  have k: "0 < (2::nat)" by simp
  show ?thesis using ex_pipe_run g k pipeline_drains [OF ex_pipe_run g k] by blast
qed

end
