(* ===== verification/Spec2Isabelle.thy ===== *)
theory Spec2Isabelle
  imports ModelGraph Training Utilities Pipeline
begin

text \<open>
  \<^bold>\<open>A verification library for src/train.py.\<close>

  The program is one Python script that trains a sequence model on books.  Tokens are
  not embedded by a learned table: every token id is looked up in a fixed vector
  dictionary (\<open>vec.vec\<close>), and predicted vectors are decoded back to token ids by a
  nearest-neighbour search in the same dictionary.  Its parts and how they interact:
  \<^item> the vector dictionary: the loader of \<open>vec.vec\<close> (lines 216--229), \<open>convert\<close>
    (token id to vector, lines 269--275), \<open>reverser\<close> (vector to key, lines 262--267) and
    \<open>reparse\<close> (lines 256--258), and the start-up assertion on token 11 (line 277);
  \<^item> the batch generator \<open>generator\<close> nested in \<open>run\<close> (lines 344--392), which cuts each
    book into windows through \<open>convert\<close> and yields batches, writing the module globals
    \<open>setx\<close> and \<open>last_batch\<close> (lines 314--315);
  \<^item> the attention layer \<open>TransformerLayer\<close> (lines 83--194) and the Keras graph of
    \<open>run\<close> that stacks two of them between a convolution and a dense layer
    (lines 316--341), which the batches are fed to;
  \<^item> the training driver: the checkpoint and learning-rate schedule (lines 33--79),
    \<open>hash_based_split\<close> (lines 286--298), \<open>estimate_loss\<close> (lines 301--312) and the
    epoch-end callback \<open>on_epoch_end\<close> (lines 407--465).  The callback reads
    \<open>last_batch\<close>, decodes one window with \<open>reverser\<close> and \<open>reparse\<close>, and writes the
    checkpoint that the next run's schedule is built from;
  \<^item> two helpers outside this flow: the checksum \<open>addler\<close> (lines 196--204, never called)
    and \<open>estimate_mfu\<close> (lines 235--253, its call commented out).

  \<^bold>\<open>Theories.\<close>
  \<^item> \<open>Prelude\<close>: the Python exceptions as the datatype \<open>py_error\<close> and the result type
    \<open>py_error + 'a\<close> with \<open>rbind\<close> (and its congruence rule, so that recursive
    functions may recurse under it); slicing \<open>xs[a:b]\<close> and \<open>xs[-n:]\<close>, \<open>str.split()\<close>,
    \<open>str(n)\<close> and \<open>int(s)\<close>, with the round trip \<open>int(str(n)) = n\<close> and its
    consequence that \<open>str\<close> is injective.  These, and \<open>py_float\<close> with its helpers in
    \<open>VectorDict\<close>, model the Python built-ins at the lines that call them.
  \<^item> \<open>VectorDict\<close>: the dictionary as an association list in first-insertion order
    (\<open>AList.update\<close> is Python's \<open>d[k] = v\<close>); \<open>py_float\<close>, \<open>parse_line\<close>,
    \<open>load_lines\<close>, \<open>load_vocab\<close>; \<open>convert\<close>; \<open>reverser\<close> with NumPy's broadcasting
    subtraction, row norms and \<open>np.argmin\<close> (\<open>py_argmin\<close>, the first least index);
    \<open>reparse_ids\<close>.  \<open>reverser_sq\<close> ranks by squared distance and is proved equal to
    \<open>reverser\<close>, so decoding evaluates without \<open>sqrt\<close>.  Lemmas: the decode round trip
    for a dictionary of distinct vectors of one length (C1, C3), the unknown-token
    policy and its false alarm for stored zero vectors (C2), the loader as a Python dict (C4)
    and exactly when and with which error it fails (C5); \<open>startup_check\<close> is the
    assertion of line 277, which fails exactly for a missing or zero vector (C38).
  \<^item> \<open>Batching\<close>: \<open>cfg\<close> and the generator state \<open>gen_state\<close> (the two globals);
    \<open>make_window\<close>, \<open>group_windows\<close>, the loop bound \<open>book_groups\<close>
    (\<open>len(book) // batchSize\<close>, the \<open>ZeroDivisionError\<close>), \<open>book_loop\<close> and
    \<open>generator\<close> as the list of everything the generator yields, and \<open>gen_next\<close> as
    the suspended coroutine one \<open>next()\<close> resumes; \<open>gen_next_refines\<close> proves that
    one \<open>next()\<close> agrees with the list model.  Lemmas: the batch count (C6), the overlap
    of consecutive batches (C7), when windows are full (C8), the window contents (C9), the
    error for \<open>batchSize = 0\<close> (C10), \<open>last_batch\<close> after a run (C13) and the vector
    width of batches (C14).
  \<^item> \<open>Pipeline\<close>: \<open>from_generator\<close> and \<open>prefetch\<close> (lines 394--404) as the inductive
    step relation \<open>pipe_step\<close> on the record \<open>pipe\<close>: the producer resumes
    \<open>gen_next\<close> into a buffer of at most \<open>k\<close> batches (the prefetch depth), records
    the generator's end, or the consumer takes the oldest buffered batch.  The invariant
    \<open>pipe_inv\<close> holds in every reachable state (rule induction).  Lemmas: whatever the
    interleaving, the consumed and buffered batches are a prefix of what \<open>generator\<close>
    yields, and all of it at the end (C11); \<open>last_batch\<close> holds the last batch handed
    over (C12); with a depth of at least 2, whenever the first two batches differ, a
    reachable state has consumed only the first while \<open>last_batch\<close> already holds the
    second (C32); every run has at most \<open>2 * B + 1\<close> steps for \<open>B\<close> batches
    (C33, termination, by the measure \<open>pipe_measure\<close> that each step lowers by one);
    and with a positive depth every reachable state can drain to the end, where the
    consumer has taken exactly the generator's batches (C34, liveness, from the progress
    lemma \<open>pipe_progress\<close>).
  \<^item> \<open>Tensor\<close>: the TensorFlow operations the layer calls, on flat row-major tensors
    (\<open>shape\<close>, \<open>tdata\<close>) with real entries: broadcasting arithmetic \<open>tbin\<close>,
    \<open>tf.reshape\<close> with \<open>-1\<close> (\<open>treshape\<close>), batched \<open>tf.matmul\<close>, \<open>tf.transpose\<close>,
    \<open>tf.squeeze\<close>, \<open>tf.ones\<close> and \<open>tf.reduce_mean\<close> over axis 1.  Each is a guard that
    raises \<open>InvalidArgument\<close> and a total raw operation; the lemmas give shapes,
    well-formedness, the index round trip \<open>ravel (unravel i) = i\<close> and the exact
    arithmetic facts the layer needs (adding zeros, multiplying by a zero scalar).
  \<^item> \<open>Attention\<close>: \<open>layer_init\<close> (\<open>__init__\<close>), \<open>layer_build\<close> (\<open>build\<close>, the
    random initializer a parameter), and \<open>layer_call\<close> composed of
    \<open>input_projection\<close>, \<open>attention_scores\<close> (with \<open>apply_mask\<close>),
    \<open>attention_output\<close> and \<open>feedforward\<close> in code order, every TensorFlow error a
    branch; \<open>compute_output_shape\<close>; \<open>get_config\<close> over an association-list
    config, with Keras' inverse \<open>from_config\<close> (\<open>cls(**config)\<close>).  Lemmas: identity at initialisation (C15),
    shape agreement with \<open>compute_output_shape\<close> (C16), the bounds of the gated weights
    (C17), the mask is a no-op (C18), a zero depth is accepted and then fails (C19),
    inputs whose positions differ from \<open>pad_size\<close> are rejected (C29), and a layer is
    re-created unchanged from its \<open>get_config\<close> (C39).
  \<^item> \<open>ModelGraph\<close>: \<open>permute21\<close>, \<open>conv1d_k1\<close> (kernel size 1, \<open>mish\<close>),
    \<open>dense3\<close>, \<open>graph_build\<close> (the layers' \<open>__init__\<close> and \<open>build\<close> for the
    static input shapes) and \<open>model_forward\<close>.  Lemmas: the graph maps
    \<open>[b, sequenceSize, predictSteps]\<close> to \<open>[b, sequenceSize, arrayDimension]\<close> when
    \<open>predictSteps = arrayDimension\<close> (C30) and fails otherwise (C31); right after
    construction both attention layers reduce to their input projections, so the
    predictions do not depend on the dropout masks (C36).
  \<^item> \<open>Training\<close>: \<open>checkpoint\<close>, \<open>model_id\<close>, \<open>model_path\<close> and
    \<open>checkpoint_path\<close> (lines 51--53), \<open>startup_schedule\<close> and \<open>lr_at\<close> (ExponentialDecay),
    \<open>hash_based_split\<close>, \<open>estimate_loss\<close>, \<open>on_epoch_end\<close> with its effects as a list
    of \<open>event\<close>s and an exception as \<open>Inl\<close> after the effects already done, and
    \<open>run_epochs\<close>/\<open>train_run\<close> for \<open>model.fit\<close>.  Lemmas: resume counts an epoch twice
    (C20), metrics only when the flag \<open>wandb_log\<close> is set (line 54 sets it, against its
    comment) and then for each epoch with a non-empty last batch (C21), a short
    validation set aborts the run after the checkpoint write (C22), the split is a
    partition by the hash threshold (C23), \<open>estimate_loss\<close> (C24), the schedule's
    bounds and monotone decay below \<open>max_iters\<close> (C37) and its growth past
    \<open>max_iters\<close> (C25); the checkpoint file and the saved
    model are shared by all configurations with the same \<open>sequenceSize\<close> and
    \<open>dimension\<close> (C35).
  \<^item> \<open>Utilities\<close>: \<open>addler\<close> on Python ints, proved equal to its closed form
    \<open>addler_ref\<close> (C26) and, for the modulus \<open>2^16\<close>, to the same loop on \<open>16 word\<close>
    with wrap-around addition (C27), with its range (C28); \<open>estimate_mfu\<close> (modelled and
    mapped, with its two \<open>ZeroDivisionError\<close>s, but its only call is commented out).

  \<^bold>\<open>Bounds and fuel.\<close>  No definition needs fuel: every loop of the script runs over a
  finite list or a \<open>range\<close>, so each is a \<open>fun\<close> over that list or over the number of
  iterations left (\<open>book_loop\<close>, \<open>loss_loop\<close>, \<open>run_epochs\<close>) and terminates
  structurally; for \<open>gen_next\<close> the termination proof of \<open>fun\<close> uses the books left
  and the iterations left in the current book.  The pipeline is a relation, not a
  function; its runs are bounded by C33 rather than by fuel.  The tensor model has no bound on sizes:
  the lemmas hold for all shapes, and the witnesses use the default configuration
  (\<open>sequenceSize = dimension = 512\<close>, \<open>arrayDimension = predictSteps = 8\<close>) where the
  evaluation needs no data, and small examples elsewhere.

  \<^bold>\<open>Not modelled.\<close>  File and network I/O (reading books, pickled token caches,
  \<open>model.save\<close>, wandb) appear only as events or parameters; the tokenizer
  (\<open>tiktoken\<close>) and md5 are library functions and parameters; the Keras training step,
  the optimizer and the Huber loss are abstracted to what an epoch leaves behind and to a
  loss function; \<open>tf.data\<close>'s \<open>cache()\<close> (a replay of the first complete pass) and
  the way Keras draws \<open>steps_per_epoch\<close> batches per epoch from the prefetched
  iterator are library behaviour and not modelled, and the prefetch depth
  \<open>AUTOTUNE\<close> chooses is the parameter \<open>k\<close>; the wandb run name (line 56) holds a
  timestamp and is not modelled; the epoch timing (\<open>setattr_time\<close>, lines 38--39,
  and \<open>dt\<close> in \<open>on_epoch_end\<close>) only feeds the commented-out \<open>estimate_mfu\<close> call
  and is not modelled; float32 and
  float64 rounding is not modelled (reals throughout), nor NaN and infinities; logging
  calls other than the effects listed are omitted; loading a saved model, \<open>model.compile\<close> and \<open>model.summary\<close> are not
  modelled.
  The NumPy conversions are the identity: \<open>np.array(..., dtype=np.float32)\<close> of a
  window (lines 375--376) and of a batch (lines 387--388) never raise, although NumPy
  rejects a ragged batch, so the generator raises \<open>ValueError\<close> on the short windows
  C8 characterises instead of yielding them; every theorem about the generator assumes
  it returned.  \<open>from_generator\<close>'s check of the declared output shape (lines
  395--396) is not part of \<open>pipe_step\<close>.  \<open>str.split\<close> splits at ASCII
  whitespace only and \<open>int(s)\<close> rejects underscores and surrounding whitespace, which
  the keys \<open>split()\<close> returns never contain; \<open>py_float\<close> covers the decimal syntax
  of the vocabulary files (no \<open>inf\<close>, \<open>nan\<close> or underscores), and the loader
  theorems hold for any float parser.  \<open>tf.reduce_mean\<close> over zero positions gives 0
  in the model where TensorFlow gives NaN; the layer never reduces an empty axis.
\<close>

end
